theory Spec2Isabelle
  imports Complex_Main "HOL-Library.AList"
begin

section \<open>JavaScript strings\<close>

text \<open>
  A JavaScript string is a sequence of UTF-16 code units; \<^verbatim>\<open>charCodeAt\<close>, \<^verbatim>\<open>indexOf\<close>,
  \<^verbatim>\<open>slice\<close> and \<^verbatim>\<open>length\<close> all count code units.  \<open>js\<close> turns an ASCII literal into
  such a string.
\<close>

type_synonym js_string = "nat list"

definition js :: "string \<Rightarrow> js_string" where
  "js s = map of_char s"

text \<open>The characters \<^verbatim>\<open>String.prototype.trim\<close> removes: WhiteSpace and LineTerminator.\<close>

definition js_whitespace :: "nat \<Rightarrow> bool" where
  "js_whitespace c =
     (c \<in> set [0x09, 0x0A, 0x0B, 0x0C, 0x0D, 0x20, 0xA0, 0x1680, 0x2028, 0x2029, 0x202F,
                0x205F, 0x3000, 0xFEFF] \<or> (0x2000 \<le> c \<and> c \<le> 0x200A))"

definition trim :: "js_string \<Rightarrow> js_string" where
  "trim s = rev (dropWhile js_whitespace (rev (dropWhile js_whitespace s)))"

definition startsWith :: "js_string \<Rightarrow> js_string \<Rightarrow> bool" where
  "startsWith s t = (take (length t) s = t)"

text \<open>
  \<^verbatim>\<open>s.indexOf(t)\<close> and \<^verbatim>\<open>s.indexOf(t, start)\<close>; \<open>None\<close> is \<open>-1\<close>.  A start position
  beyond the end is clamped to the end by JavaScript and by \<^const>\<open>drop\<close>.
\<close>

fun indexOf :: "js_string \<Rightarrow> js_string \<Rightarrow> nat option" where
  "indexOf [] t = (if t = [] then Some 0 else None)"
| "indexOf (c # s) t =
     (if startsWith (c # s) t then Some 0
      else (case indexOf s t of None \<Rightarrow> None | Some i \<Rightarrow> Some (Suc i)))"

definition indexOf_from :: "js_string \<Rightarrow> js_string \<Rightarrow> nat \<Rightarrow> nat option" where
  "indexOf_from s t start =
     (case indexOf (drop start s) t of None \<Rightarrow> None | Some i \<Rightarrow> Some (start + i))"

text \<open>\<^verbatim>\<open>s.lastIndexOf(t, fromIndex)\<close> for \<open>fromIndex \<ge> 0\<close>: the last occurrence at or before it.\<close>

fun lastIndexOf :: "js_string \<Rightarrow> js_string \<Rightarrow> nat \<Rightarrow> nat option" where
  "lastIndexOf s t 0 = (if startsWith s t then Some 0 else None)"
| "lastIndexOf s t (Suc n) =
     (if Suc n + length t \<le> length s \<and> startsWith (drop (Suc n) s) t then Some (Suc n)
      else lastIndexOf s t n)"

text \<open>\<^verbatim>\<open>s.includes(t)\<close>, on any kind of character.\<close>

fun str_includes :: "'a list \<Rightarrow> 'a list \<Rightarrow> bool" where
  "str_includes [] t = (t = [])"
| "str_includes (c # s) t = (take (length t) (c # s) = t \<or> str_includes s t)"

text \<open>Decimal rendering of a number in a template literal.\<close>

fun digits :: "nat \<Rightarrow> js_string" where
  "digits n = (if n < 10 then [48 + n] else digits (n div 10) @ [48 + n mod 10])"

declare digits.simps [simp del]

text \<open>\<^verbatim>\<open>parts.join(sep)\<close>.\<close>

fun join :: "js_string \<Rightarrow> js_string list \<Rightarrow> js_string" where
  "join sep [] = []"
| "join sep [x] = x"
| "join sep (x # y # rest) = x @ sep @ join sep (y # rest)"

text \<open>
  Optional fields of the TypeScript interfaces are \<open>option\<close> values (\<open>None\<close> is
  \<^verbatim>\<open>undefined\<close>).  The JavaScript idioms \<^verbatim>\<open>x || 0\<close> and the truthiness test of an
  optional number or boolean are written out once.
\<close>

definition or0 :: "int option \<Rightarrow> int" where
  "or0 x = (case x of None \<Rightarrow> 0 | Some n \<Rightarrow> n)"

definition truthy_num :: "int option \<Rightarrow> bool" where
  "truthy_num x = (case x of None \<Rightarrow> False | Some n \<Rightarrow> n \<noteq> 0)"

definition truthy :: "bool option \<Rightarrow> bool" where
  "truthy x = (x = Some True)"

text \<open>
  JSON values.  An object keeps its keys in insertion order.  \<^verbatim>\<open>JSON.parse\<close> and
  \<^verbatim>\<open>JSON.stringify\<close> belong to the platform; the functions that call them take them as
  arguments, \<open>None\<close> standing for the \<^verbatim>\<open>SyntaxError\<close> of \<^verbatim>\<open>JSON.parse\<close>.
\<close>

datatype json =
    JNull
  | JBool bool
  | JNumber rat
  | JString js_string
  | JArray "json list"
  | JObject "(js_string \<times> json) list"

definition truthy_str :: "js_string option \<Rightarrow> bool" where
  "truthy_str x = (case x of None \<Rightarrow> False | Some s \<Rightarrow> s \<noteq> [])"


section \<open>Kiro to OpenAI response (lib/converter: kiroToOpenaiResponse)\<close>

text \<open>
  A tool use carries a JSON value as input (type parameter \<open>'j\<close>; \<^typ>\<open>json\<close> where the
  code looks into it), and \<^verbatim>\<open>JSON.stringify\<close> is passed in.  The random UUID and the clock
  reading are arguments.
\<close>

record 'j KiroToolUse =
  toolUseId :: js_string
  tu_name :: js_string
  tu_input :: 'j

record KiroUsage =
  u_inputTokens :: int
  u_outputTokens :: int
  u_cacheReadTokens :: "int option"
  u_cacheWriteTokens :: "int option"
  u_reasoningTokens :: "int option"

datatype finish_reason = Stop | Length | Tool_calls

record OpenAIToolCall =
  tc_id :: js_string
  tc_type :: js_string
  tc_function_name :: js_string
  tc_function_arguments :: js_string

record OpenAIResponseMessage =
  rm_role :: js_string
  rm_content :: "js_string option"
  rm_tool_calls :: "OpenAIToolCall list option"

record OpenAIChoice =
  ch_index :: int
  ch_message :: OpenAIResponseMessage
  ch_finish_reason :: "finish_reason option"

record OpenAIUsage =
  prompt_tokens :: int
  completion_tokens :: int
  total_tokens :: int
  prompt_tokens_details_cached_tokens :: "int option"
  completion_tokens_details_reasoning_tokens :: "int option"
  prompt_cache_hit_tokens :: "int option"

record OpenAIChatResponse =
  resp_id :: js_string
  resp_object :: js_string
  resp_created :: int
  resp_model :: js_string
  resp_choices :: "OpenAIChoice list"
  resp_usage :: OpenAIUsage

definition kiroToOpenaiResponse ::
  "('j \<Rightarrow> js_string) \<Rightarrow> js_string \<Rightarrow> int \<Rightarrow> js_string \<Rightarrow> 'j KiroToolUse list \<Rightarrow> KiroUsage \<Rightarrow> js_string
     \<Rightarrow> OpenAIChatResponse" where
  "kiroToOpenaiResponse stringify uuid now content toolUses usage model =
     \<lparr>resp_id = js ''chatcmpl-'' @ uuid,
      resp_object = js ''chat.completion'',
      resp_created = now div 1000,
      resp_model = model,
      resp_choices =
        [\<lparr>ch_index = 0,
          ch_message =
            \<lparr>rm_role = js ''assistant'',
             rm_content = (if length toolUses > 0 then None else Some content),
             rm_tool_calls =
               (if length toolUses > 0
                then Some (map (\<lambda>tu. \<lparr>tc_id = toolUseId tu, tc_type = js ''function'',
                                       tc_function_name = tu_name tu,
                                       tc_function_arguments = stringify (tu_input tu)\<rparr>) toolUses)
                else None)\<rparr>,
          ch_finish_reason = (if length toolUses > 0 then Some Tool_calls else Some Stop)\<rparr>],
      resp_usage =
        \<lparr>prompt_tokens = u_inputTokens usage,
         completion_tokens = u_outputTokens usage,
         total_tokens = u_inputTokens usage + u_outputTokens usage,
         prompt_tokens_details_cached_tokens =
           (if truthy_num (u_cacheReadTokens usage) then u_cacheReadTokens usage else None),
         completion_tokens_details_reasoning_tokens =
           (if truthy_num (u_reasoningTokens usage) then u_reasoningTokens usage else None),
         prompt_cache_hit_tokens =
           (if truthy_num (u_cacheReadTokens usage) then u_cacheReadTokens usage else None)\<rparr>\<rparr>"


section \<open>Streaming thinking parser (lib/stream.ts: class ThinkingBufferParser)\<close>

definition THINKING_START_TAG :: js_string where
  "THINKING_START_TAG = js ''<thinking>''"

definition THINKING_END_TAG :: js_string where
  "THINKING_END_TAG = js ''</thinking>''"

definition MAX_THINKING_CHARS :: nat where
  "MAX_THINKING_CHARS = 100000"

text \<open>
  \<^verbatim>\<open>QUOTE_CHARS\<close>: backquote, double quote, quote, backslash and
  \<^verbatim>\<open># ! @ $ % ^ & * ( ) - _ = + [ ] { } ; : < > , . ? /\<close>, by code unit.
\<close>

definition QUOTE_CHARS :: "nat list" where
  "QUOTE_CHARS = [96, 34, 39, 92, 35, 33, 64, 36, 37, 94, 38, 42, 40, 41, 45, 95, 61, 43,
                  91, 93, 123, 125, 59, 58, 60, 62, 44, 46, 63, 47]"

definition isPrecededByQuoteChar :: "js_string \<Rightarrow> nat \<Rightarrow> bool" where
  "isPrecededByQuoteChar buffer pos =
     (if pos = 0 then False else buffer ! (pos - 1) \<in> set QUOTE_CHARS)"

lemma indexOf_bound: "t \<noteq> [] \<Longrightarrow> indexOf s t = Some i \<Longrightarrow> i < length s"
  by (induction s arbitrary: i) (auto split: if_splits option.splits)

lemma indexOf_from_bound:
  "t \<noteq> [] \<Longrightarrow> indexOf_from s t start = Some pos \<Longrightarrow> start \<le> pos \<and> pos < length s"
  by (auto simp: indexOf_from_def split: option.splits dest!: indexOf_bound)

lemma THINKING_START_TAG_nonempty: "THINKING_START_TAG \<noteq> []"
  by (simp add: THINKING_START_TAG_def js_def)

lemma THINKING_END_TAG_nonempty: "THINKING_END_TAG \<noteq> []"
  by (simp add: THINKING_END_TAG_def js_def)

function findRealThinkingStartTag_from :: "js_string \<Rightarrow> nat \<Rightarrow> nat option" where
  "findRealThinkingStartTag_from buffer searchStart =
     (case indexOf_from buffer THINKING_START_TAG searchStart of
        None \<Rightarrow> None
      | Some pos \<Rightarrow>
          if \<not> isPrecededByQuoteChar buffer pos then Some pos
          else findRealThinkingStartTag_from buffer (pos + 1))"
  by pat_completeness auto
termination
  by (relation "measure (\<lambda>(buffer, searchStart). length buffer - searchStart)")
     (auto dest!: indexOf_from_bound [OF THINKING_START_TAG_nonempty])

definition findRealThinkingStartTag :: "js_string \<Rightarrow> nat option" where
  "findRealThinkingStartTag buffer = findRealThinkingStartTag_from buffer 0"

function findRealThinkingEndTag_from :: "js_string \<Rightarrow> nat \<Rightarrow> nat option" where
  "findRealThinkingEndTag_from buffer searchStart =
     (case indexOf_from buffer THINKING_END_TAG searchStart of
        None \<Rightarrow> None
      | Some pos \<Rightarrow>
          if isPrecededByQuoteChar buffer pos then findRealThinkingEndTag_from buffer (pos + 1)
          else if startsWith (drop (pos + length THINKING_END_TAG) buffer) (js [CHR 0x0A, CHR 0x0A])
          then Some pos
          else if length (drop (pos + length THINKING_END_TAG) buffer) < 2 then None
          else findRealThinkingEndTag_from buffer (pos + 1))"
  by pat_completeness auto
termination
  by (relation "measure (\<lambda>(buffer, searchStart). length buffer - searchStart)")
     (auto dest!: indexOf_from_bound [OF THINKING_END_TAG_nonempty])

definition findRealThinkingEndTag :: "js_string \<Rightarrow> nat option" where
  "findRealThinkingEndTag buffer = findRealThinkingEndTag_from buffer 0"

function findRealThinkingEndTagAtBufferEnd_from :: "js_string \<Rightarrow> nat \<Rightarrow> nat option" where
  "findRealThinkingEndTagAtBufferEnd_from buffer searchStart =
     (case indexOf_from buffer THINKING_END_TAG searchStart of
        None \<Rightarrow> None
      | Some pos \<Rightarrow>
          if isPrecededByQuoteChar buffer pos
          then findRealThinkingEndTagAtBufferEnd_from buffer (pos + 1)
          else if trim (drop (pos + length THINKING_END_TAG) buffer) = []
                  \<or> startsWith (drop (pos + length THINKING_END_TAG) buffer) (js [CHR 0x0A])
          then Some pos
          else findRealThinkingEndTagAtBufferEnd_from buffer (pos + 1))"
  by pat_completeness auto
termination
  by (relation "measure (\<lambda>(buffer, searchStart). length buffer - searchStart)")
     (auto dest!: indexOf_from_bound [OF THINKING_END_TAG_nonempty])

definition findRealThinkingEndTagAtBufferEnd :: "js_string \<Rightarrow> nat option" where
  "findRealThinkingEndTagAtBufferEnd buffer = findRealThinkingEndTagAtBufferEnd_from buffer 0"

text \<open>
  \<^verbatim>\<open>pendingTagSuffix\<close>: the longest suffix of the buffer, shorter than the tag, that is a
  prefix of the tag; the loop counts \<open>length\<close> down from \<open>maxLen\<close>.
\<close>

fun pendingTagSuffix_loop :: "js_string \<Rightarrow> js_string \<Rightarrow> nat \<Rightarrow> nat" where
  "pendingTagSuffix_loop buffer tag 0 = 0"
| "pendingTagSuffix_loop buffer tag (Suc n) =
     (if drop (length buffer - Suc n) buffer = take (Suc n) tag then Suc n
      else pendingTagSuffix_loop buffer tag n)"

definition pendingTagSuffix :: "js_string \<Rightarrow> js_string \<Rightarrow> nat" where
  "pendingTagSuffix buffer tag =
     (if buffer = [] \<or> tag = [] then 0
      else pendingTagSuffix_loop buffer tag (min (length buffer) (length tag - 1)))"

datatype item_type = Thinking | Text

type_synonym item = "item_type \<times> js_string"

record ThinkingBufferParser =
  buffer :: js_string
  inThinkBlock :: bool
  pendingStartTagChars :: nat
  thinkingLength :: nat
  overflowWarned :: bool

definition newThinkingBufferParser :: ThinkingBufferParser where
  "newThinkingBufferParser =
     \<lparr>buffer = [], inThinkBlock = False, pendingStartTagChars = 0, thinkingLength = 0,
      overflowWarned = False\<rparr>"

text \<open>
  The test of the large-chunk fast path inside a thinking block: the buffer is longer than
  \<^verbatim>\<open>SAFE_THRESHOLD = 256\<close>, no \<^verbatim>\<open></\<close> starts at or before
  \<^verbatim>\<open>length - THINKING_END_TAG.length - 2\<close>, and \<^verbatim>\<open>safeLen > 0\<close>.
\<close>

definition fast_path :: "js_string \<Rightarrow> bool" where
  "fast_path b =
     (length b > 256
      \<and> lastIndexOf b (js ''</'') (length b - length THINKING_END_TAG - 2) = None
      \<and> length b - (length THINKING_END_TAG + 2) > 0)"

text \<open>
  One pass through the body of the \<^verbatim>\<open>while (this.buffer.length > 0)\<close> loop of
  \<^verbatim>\<open>process\<close>, from the test of \<^verbatim>\<open>inThinkBlock\<close> on.  The first component of the result
  tells whether the loop goes on (\<^verbatim>\<open>continue\<close>, or the end of the body) or stops
  (\<^verbatim>\<open>break\<close>).
\<close>

definition process_body ::
  "ThinkingBufferParser \<Rightarrow> item list \<Rightarrow> bool \<times> ThinkingBufferParser \<times> item list" where
  "process_body p results =
     (if \<not> inThinkBlock p then
        (case findRealThinkingStartTag (buffer p) of
           None \<Rightarrow>
             (let pending = pendingTagSuffix (buffer p) THINKING_START_TAG
              in if pending = length (buffer p) \<and> pending > 0
                 then (False,
                       p\<lparr>pendingStartTagChars := length THINKING_START_TAG - pending,
                         inThinkBlock := True, thinkingLength := 0, buffer := []\<rparr>,
                       results)
                 else if length (buffer p) - pending = 0 then (False, p, results)
                 else (True,
                       p\<lparr>buffer := drop (length (buffer p) - pending) (buffer p)\<rparr>,
                       results @ [(Text, take (length (buffer p) - pending) (buffer p))]))
         | Some start \<Rightarrow>
             (True,
              p\<lparr>buffer := drop (start + length THINKING_START_TAG) (buffer p),
                inThinkBlock := True, thinkingLength := 0\<rparr>,
              (if trim (take start (buffer p)) \<noteq> []
               then results @ [(Text, take start (buffer p))] else results)))
      else if thinkingLength p > MAX_THINKING_CHARS then
        (True,
         p\<lparr>overflowWarned := True, buffer := [], inThinkBlock := False, thinkingLength := 0\<rparr>,
         (if length (buffer p) > 0 then results @ [(Thinking, buffer p)] else results))
      else if fast_path (buffer p)
      then
        (let safeLen = length (buffer p) - (length THINKING_END_TAG + 2)
         in (True,
             p\<lparr>thinkingLength := thinkingLength p + safeLen, buffer := drop safeLen (buffer p)\<rparr>,
             results @ [(Thinking, take safeLen (buffer p))]))
      else
        (case findRealThinkingEndTag (buffer p) of
           None \<Rightarrow>
             (let pending = max (pendingTagSuffix (buffer p) THINKING_END_TAG)
                                (pendingTagSuffix (buffer p) (THINKING_END_TAG @ js [CHR 0x0A, CHR 0x0A]))
              in if length (buffer p) - pending = 0 then (False, p, results)
                 else (True,
                       p\<lparr>thinkingLength := thinkingLength p + (length (buffer p) - pending),
                         buffer := drop (length (buffer p) - pending) (buffer p)\<rparr>,
                       results @ [(Thinking, take (length (buffer p) - pending) (buffer p))]))
         | Some e \<Rightarrow>
             (True,
              (if take e (buffer p) \<noteq> []
               then p\<lparr>thinkingLength := thinkingLength p + e\<rparr> else p)
                \<lparr>buffer := drop (e + length THINKING_END_TAG) (buffer p),
                 inThinkBlock := False, thinkingLength := 0, overflowWarned := False\<rparr>,
              (if take e (buffer p) \<noteq> [] then results @ [(Thinking, take e (buffer p))]
               else results))))"

text \<open>
  The whole loop body: first the characters owed to a start tag that was begun at the end
  of an earlier chunk are dropped, whatever they are.
\<close>

definition process_step ::
  "ThinkingBufferParser \<Rightarrow> item list \<Rightarrow> bool \<times> ThinkingBufferParser \<times> item list" where
  "process_step p results =
     (if pendingStartTagChars p > 0 then
        (if length (buffer p) < pendingStartTagChars p
         then (False,
               p\<lparr>pendingStartTagChars := pendingStartTagChars p - length (buffer p), buffer := []\<rparr>,
               results)
         else if drop (pendingStartTagChars p) (buffer p) = []
         then (False, p\<lparr>buffer := [], pendingStartTagChars := 0\<rparr>, results)
         else process_body
                (p\<lparr>buffer := drop (pendingStartTagChars p) (buffer p), pendingStartTagChars := 0\<rparr>)
                results)
      else process_body p results)"


lemma process_body_shrinks:
  assumes "buffer p \<noteq> []" and "process_body p results = (True, p', results')"
  shows "length (buffer p') < length (buffer p)"
proof -
  have d: "\<And>n. 0 < n \<Longrightarrow> length (buffer p) - n < length (buffer p)"
    using assms(1) by (cases "buffer p") auto
  have tag: "length THINKING_START_TAG = 10" "length THINKING_END_TAG = 11"
    by (simp_all add: THINKING_START_TAG_def THINKING_END_TAG_def js_def)
  show ?thesis
  proof (cases "inThinkBlock p")
    case False
    show ?thesis
    proof (cases "findRealThinkingStartTag (buffer p)")
      case None
      with False assms show ?thesis
        by (auto simp: process_body_def Let_def split: if_splits)
    next
      case (Some start)
      with False assms show ?thesis
        using d [of "start + 10"] by (auto simp: process_body_def tag)
    qed
  next
    case True
    note inb = True
    show ?thesis
    proof (cases "thinkingLength p > MAX_THINKING_CHARS")
      case True
      with inb assms show ?thesis by (auto simp: process_body_def)
    next
      case False
      note nover = False
      show ?thesis
      proof (cases "fast_path (buffer p)")
        case True
        then have "length (buffer p) - (length THINKING_END_TAG + 2) > 0"
          by (simp add: fast_path_def)
        with True inb nover assms show ?thesis
          by (auto simp: process_body_def Let_def tag)
      next
        case False
        note nfast = False
        show ?thesis
        proof (cases "findRealThinkingEndTag (buffer p)")
          case None
          have "process_body p results =
                 (let pending = max (pendingTagSuffix (buffer p) THINKING_END_TAG)
                                (pendingTagSuffix (buffer p) (THINKING_END_TAG @ js [CHR 0x0A, CHR 0x0A]))
                  in if length (buffer p) - pending = 0 then (False, p, results)
                     else (True,
                       p\<lparr>thinkingLength := thinkingLength p + (length (buffer p) - pending),
                         buffer := drop (length (buffer p) - pending) (buffer p)\<rparr>,
                       results @ [(Thinking, take (length (buffer p) - pending) (buffer p))]))"
            using inb nover nfast None unfolding process_body_def by simp
          with assms show ?thesis
            by (auto simp: Let_def split: if_splits)
        next
          case (Some e)
          have "process_body p results =
             (True,
              (if take e (buffer p) \<noteq> []
               then p\<lparr>thinkingLength := thinkingLength p + e\<rparr> else p)
                \<lparr>buffer := drop (e + length THINKING_END_TAG) (buffer p),
                 inThinkBlock := False, thinkingLength := 0, overflowWarned := False\<rparr>,
              (if take e (buffer p) \<noteq> [] then results @ [(Thinking, take e (buffer p))]
               else results))"
            using inb nover nfast Some unfolding process_body_def by simp
          with assms show ?thesis
            using d [of "e + 11"] by (auto simp: tag split: if_splits)
        qed
      qed
    qed
  qed
qed

lemma process_step_shrinks:
  assumes "buffer p \<noteq> []" and "process_step p results = (True, p', results')"
  shows "length (buffer p') < length (buffer p)"
proof (cases "pendingStartTagChars p > 0")
  case False
  with assms show ?thesis by (auto simp: process_step_def dest: process_body_shrinks)
next
  case True
  let ?q = "p\<lparr>buffer := drop (pendingStartTagChars p) (buffer p), pendingStartTagChars := 0\<rparr>"
  from True assms have ne: "buffer ?q \<noteq> []" and b: "process_body ?q results = (True, p', results')"
    by (auto simp: process_step_def split: if_splits)
  from process_body_shrinks [OF ne b] show ?thesis by simp
qed

function process_loop :: "ThinkingBufferParser \<Rightarrow> item list \<Rightarrow> ThinkingBufferParser \<times> item list" where
  "process_loop p results =
     (if buffer p = [] then (p, results)
      else if fst (process_step p results)
      then process_loop (fst (snd (process_step p results))) (snd (snd (process_step p results)))
      else snd (process_step p results))"
  by pat_completeness auto
termination
proof (relation "measure (\<lambda>(p, results). length (buffer p))")
  show "wf (measure (\<lambda>(p, results). length (buffer p)))" by simp
next
  fix p :: ThinkingBufferParser and results :: "item list"
  assume ne: "buffer p \<noteq> []" and c: "fst (process_step p results)"
  obtain p' results' where s: "process_step p results = (True, p', results')"
    using c by (cases "process_step p results") auto
  from process_step_shrinks [OF ne s]
  show "((fst (snd (process_step p results)), snd (snd (process_step p results))), (p, results))
          \<in> measure (\<lambda>(p, results). length (buffer p))"
    by (simp add: s)
qed

declare process_loop.simps [simp del]

text \<open>\<^verbatim>\<open>process(text)\<close> returns the items and leaves the parser in its new state.\<close>

definition process :: "js_string \<Rightarrow> ThinkingBufferParser \<Rightarrow> item list \<times> ThinkingBufferParser" where
  "process chunk p =
     (case process_loop (p\<lparr>buffer := buffer p @ chunk\<rparr>) [] of (p', results) \<Rightarrow> (results, p'))"

definition finish :: "ThinkingBufferParser \<Rightarrow> item list \<times> ThinkingBufferParser" where
  "finish p =
     ((if buffer p \<noteq> [] then
         (if inThinkBlock p then
            (case findRealThinkingEndTagAtBufferEnd (buffer p) of
               Some e \<Rightarrow>
                 (if take e (buffer p) \<noteq> [] then [(Thinking, take e (buffer p))] else []) @
                 (if trim (drop (e + length THINKING_END_TAG) (buffer p)) \<noteq> []
                  then [(Text, trim (drop (e + length THINKING_END_TAG) (buffer p)))] else [])
             | None \<Rightarrow> [(Thinking, buffer p)])
          else [(Text, buffer p)])
       else []),
      p\<lparr>buffer := [], inThinkBlock := False, thinkingLength := 0, overflowWarned := False\<rparr>)"

definition parser_reset :: "ThinkingBufferParser \<Rightarrow> ThinkingBufferParser" where
  "parser_reset p = p\<lparr>buffer := [], inThinkBlock := False, pendingStartTagChars := 0,
     thinkingLength := 0, overflowWarned := False\<rparr>"

text \<open>
  Feeding a list of chunks in order and then calling \<^verbatim>\<open>finish\<close>; the result is every item
  emitted, in order.
\<close>

fun feed :: "js_string list \<Rightarrow> ThinkingBufferParser \<Rightarrow> item list \<times> ThinkingBufferParser" where
  "feed [] p = ([], p)"
| "feed (chunk # chunks) p =
     (case process chunk p of
        (items, p') \<Rightarrow> (case feed chunks p' of (items', p'') \<Rightarrow> (items @ items', p'')))"

definition run_parser :: "js_string list \<Rightarrow> item list" where
  "run_parser chunks =
     (case feed chunks newThinkingBufferParser of
        (items, p) \<Rightarrow> items @ fst (finish p))"

definition thinking_output :: "item list \<Rightarrow> js_string" where
  "thinking_output items = concat (map snd (filter (\<lambda>i. fst i = Thinking) items))"

definition text_output :: "item list \<Rightarrow> js_string" where
  "text_output items = concat (map snd (filter (\<lambda>i. fst i = Text) items))"


section \<open>Anthropic SSE encoder (lib/stream.ts: claudeSSE, SSEStateManager, ClaudeStreamHandler)\<close>

text \<open>
  Every call of \<^verbatim>\<open>onWrite\<close> carries one event produced by \<^verbatim>\<open>sseFormat\<close>.  The trace
  keeps the event's name and data instead of the formatted text.
\<close>

datatype block_type = BText | BThinking | BTool_use

datatype delta_type = Text_delta | Thinking_delta | Input_json_delta

datatype sse_event =
    Message_start js_string js_string int "int option" "int option"
  | Content_block_start int block_type "js_string option" "js_string option"
  | Content_block_delta int delta_type js_string
  | Content_block_stop int
  | Message_delta js_string int "int option" "int option" "int option"
  | Message_stop
  | Ping
  | Error_event js_string

definition positive_or_none :: "int option \<Rightarrow> int option" where
  "positive_or_none c = (if truthy_num c \<and> or0 c > 0 then c else None)"

definition claudeSSE_messageStart ::
  "js_string \<Rightarrow> js_string \<Rightarrow> int \<Rightarrow> int option \<Rightarrow> int option \<Rightarrow> sse_event" where
  "claudeSSE_messageStart i m inputToks cacheRead cacheWrite =
     Message_start i m inputToks (positive_or_none cacheRead) (positive_or_none cacheWrite)"

definition claudeSSE_contentBlockStart ::
  "int \<Rightarrow> block_type \<Rightarrow> js_string option \<Rightarrow> js_string option \<Rightarrow> sse_event" where
  "claudeSSE_contentBlockStart idx blockType tuId toolName =
     (if blockType = BTool_use then Content_block_start idx blockType tuId toolName
      else Content_block_start idx blockType None None)"

definition claudeSSE_messageDelta ::
  "js_string \<Rightarrow> int \<Rightarrow> int option \<Rightarrow> int option \<Rightarrow> int option \<Rightarrow> sse_event" where
  "claudeSSE_messageDelta stopReason outputToks inputToks cacheRead cacheWrite =
     Message_delta stopReason outputToks inputToks (positive_or_none cacheRead)
       (positive_or_none cacheWrite)"

datatype SSEState = Initial | Message_started | Content_block | Message_ended

record SSEStateManager =
  sm_state :: SSEState
  contentBlockOpen :: bool
  contentBlockIdx :: int

definition newSSEStateManager :: SSEStateManager where
  "newSSEStateManager = \<lparr>sm_state = Initial, contentBlockOpen = False, contentBlockIdx = - 1\<rparr>"

record CurrentToolUse =
  ctu_id :: js_string
  ctu_name :: js_string
  inputBuffer :: "js_string list"
  inputBufferSize :: nat

definition MAX_RESPONSE_BUFFER_CHARS :: nat where
  "MAX_RESPONSE_BUFFER_CHARS = 2 * 1024 * 1024"

definition MAX_TOOL_INPUT_BUFFER_CHARS :: nat where
  "MAX_TOOL_INPUT_BUFFER_CHARS = 1024 * 1024"

text \<open>
  The handler.  \<open>written\<close> is the trace of \<^verbatim>\<open>onWrite\<close>, and \<open>controller_closed\<close> the state of
  the stream controller behind it: \<^verbatim>\<open>handleClaudeStream\<close> passes an \<^verbatim>\<open>onWrite\<close> that
  enqueues on the controller and swallows the exception of a closed one.
\<close>

record ClaudeStreamHandler =
  h_model :: js_string
  h_inputTokens :: int
  messageId :: js_string
  enableThinkingParsing :: bool
  h_cacheReadTokens :: "int option"
  h_cacheWriteTokens :: "int option"
  stateManager :: SSEStateManager
  thinkingParser :: ThinkingBufferParser
  responseBuffer :: "js_string list"
  thinkingBuffer :: "js_string list"
  h_outputTokens :: int
  responseBufferSize :: nat
  thinkingBufferSize :: nat
  bufferOverflowWarned :: bool
  currentBlockType :: "block_type option"
  contentBlockIndex :: int
  contentBlockStartSent :: bool
  currentToolUse :: "CurrentToolUse option"
  processedToolUseIds :: "js_string list"
  toolCalls :: "json KiroToolUse list"
  responseEnded :: bool
  stopReasonOverride :: "js_string option"
  written :: "sse_event list"
  controller_closed :: bool

definition newClaudeStreamHandler ::
  "js_string \<Rightarrow> int \<Rightarrow> js_string \<Rightarrow> bool \<Rightarrow> int option \<Rightarrow> int option \<Rightarrow> ClaudeStreamHandler" where
  "newClaudeStreamHandler m inputToks msgId thinkingParsing cacheRead cacheWrite =
     \<lparr>h_model = m, h_inputTokens = inputToks, messageId = msgId,
      enableThinkingParsing = thinkingParsing,
      h_cacheReadTokens = cacheRead, h_cacheWriteTokens = cacheWrite,
      stateManager = newSSEStateManager, thinkingParser = newThinkingBufferParser,
      responseBuffer = [], thinkingBuffer = [], h_outputTokens = 0,
      responseBufferSize = 0, thinkingBufferSize = 0, bufferOverflowWarned = False,
      currentBlockType = None, contentBlockIndex = - 1, contentBlockStartSent = False,
      currentToolUse = None, processedToolUseIds = [], toolCalls = [],
      responseEnded = False, stopReasonOverride = None, written = [],
      controller_closed = False\<rparr>"

definition onWrite :: "sse_event \<Rightarrow> ClaudeStreamHandler \<Rightarrow> ClaudeStreamHandler" where
  "onWrite e h = (if controller_closed h then h else h\<lparr>written := written h @ [e]\<rparr>)"

definition sendMessageStart :: "ClaudeStreamHandler \<Rightarrow> ClaudeStreamHandler" where
  "sendMessageStart h =
     (if sm_state (stateManager h) \<noteq> Initial then h
      else (onWrite (claudeSSE_messageStart (messageId h) (h_model h) (h_inputTokens h)
                       (h_cacheReadTokens h) (h_cacheWriteTokens h)) h)
             \<lparr>stateManager := (stateManager h)\<lparr>sm_state := Message_started\<rparr>\<rparr>)"

definition startContentBlock ::
  "block_type \<Rightarrow> js_string option \<Rightarrow> js_string option \<Rightarrow> ClaudeStreamHandler \<Rightarrow> ClaudeStreamHandler" where
  "startContentBlock blockType tuId toolName h =
     onWrite (claudeSSE_contentBlockStart (contentBlockIndex h + 1) blockType tuId toolName)
       (h\<lparr>contentBlockIndex := contentBlockIndex h + 1,
          currentBlockType := Some blockType, contentBlockStartSent := True,
          stateManager := (stateManager h)\<lparr>contentBlockOpen := True,
                             contentBlockIdx := contentBlockIdx (stateManager h) + 1\<rparr>\<rparr>)"

definition closeCurrentBlock :: "ClaudeStreamHandler \<Rightarrow> ClaudeStreamHandler" where
  "closeCurrentBlock h =
     (if currentBlockType h \<noteq> None \<and> contentBlockStartSent h
      then (onWrite (Content_block_stop (contentBlockIndex h)) h)
             \<lparr>stateManager := (stateManager h)\<lparr>contentBlockOpen := False\<rparr>,
              currentBlockType := None, contentBlockStartSent := False\<rparr>
      else h)"

definition ensure_block :: "block_type \<Rightarrow> ClaudeStreamHandler \<Rightarrow> ClaudeStreamHandler" where
  "ensure_block blockType h =
     (if currentBlockType h \<noteq> Some blockType
      then startContentBlock blockType None None (closeCurrentBlock h) else h)"

definition emitThinking :: "js_string \<Rightarrow> ClaudeStreamHandler \<Rightarrow> ClaudeStreamHandler" where
  "emitThinking content h =
     (if content = [] then h
      else if thinkingBufferSize h + length content > MAX_RESPONSE_BUFFER_CHARS
      then (let h1 = ensure_block BThinking (h\<lparr>bufferOverflowWarned := True\<rparr>)
            in onWrite (Content_block_delta (contentBlockIndex h1) Thinking_delta content) h1)
      else (let h1 = ensure_block BThinking h;
                h2 = h1\<lparr>thinkingBuffer := thinkingBuffer h1 @ [content],
                        thinkingBufferSize := thinkingBufferSize h1 + length content\<rparr>
            in onWrite (Content_block_delta (contentBlockIndex h2) Thinking_delta content) h2))"

definition emitText :: "js_string \<Rightarrow> ClaudeStreamHandler \<Rightarrow> ClaudeStreamHandler" where
  "emitText content h =
     (if content = [] then h
      else if responseBufferSize h + length content > MAX_RESPONSE_BUFFER_CHARS
      then (let h1 = ensure_block BText (h\<lparr>bufferOverflowWarned := True\<rparr>)
            in onWrite (Content_block_delta (contentBlockIndex h1) Text_delta content) h1)
      else (let h1 = ensure_block BText h;
                h2 = h1\<lparr>responseBuffer := responseBuffer h1 @ [content],
                        responseBufferSize := responseBufferSize h1 + length content\<rparr>
            in onWrite (Content_block_delta (contentBlockIndex h2) Text_delta content) h2))"

fun emit_items :: "item list \<Rightarrow> ClaudeStreamHandler \<Rightarrow> ClaudeStreamHandler" where
  "emit_items [] h = h"
| "emit_items ((ty, content) # rest) h =
     emit_items rest (if ty = Thinking then emitThinking content h else emitText content h)"

text \<open>
  \<^verbatim>\<open>handleContent\<close>.  The token estimate of the stream handlers works in floating point; it
  only feeds the \<^verbatim>\<open>output_tokens\<close> of \<^verbatim>\<open>message_delta\<close> and is the argument \<open>est\<close>.
\<close>

definition handleContent ::
  "(js_string \<Rightarrow> int) \<Rightarrow> js_string \<Rightarrow> ClaudeStreamHandler \<Rightarrow> ClaudeStreamHandler" where
  "handleContent est content h =
     (if responseEnded h \<or> content = [] then h
      else (let h1 = h\<lparr>h_outputTokens := h_outputTokens h + est content\<rparr>
            in if enableThinkingParsing h1
               then emit_items (fst (process content (thinkingParser h1)))
                      (h1\<lparr>thinkingParser := snd (process content (thinkingParser h1))\<rparr>)
               else emitText content h1))"

datatype tool_input = No_input | String_input js_string | Json_input json

definition fragment_of :: "(json \<Rightarrow> js_string) \<Rightarrow> tool_input \<Rightarrow> js_string" where
  "fragment_of stringify toolInput =
     (case toolInput of
        No_input \<Rightarrow> []
      | String_input s \<Rightarrow> s
      | Json_input j \<Rightarrow> stringify j)"

definition safeAdd :: "js_string \<Rightarrow> ClaudeStreamHandler \<Rightarrow> ClaudeStreamHandler" where
  "safeAdd fragment h =
     (case currentToolUse h of
        None \<Rightarrow> h
      | Some tu \<Rightarrow>
          if inputBufferSize tu + length fragment > MAX_TOOL_INPUT_BUFFER_CHARS
          then onWrite (Content_block_delta (contentBlockIndex h) Input_json_delta fragment) h
          else onWrite (Content_block_delta (contentBlockIndex h) Input_json_delta fragment)
                 (h\<lparr>currentToolUse :=
                      Some (tu\<lparr>inputBuffer := inputBuffer tu @ [fragment],
                               inputBufferSize := inputBufferSize tu + length fragment\<rparr>)\<rparr>))"

definition finishToolUse :: "(js_string \<Rightarrow> json option) \<Rightarrow> ClaudeStreamHandler \<Rightarrow> ClaudeStreamHandler" where
  "finishToolUse parse h =
     (case currentToolUse h of
        None \<Rightarrow> h
      | Some tu \<Rightarrow>
          (let fullInput = concat (inputBuffer tu);
               parsedInput =
                 (if fullInput = [] then JObject []
                  else (case parse fullInput of
                          Some j \<Rightarrow> j
                        | None \<Rightarrow> JObject [(js ''_error'', JString (js ''Failed to parse tool input'')),
                                           (js ''_raw'', JString (take 500 fullInput))]))
           in (closeCurrentBlock
                 (h\<lparr>toolCalls := toolCalls h @
                      [\<lparr>toolUseId = ctu_id tu, tu_name = ctu_name tu, tu_input = parsedInput\<rparr>]\<rparr>))
                \<lparr>currentToolUse := None\<rparr>))"

definition add_fragment ::
  "(json \<Rightarrow> js_string) \<Rightarrow> tool_input \<Rightarrow> ClaudeStreamHandler \<Rightarrow> ClaudeStreamHandler" where
  "add_fragment stringify toolInput h =
     (if toolInput \<noteq> No_input \<and> fragment_of stringify toolInput \<noteq> []
      then safeAdd (fragment_of stringify toolInput) h else h)"

definition handleToolUse ::
  "(json \<Rightarrow> js_string) \<Rightarrow> (js_string \<Rightarrow> json option) \<Rightarrow> js_string option \<Rightarrow> js_string option
     \<Rightarrow> tool_input \<Rightarrow> bool \<Rightarrow> ClaudeStreamHandler \<Rightarrow> ClaudeStreamHandler" where
  "handleToolUse stringify parse tuId toolName toolInput isStop h =
     (if responseEnded h then h
      else if \<not> truthy_str tuId \<and> \<not> truthy_str toolName then
        (if currentToolUse h \<noteq> None
         then (let h1 = add_fragment stringify toolInput h
               in if isStop then finishToolUse parse h1 else h1)
         else h)
      else if truthy_str tuId \<and> truthy_str toolName \<and> currentToolUse h = None then
        (if the tuId \<in> set (processedToolUseIds h) then h
         else (let h1 = closeCurrentBlock h;
                   h2 = h1\<lparr>processedToolUseIds := processedToolUseIds h1 @ [the tuId]\<rparr>;
                   h3 = startContentBlock BTool_use tuId toolName h2;
                   h4 = h3\<lparr>currentToolUse :=
                           Some \<lparr>ctu_id = the tuId, ctu_name = the toolName,
                                 inputBuffer = [], inputBufferSize = 0\<rparr>\<rparr>;
                   h5 = add_fragment stringify toolInput h4
               in if isStop then finishToolUse parse h5 else h5))
      else (let h1 = (if currentToolUse h \<noteq> None then add_fragment stringify toolInput h else h)
            in if isStop \<and> currentToolUse h1 \<noteq> None then finishToolUse parse h1 else h1))"

record finish_usage =
  fu_inputTokens :: int
  fu_outputTokens :: int
  fu_cacheReadTokens :: "int option"
  fu_cacheWriteTokens :: "int option"

definition handler_finish ::
  "(js_string \<Rightarrow> int) \<Rightarrow> finish_usage \<Rightarrow> ClaudeStreamHandler \<Rightarrow> ClaudeStreamHandler" where
  "handler_finish est usage h =
     (if responseEnded h then h
      else (let h1 = h\<lparr>responseEnded := True\<rparr>;
                h2 = (if enableThinkingParsing h1
                      then emit_items (fst (finish (thinkingParser h1)))
                             (h1\<lparr>thinkingParser := snd (finish (thinkingParser h1))\<rparr>)
                      else h1);
                h3 = closeCurrentBlock h2;
                stopReason = (if truthy_str (stopReasonOverride h3) then the (stopReasonOverride h3)
                              else if length (toolCalls h3) > 0 then js ''tool_use''
                              else js ''end_turn'');
                finalOutputTokens = (if h_outputTokens h3 > 0 then h_outputTokens h3
                                     else est (concat (responseBuffer h3)));
                h4 = onWrite (claudeSSE_messageDelta stopReason finalOutputTokens
                                (Some (fu_inputTokens usage)) (fu_cacheReadTokens usage)
                                (fu_cacheWriteTokens usage)) h3;
                h5 = onWrite Message_stop h4
            in h5\<lparr>stateManager := (stateManager h5)\<lparr>sm_state := Message_ended\<rparr>\<rparr>))"

definition sendError :: "js_string \<Rightarrow> ClaudeStreamHandler \<Rightarrow> ClaudeStreamHandler" where
  "sendError message h = onWrite (Error_event message) h"

definition handleContentLengthExceeded :: "ClaudeStreamHandler \<Rightarrow> ClaudeStreamHandler" where
  "handleContentLengthExceeded h = h\<lparr>stopReasonOverride := Some (js ''max_tokens'')\<rparr>"

definition handleThinkingOverflow :: "ClaudeStreamHandler \<Rightarrow> ClaudeStreamHandler" where
  "handleThinkingOverflow h =
     (let h1 = (if enableThinkingParsing h
                then h\<lparr>thinkingParser := parser_reset (thinkingParser h)\<rparr> else h)
      in if currentBlockType h1 = Some BThinking then closeCurrentBlock h1 else h1)"

subsection \<open>The driver (main.ts: handleClaudeStream)\<close>

text \<open>
  \<^verbatim>\<open>callKiroApiStream\<close> reports through three callbacks.  \<^verbatim>\<open>onComplete\<close> finishes the
  handler and closes the controller; \<^verbatim>\<open>onError\<close> enqueues one \<^verbatim>\<open>error\<close> event and closes
  the controller.  The circuit breaker and the account pool, which both callbacks also
  update, do not write to the stream.
\<close>

record KiroToolUseStream =
  tus_toolUseId :: "js_string option"
  tus_name :: "js_string option"
  tus_inputFragment :: "js_string option"
  tus_isStart :: "bool option"
  tus_isStop :: "bool option"

datatype upstream_callback =
    OnChunk js_string "json KiroToolUse option" "bool option" "KiroToolUseStream option"
  | OnComplete finish_usage
  | OnError js_string

definition claude_onChunk ::
  "(js_string \<Rightarrow> int) \<Rightarrow> (json \<Rightarrow> js_string) \<Rightarrow> (js_string \<Rightarrow> json option) \<Rightarrow> js_string
     \<Rightarrow> json KiroToolUse option \<Rightarrow> KiroToolUseStream option \<Rightarrow> ClaudeStreamHandler
     \<Rightarrow> ClaudeStreamHandler" where
  "claude_onChunk est stringify parse chunk toolUse toolUseStream h =
     (let h1 = (if chunk \<noteq> [] then handleContent est chunk h else h);
          h2 = (case toolUse of
                  None \<Rightarrow> h1
                | Some tu \<Rightarrow>
                    if toolUseId tu = js ''__content_length_exceeded__''
                    then handleContentLengthExceeded h1
                    else handleToolUse stringify parse (Some (toolUseId tu)) (Some (tu_name tu))
                           (Json_input (tu_input tu)) True h1)
      in case toolUseStream of
           None \<Rightarrow> h2
         | Some tus \<Rightarrow>
             handleToolUse stringify parse (tus_toolUseId tus) (tus_name tus)
               (case tus_inputFragment tus of None \<Rightarrow> No_input | Some f \<Rightarrow> String_input f)
               (tus_isStop tus = Some True) h2)"

fun claude_callback ::
  "(js_string \<Rightarrow> int) \<Rightarrow> (json \<Rightarrow> js_string) \<Rightarrow> (js_string \<Rightarrow> json option) \<Rightarrow> upstream_callback
     \<Rightarrow> ClaudeStreamHandler \<Rightarrow> ClaudeStreamHandler" where
  "claude_callback est stringify parse (OnChunk chunk toolUse isThinking toolUseStream) h =
     claude_onChunk est stringify parse chunk toolUse toolUseStream h"
| "claude_callback est stringify parse (OnComplete usage) h =
     (handler_finish est usage h)\<lparr>controller_closed := True\<rparr>"
| "claude_callback est stringify parse (OnError message) h =
     (onWrite (Error_event message) h)\<lparr>controller_closed := True\<rparr>"

definition handleClaudeStream ::
  "(js_string \<Rightarrow> int) \<Rightarrow> (json \<Rightarrow> js_string) \<Rightarrow> (js_string \<Rightarrow> json option) \<Rightarrow> js_string
     \<Rightarrow> js_string \<Rightarrow> bool \<Rightarrow> upstream_callback list \<Rightarrow> sse_event list" where
  "handleClaudeStream est stringify parse m uuid thinkingEnabled callbacks =
     written (fold (claude_callback est stringify parse) callbacks
                (sendMessageStart
                   (newClaudeStreamHandler m 0 (js ''msg_'' @ uuid) thinkingEnabled None None)))"

subsection \<open>What the claim asks of a trace\<close>

definition is_block_start :: "sse_event \<Rightarrow> bool" where
  "is_block_start e = (case e of Content_block_start _ _ _ _ \<Rightarrow> True | _ \<Rightarrow> False)"

definition is_block_stop :: "sse_event \<Rightarrow> bool" where
  "is_block_stop e = (case e of Content_block_stop _ \<Rightarrow> True | _ \<Rightarrow> False)"

definition is_message_start :: "sse_event \<Rightarrow> bool" where
  "is_message_start e = (case e of Message_start _ _ _ _ _ \<Rightarrow> True | _ \<Rightarrow> False)"

text \<open>
  Scanning a trace with the index of the open block, if any, and the index of the last
  block started: a start needs no open block and a larger index, a stop needs the open
  block of that index.  The result tells whether every step was allowed and no block is
  left open.
\<close>

fun blocks_balanced :: "sse_event list \<Rightarrow> int option \<Rightarrow> int \<Rightarrow> bool" where
  "blocks_balanced [] open_idx last_idx = (open_idx = None)"
| "blocks_balanced (Content_block_start i _ _ _ # es) open_idx last_idx =
     (open_idx = None \<and> last_idx < i \<and> blocks_balanced es (Some i) i)"
| "blocks_balanced (Content_block_stop i # es) open_idx last_idx =
     (open_idx = Some i \<and> blocks_balanced es None last_idx)"
| "blocks_balanced (e # es) open_idx last_idx = blocks_balanced es open_idx last_idx"

definition well_formed_trace :: "sse_event list \<Rightarrow> bool" where
  "well_formed_trace tr =
     (length (filter is_message_start tr) = 1 \<and>
      length (filter (\<lambda>e. e = Message_stop) tr) = 1 \<and>
      blocks_balanced tr None (- 1) \<and>
      tr \<noteq> [] \<and> last tr = Message_stop)"


section \<open>Circuit breaker (errorHandler: class CircuitBreaker)\<close>

text \<open>
  \<^verbatim>\<open>type CircuitState = 'CLOSED' | 'OPEN' | 'HALF_OPEN'\<close>.  The class keeps four mutable
  fields and three read-only thresholds.  \<^verbatim>\<open>Date.now()\<close> is an integral number of
  milliseconds; every method that reads the clock takes the reading as an argument.
\<close>

datatype CircuitState = CLOSED | OPEN | HALF_OPEN

record CircuitBreaker =
  state :: CircuitState
  failureCount :: int
  successCount :: int
  lastFailTime :: int
  failureThreshold :: int
  resetTimeoutMs :: int
  halfOpenMaxAttempts :: int

definition newCircuitBreaker :: "int \<Rightarrow> int \<Rightarrow> int \<Rightarrow> CircuitBreaker" where
  "newCircuitBreaker ft rt hm =
     \<lparr>state = CLOSED, failureCount = 0, successCount = 0, lastFailTime = 0,
      failureThreshold = ft, resetTimeoutMs = rt, halfOpenMaxAttempts = hm\<rparr>"

fun canExecute :: "int \<Rightarrow> CircuitBreaker \<Rightarrow> bool \<times> CircuitBreaker" where
  "canExecute now cb =
     (case state cb of
        CLOSED \<Rightarrow> (True, cb)
      | OPEN \<Rightarrow>
          (if now - lastFailTime cb \<ge> resetTimeoutMs cb
           then (True, cb\<lparr>state := HALF_OPEN, successCount := 0\<rparr>)
           else (False, cb))
      | HALF_OPEN \<Rightarrow> (True, cb))"

fun cbRecordSuccess :: "CircuitBreaker \<Rightarrow> CircuitBreaker" where
  "cbRecordSuccess cb =
     (case state cb of
        HALF_OPEN \<Rightarrow>
          (let cb1 = cb\<lparr>successCount := successCount cb + 1\<rparr>
           in if successCount cb1 \<ge> halfOpenMaxAttempts cb1
              then cb1\<lparr>state := CLOSED, failureCount := 0\<rparr>
              else cb1)
      | CLOSED \<Rightarrow> cb\<lparr>failureCount := max 0 (failureCount cb - 1)\<rparr>
      | OPEN \<Rightarrow> cb)"

fun cbRecordFailure :: "int \<Rightarrow> CircuitBreaker \<Rightarrow> CircuitBreaker" where
  "cbRecordFailure now cb =
     (let cb0 = cb\<lparr>lastFailTime := now\<rparr>
      in case state cb0 of
           CLOSED \<Rightarrow>
             (let cb1 = cb0\<lparr>failureCount := failureCount cb0 + 1\<rparr>
              in if failureCount cb1 \<ge> failureThreshold cb1
                 then cb1\<lparr>state := OPEN\<rparr>
                 else cb1)
         | HALF_OPEN \<Rightarrow> cb0\<lparr>state := OPEN\<rparr>
         | OPEN \<Rightarrow> cb0)"

definition cbReset :: "CircuitBreaker \<Rightarrow> CircuitBreaker" where
  "cbReset cb = cb\<lparr>state := CLOSED, failureCount := 0, successCount := 0, lastFailTime := 0\<rparr>"

text \<open>A method call on the breaker, with the clock reading where the method takes one.\<close>

datatype cb_call = CanExecute int | RecordSuccess | RecordFailure int | Reset

fun cb_exec :: "cb_call \<Rightarrow> CircuitBreaker \<Rightarrow> CircuitBreaker" where
  "cb_exec (CanExecute now) cb = snd (canExecute now cb)"
| "cb_exec RecordSuccess cb = cbRecordSuccess cb"
| "cb_exec (RecordFailure now) cb = cbRecordFailure now cb"
| "cb_exec Reset cb = cbReset cb"

fun cb_run :: "cb_call list \<Rightarrow> CircuitBreaker \<Rightarrow> CircuitBreaker" where
  "cb_run [] cb = cb"
| "cb_run (c # cs) cb = cb_run cs (cb_exec c cb)"

text \<open>The clock reading of the latest \<^verbatim>\<open>recordFailure\<close> call of a call sequence.\<close>

fun last_failure :: "cb_call list \<Rightarrow> int option" where
  "last_failure [] = None"
| "last_failure (c # cs) =
     (case last_failure cs of
        Some t \<Rightarrow> Some t
      | None \<Rightarrow> (case c of RecordFailure t \<Rightarrow> Some t | _ \<Rightarrow> None))"


section \<open>Token estimate of the event-stream parser (lib/kiroApi: countTokens)\<close>

text \<open>
  \<^verbatim>\<open>charCodeAt\<close> reads one code unit.  The
  increments 2, 1.5 and 0.25 are binary fractions, so the running sum is exact in double
  precision for every string JavaScript can hold, and is a rational number here.
  \<^verbatim>\<open>parseEventStream\<close> calls this function at end of stream when
  \<^verbatim>\<open>usage.outputTokens === 0\<close>.
\<close>

fun countTokens_loop :: "js_string \<Rightarrow> rat \<Rightarrow> rat" where
  "countTokens_loop [] count = count"
| "countTokens_loop (code # rest) count =
     countTokens_loop rest
       (if code > 0x4E00 \<and> code < 0x9FFF then count + 2
        else if code > 127 then count + 3 / 2
        else count + 1 / 4)"

definition kiroApi_countTokens :: "js_string \<Rightarrow> int" where
  "kiroApi_countTokens str = (if str = [] then 0 else \<lceil>countTokens_loop str 0\<rceil>)"


section \<open>Token estimate of the stream handlers (lib/stream: countTokens)\<close>

subsection \<open>Double precision\<close>











subsection \<open>Segments and words\<close>






subsection \<open>The estimate\<close>









section \<open>Event-stream decoder: tool buffers and end of stream (lib/kiroApi: parseEventStream)\<close>

text \<open>
  \<^verbatim>\<open>tryRepairTruncatedJson\<close>.  The scan keeps two counters, which may go negative, and two
  flags.  \<^verbatim>\<open>for (const char of result)\<close> walks code points, but every character the scan
  tests is a single code unit and no half of a surrogate pair equals one of them, so the
  scan over code units sees the same counts.
\<close>

record repair_scan =
  braceCount :: int
  bracketCount :: int
  inString :: bool
  escape :: bool

definition repair_scan_step :: "repair_scan \<Rightarrow> nat \<Rightarrow> repair_scan" where
  "repair_scan_step s c =
     (if escape s then s\<lparr>escape := False\<rparr>
      else if c = 92 then s\<lparr>escape := True\<rparr>
      else if c = 34 then s\<lparr>inString := \<not> inString s\<rparr>
      else if \<not> inString s then
        (if c = 123 then s\<lparr>braceCount := braceCount s + 1\<rparr>
         else if c = 125 then s\<lparr>braceCount := braceCount s - 1\<rparr>
         else if c = 91 then s\<lparr>bracketCount := bracketCount s + 1\<rparr>
         else if c = 93 then s\<lparr>bracketCount := bracketCount s - 1\<rparr>
         else s)
      else s)"

definition strip_high_surrogates :: "js_string \<Rightarrow> js_string" where
  "strip_high_surrogates s = rev (dropWhile (\<lambda>c. 0xD800 \<le> c \<and> c \<le> 0xDBFF) (rev s))"

definition close_truncated :: "js_string \<Rightarrow> js_string" where
  "close_truncated repaired =
     (let s = foldl repair_scan_step
                \<lparr>braceCount = 0, bracketCount = 0, inString = False, escape = False\<rparr> repaired
      in repaired @ (if inString s then [34] else [])
           @ replicate (nat (bracketCount s)) 93
           @ replicate (nat (braceCount s)) 125)"

text \<open>
  \<^verbatim>\<open>parsed._repaired = true\<close> adds the key to an object; on an array it adds a property
  that is not an element, and the array is returned as it is.
\<close>

definition mark_repaired :: "json \<Rightarrow> json option" where
  "mark_repaired parsed =
     (case parsed of
        JObject kvs \<Rightarrow> Some (JObject (AList.update (js ''_repaired'') (JBool True) kvs))
      | JArray xs \<Rightarrow> Some (JArray xs)
      | _ \<Rightarrow> None)"

definition tryRepairTruncatedJson :: "(js_string \<Rightarrow> json option) \<Rightarrow> js_string \<Rightarrow> json option" where
  "tryRepairTruncatedJson parse truncated =
     (if truncated = [] \<or> length truncated < 2 then None
      else (case parse truncated of
              Some j \<Rightarrow> Some j
            | None \<Rightarrow>
                (case parse (close_truncated (strip_high_surrogates (trim truncated))) of
                   None \<Rightarrow> None
                 | Some parsed \<Rightarrow> mark_repaired parsed)))"

text \<open>JavaScript truthiness of a JSON value, for \<^verbatim>\<open>rep || {}\<close>.\<close>

definition json_truthy :: "json \<Rightarrow> bool" where
  "json_truthy j =
     (case j of
        JNull \<Rightarrow> False
      | JBool b \<Rightarrow> b
      | JNumber n \<Rightarrow> n \<noteq> 0
      | JString s \<Rightarrow> s \<noteq> []
      | _ \<Rightarrow> True)"

subsection \<open>ToolBufferManager\<close>

record ToolUseState =
  tb_toolUseId :: js_string
  tb_name :: js_string
  tb_inputBuffer :: js_string
  tb_startTime :: int

type_synonym ToolBufferManager = "(js_string \<times> ToolUseState) list"

definition maxBufferSize :: nat where
  "maxBufferSize = 1024 * 1024"

definition getOrCreate :: "int \<Rightarrow> js_string \<Rightarrow> js_string \<Rightarrow> ToolBufferManager \<Rightarrow> ToolBufferManager" where
  "getOrCreate now tuId tuName buffers =
     (case map_of buffers tuId of
        Some st \<Rightarrow> buffers
      | None \<Rightarrow> AList.update tuId
                 \<lparr>tb_toolUseId = tuId, tb_name = tuName, tb_inputBuffer = [], tb_startTime = now\<rparr>
                 buffers)"

definition appendInput :: "js_string \<Rightarrow> js_string \<Rightarrow> ToolBufferManager \<Rightarrow> ToolBufferManager" where
  "appendInput tuId inp buffers =
     (case map_of buffers tuId of
        None \<Rightarrow> buffers
      | Some st \<Rightarrow>
          if length (tb_inputBuffer st) + length inp > maxBufferSize then buffers
          else AList.update tuId (st\<lparr>tb_inputBuffer := tb_inputBuffer st @ inp\<rparr>) buffers)"

definition setInput :: "js_string \<Rightarrow> js_string \<Rightarrow> ToolBufferManager \<Rightarrow> ToolBufferManager" where
  "setInput tuId inp buffers =
     (case map_of buffers tuId of
        None \<Rightarrow> buffers
      | Some st \<Rightarrow> AList.update tuId (st\<lparr>tb_inputBuffer := inp\<rparr>) buffers)"

definition getAndRemove :: "js_string \<Rightarrow> ToolBufferManager \<Rightarrow> ToolUseState option \<times> ToolBufferManager" where
  "getAndRemove tuId buffers = (map_of buffers tuId, AList.delete tuId buffers)"

definition getIncomplete :: "ToolBufferManager \<Rightarrow> ToolUseState list" where
  "getIncomplete buffers = map snd buffers"

subsection \<open>The decoder state and its callbacks\<close>

record ThinkingParserState =
  inThinking :: bool
  tp_buffer :: js_string
  tp_thinkingLength :: nat

record stream_usage =
  su_inputTokens :: int
  su_outputTokens :: int
  su_credits :: rat
  su_cacheReadTokens :: int
  su_cacheWriteTokens :: int
  su_reasoningTokens :: int
  su_contextWindowExceeded :: bool

datatype parser_callback =
    Chunk js_string "json KiroToolUse option" "bool option" "KiroToolUseStream option"
  | Complete stream_usage

record decoder =
  toolBuffers :: ToolBufferManager
  processedIds :: "js_string list"
  thinkingState :: ThinkingParserState
  dec_usage :: stream_usage
  totalOutputText :: js_string
  isCompleted :: bool
  callbacks :: "parser_callback list"

definition newDecoder :: "js_string \<Rightarrow> decoder" where
  "newDecoder inputPayload =
     \<lparr>toolBuffers = [], processedIds = [],
      thinkingState = \<lparr>inThinking = False, tp_buffer = [], tp_thinkingLength = 0\<rparr>,
      dec_usage = \<lparr>su_inputTokens = (if inputPayload \<noteq> [] then kiroApi_countTokens inputPayload else 0),
                   su_outputTokens = 0, su_credits = 0, su_cacheReadTokens = 0,
                   su_cacheWriteTokens = 0, su_reasoningTokens = 0,
                   su_contextWindowExceeded = False\<rparr>,
      totalOutputText = [], isCompleted = False, callbacks = []\<rparr>"

definition onChunk ::
  "js_string \<Rightarrow> json KiroToolUse option \<Rightarrow> bool option \<Rightarrow> KiroToolUseStream option \<Rightarrow> decoder
     \<Rightarrow> decoder" where
  "onChunk chunk toolUse isThinking toolUseStream d =
     d\<lparr>callbacks := callbacks d @ [Chunk chunk toolUse isThinking toolUseStream]\<rparr>"

text \<open>
  The \<^verbatim>\<open>toolUseEvent\<close> branch of the frame loop.  A decoded event carries an id, a name,
  an input that is a string, an object or absent, and the \<^verbatim>\<open>stop\<close> flag.
\<close>

record ToolUseEvent =
  te_toolUseId :: "js_string option"
  te_name :: "js_string option"
  te_input :: tool_input
  te_stop :: bool

definition stop_input :: "(js_string \<Rightarrow> json option) \<Rightarrow> js_string \<Rightarrow> json" where
  "stop_input parse inputBuf =
     (if inputBuf = [] then JObject []
      else (case parse inputBuf of
              Some j \<Rightarrow> j
            | None \<Rightarrow>
                (case tryRepairTruncatedJson parse inputBuf of
                   None \<Rightarrow> JObject []
                 | Some rep \<Rightarrow> if json_truthy rep then rep else JObject [])))"

definition tool_stop :: "(js_string \<Rightarrow> json option) \<Rightarrow> js_string \<Rightarrow> decoder \<Rightarrow> decoder" where
  "tool_stop parse tuId d =
     (case getAndRemove tuId (toolBuffers d) of
        (None, buffers) \<Rightarrow> d\<lparr>toolBuffers := buffers\<rparr>
      | (Some st, buffers) \<Rightarrow>
          (let d1 = d\<lparr>toolBuffers := buffers\<rparr>;
               d2 = onChunk [] None None
                      (Some \<lparr>tus_toolUseId = Some (tb_toolUseId st), tus_name = None,
                             tus_inputFragment = None, tus_isStart = None,
                             tus_isStop = Some True\<rparr>) d1;
               d3 = onChunk []
                      (Some \<lparr>toolUseId = tb_toolUseId st, tu_name = tb_name st,
                             tu_input = stop_input parse (tb_inputBuffer st)\<rparr>)
                      None None d2
           in d3\<lparr>processedIds := processedIds d3 @ [tb_toolUseId st]\<rparr>))"

definition handle_toolUseEvent ::
  "(json \<Rightarrow> js_string) \<Rightarrow> (js_string \<Rightarrow> json option) \<Rightarrow> int \<Rightarrow> ToolUseEvent \<Rightarrow> decoder \<Rightarrow> decoder" where
  "handle_toolUseEvent stringify parse now td d =
     (if (case te_toolUseId td of None \<Rightarrow> False | Some i \<Rightarrow> i \<in> set (processedIds d)) then d
      else
        (let tuId = te_toolUseId td; tuName = te_name td;
             inputFrag = (case te_input td of String_input s \<Rightarrow> s | _ \<Rightarrow> []);
             inputObj = (case te_input td of Json_input j \<Rightarrow>
                           (case j of JObject _ \<Rightarrow> Some j | JArray _ \<Rightarrow> Some j | _ \<Rightarrow> None)
                         | _ \<Rightarrow> None);
             isNew = (truthy_str tuId \<and> truthy_str tuName \<and> map_of (toolBuffers d) (the tuId) = None);
             d1 = (if truthy_str tuId \<and> truthy_str tuName
                   then d\<lparr>toolBuffers := getOrCreate now (the tuId) (the tuName) (toolBuffers d)\<rparr>
                   else d);
             d2 = (if isNew
                   then onChunk [] None None
                          (Some \<lparr>tus_toolUseId = tuId, tus_name = tuName, tus_inputFragment = None,
                                 tus_isStart = Some True, tus_isStop = None\<rparr>) d1
                   else d1);
             d3 = (if truthy_str tuId \<and> inputFrag \<noteq> []
                   then onChunk [] None None
                          (Some \<lparr>tus_toolUseId = tuId, tus_name = None,
                                 tus_inputFragment = Some inputFrag, tus_isStart = None,
                                 tus_isStop = None\<rparr>)
                          (d2\<lparr>toolBuffers := appendInput (the tuId) inputFrag (toolBuffers d2)\<rparr>)
                   else d2);
             d4 = (case inputObj of
                     Some obj \<Rightarrow>
                       if truthy_str tuId
                       then onChunk [] None None
                              (Some \<lparr>tus_toolUseId = tuId, tus_name = None,
                                     tus_inputFragment = Some (stringify obj), tus_isStart = None,
                                     tus_isStop = None\<rparr>)
                              (d3\<lparr>toolBuffers := setInput (the tuId) (stringify obj) (toolBuffers d3)\<rparr>)
                       else d3
                   | None \<Rightarrow> d3)
         in if te_stop td \<and> truthy_str tuId then tool_stop parse (the tuId) d4 else d4))"

text \<open>
  What \<^verbatim>\<open>parseEventStream\<close> does after the read loop has seen \<^verbatim>\<open>done\<close>: the open tool
  buffers, the rest of the thinking parser's buffer, the token estimate, \<^verbatim>\<open>onComplete\<close>.
\<close>

definition end_input :: "(js_string \<Rightarrow> json option) \<Rightarrow> js_string \<Rightarrow> json" where
  "end_input parse inputBuf =
     (if inputBuf = [] then JObject []
      else (case parse inputBuf of Some j \<Rightarrow> j | None \<Rightarrow> JObject []))"

fun flush_incomplete :: "(js_string \<Rightarrow> json option) \<Rightarrow> ToolUseState list \<Rightarrow> decoder \<Rightarrow> decoder" where
  "flush_incomplete parse [] d = d"
| "flush_incomplete parse (st # rest) d =
     flush_incomplete parse rest
       (if tb_toolUseId st \<notin> set (processedIds d)
        then (let d1 = onChunk []
                         (Some \<lparr>toolUseId = tb_toolUseId st, tu_name = tb_name st,
                                tu_input = end_input parse (tb_inputBuffer st)\<rparr>)
                         None None d
              in d1\<lparr>processedIds := processedIds d1 @ [tb_toolUseId st]\<rparr>)
        else d)"

definition end_of_stream :: "(js_string \<Rightarrow> json option) \<Rightarrow> bool \<Rightarrow> decoder \<Rightarrow> decoder" where
  "end_of_stream parse thinkingEnabled d =
     (let d1 = (flush_incomplete parse (getIncomplete (toolBuffers d)) d)\<lparr>toolBuffers := []\<rparr>;
          d2 = (if tp_buffer (thinkingState d1) \<noteq> []
                then (onChunk (tp_buffer (thinkingState d1)) None
                        (Some (inThinking (thinkingState d1) \<and> thinkingEnabled)) None d1)
                       \<lparr>thinkingState := (thinkingState d1)\<lparr>tp_buffer := []\<rparr>\<rparr>
                else d1);
          d3 = (if su_outputTokens (dec_usage d2) = 0 \<and> totalOutputText d2 \<noteq> []
                then d2\<lparr>dec_usage := (dec_usage d2)
                          \<lparr>su_outputTokens := kiroApi_countTokens (totalOutputText d2)\<rparr>\<rparr>
                else d2)
      in d3\<lparr>isCompleted := True, callbacks := callbacks d3 @ [Complete (dec_usage d3)]\<rparr>)"


section \<open>Account pool (lib/accountPool.ts: class AccountPool)\<close>

text \<open>
  \<^verbatim>\<open>interface ProxyAccount\<close>: the fields the pool reads or writes.  The remaining fields
  (email, tokens, region, ...) are only copied by the object spreads and live in the
  extension part of the record.
\<close>

record ProxyAccount =
  acc_id :: string
  subscriptionType :: "string option"
  expiresAt :: "int option"
  lastUsed :: "int option"
  requestCount :: "int option"
  errorCount :: "int option"
  isAvailable :: "bool option"
  cooldownUntil :: "int option"
  quotaExhausted :: "bool option"
  disabled :: "bool option"

record AccountStats =
  requests :: int
  tokens :: int
  inputTokens :: int
  outputTokens :: int
  errors :: int
  stats_lastUsed :: int
  avgResponseTime :: real
  totalResponseTime :: int

record AccountHealth =
  score :: real
  successRate :: real
  health_avgResponseTime :: real
  recentErrors :: int
  lastSuccessTime :: int

record AccountPoolConfig =
  cooldownMs :: int
  maxErrorCount :: int
  autoResetIntervalMs :: int
  healthScoreDecay :: real
  healthScoreRecovery :: real

definition DEFAULT_CONFIG :: AccountPoolConfig where
  "DEFAULT_CONFIG = \<lparr>cooldownMs = 60000, maxErrorCount = 5, autoResetIntervalMs = 300000,
     healthScoreDecay = 20, healthScoreRecovery = 10\<rparr>"

text \<open>
  The private \<^verbatim>\<open>Map\<close>s of the class.  A JavaScript \<^verbatim>\<open>Map\<close> iterates in insertion order
  and \<^verbatim>\<open>set\<close> on an existing key keeps the key's position: an association list with
  \<^const>\<open>AList.update\<close> and \<^const>\<open>map_of\<close>.  Quotients of numbers are real quotients
  here; the source computes them in double precision.
\<close>

record AccountPool =
  accounts :: "(string \<times> ProxyAccount) list"
  accountStats :: "(string \<times> AccountStats) list"
  accountHealth :: "(string \<times> AccountHealth) list"
  inflightRequests :: "(string \<times> int) list"
  recentRequestWindows :: "(string \<times> int list) list"
  lastAutoReset :: int
  config :: AccountPoolConfig

definition WINDOW_SIZE_MS :: int where
  "WINDOW_SIZE_MS = 300000"

definition newAccountPool :: "AccountPoolConfig \<Rightarrow> AccountPool" where
  "newAccountPool cfg = \<lparr>accounts = [], accountStats = [], accountHealth = [],
     inflightRequests = [], recentRequestWindows = [], lastAutoReset = 0, config = cfg\<rparr>"

definition addAccount :: "int \<Rightarrow> ProxyAccount \<Rightarrow> AccountPool \<Rightarrow> AccountPool" where
  "addAccount now account p =
     p\<lparr>accounts := AList.update (acc_id account)
           (account\<lparr>isAvailable := Some True, requestCount := Some 0,
                     errorCount := Some 0, lastUsed := Some 0\<rparr>) (accounts p),
       accountStats := AList.update (acc_id account)
           \<lparr>requests = 0, tokens = 0, inputTokens = 0, outputTokens = 0, errors = 0,
            stats_lastUsed = 0, avgResponseTime = 0, totalResponseTime = 0\<rparr> (accountStats p),
       accountHealth := AList.update (acc_id account)
           \<lparr>score = 100, successRate = 1, health_avgResponseTime = 0, recentErrors = 0,
            lastSuccessTime = now\<rparr> (accountHealth p),
       inflightRequests := AList.update (acc_id account) 0 (inflightRequests p),
       recentRequestWindows := AList.update (acc_id account) [] (recentRequestWindows p)\<rparr>"

text \<open>ASCII lower-casing.\<close>

definition lower_char :: "char \<Rightarrow> char" where
  "lower_char c = (let n = (of_char c :: nat) in if 65 \<le> n \<and> n \<le> 90 then char_of (n + 32) else c)"

definition toLowerCase :: "string \<Rightarrow> string" where
  "toLowerCase s = map lower_char s"

definition supportsModel :: "ProxyAccount \<Rightarrow> string option \<Rightarrow> bool" where
  "supportsModel account model =
     (case model of
        None \<Rightarrow> True
      | Some m \<Rightarrow>
          if m = [] then True
          else if \<not> str_includes (toLowerCase m) ''opus'' then True
          else if subscriptionType account = Some ''Free'' then False
          else True)"

definition checkAccountAvailability :: "AccountPoolConfig \<Rightarrow> ProxyAccount \<Rightarrow> int \<Rightarrow> bool" where
  "checkAccountAvailability cfg account now =
     (if truthy (disabled account) then False
      else if truthy (quotaExhausted account) then False
      else if truthy_num (cooldownUntil account) \<and> or0 (cooldownUntil account) > now then False
      else if or0 (errorCount account) \<ge> maxErrorCount cfg then False
      else if truthy_num (expiresAt account) \<and> or0 (expiresAt account) < now
              \<and> now - or0 (expiresAt account) > 30000 then False
      else if isAvailable account = Some False then False
      else True)"

definition getInflight :: "AccountPool \<Rightarrow> string \<Rightarrow> int" where
  "getInflight p accountId = or0 (map_of (inflightRequests p) accountId)"

definition recordRequestToWindow :: "int \<Rightarrow> string \<Rightarrow> AccountPool \<Rightarrow> AccountPool" where
  "recordRequestToWindow now accountId p =
     (let window = (case map_of (recentRequestWindows p) accountId of None \<Rightarrow> [] | Some w \<Rightarrow> w) @ [now]
      in if length window > 200
         then p\<lparr>recentRequestWindows :=
                 AList.update accountId (filter (\<lambda>t. t > now - WINDOW_SIZE_MS) window)
                   (recentRequestWindows p)\<rparr>
         else p\<lparr>recentRequestWindows := AList.update accountId window (recentRequestWindows p)\<rparr>)"

definition acquireAccount :: "int \<Rightarrow> string \<Rightarrow> AccountPool \<Rightarrow> AccountPool" where
  "acquireAccount now accountId p =
     recordRequestToWindow now accountId
       (p\<lparr>inflightRequests := AList.update accountId (getInflight p accountId + 1) (inflightRequests p)\<rparr>)"

definition releaseAccount :: "string \<Rightarrow> AccountPool \<Rightarrow> AccountPool" where
  "releaseAccount accountId p =
     p\<lparr>inflightRequests := AList.update accountId (max 0 (getInflight p accountId - 1)) (inflightRequests p)\<rparr>"

text \<open>
  \<^verbatim>\<open>getAccountWithShortestCooldown\<close>: the loop keeps the best account and its wait;
  \<open>None\<close> is the initial pair \<^verbatim>\<open>(null, Infinity)\<close>.
\<close>

definition wait_of :: "int \<Rightarrow> ProxyAccount \<Rightarrow> int" where
  "wait_of now account = max 0 (or0 (cooldownUntil account) - now)"

fun shortestCooldown_loop ::
  "ProxyAccount list \<Rightarrow> int \<Rightarrow> (ProxyAccount \<times> int) option \<Rightarrow> (ProxyAccount \<times> int) option" where
  "shortestCooldown_loop [] now best = best"
| "shortestCooldown_loop (account # rest) now best =
     (let wait = wait_of now account
      in case best of
           None \<Rightarrow> shortestCooldown_loop rest now (Some (account, wait))
         | Some (b, shortestWait) \<Rightarrow>
             if wait < shortestWait then shortestCooldown_loop rest now (Some (account, wait))
             else shortestCooldown_loop rest now best)"

definition getAccountWithShortestCooldown :: "ProxyAccount list \<Rightarrow> int \<Rightarrow> ProxyAccount option" where
  "getAccountWithShortestCooldown accs now = map_option fst (shortestCooldown_loop accs now None)"

definition set_account :: "ProxyAccount \<Rightarrow> AccountPool \<Rightarrow> AccountPool" where
  "set_account account p = p\<lparr>accounts := AList.update (acc_id account) account (accounts p)\<rparr>"

text \<open>
  \<^verbatim>\<open>zeroDowntimeFallback\<close> returns the account object it found in \<^verbatim>\<open>accountList\<close> and
  stores a patched copy in the map.  \<^verbatim>\<open>accountList[0]\<close> of an empty list is
  \<^verbatim>\<open>undefined\<close>, here \<open>None\<close>.  \<^verbatim>\<open>Array.prototype.sort\<close> is stable, as \<^const>\<open>sort_key\<close> is.
\<close>

definition leastErrors_candidates :: "AccountPoolConfig \<Rightarrow> ProxyAccount list \<Rightarrow> ProxyAccount list" where
  "leastErrors_candidates cfg accountList =
     sort_key (\<lambda>a. or0 (errorCount a))
       (filter (\<lambda>a. \<not> truthy (disabled a) \<and> \<not> truthy (quotaExhausted a)
                    \<and> or0 (errorCount a) < maxErrorCount cfg + 2) accountList)"

definition zeroDowntimeFallback ::
  "ProxyAccount list \<Rightarrow> int \<Rightarrow> AccountPool \<Rightarrow> ProxyAccount option \<times> AccountPool" where
  "zeroDowntimeFallback accountList now p =
     (let shortestCooldown = getAccountWithShortestCooldown accountList now;
          prio1 = (case shortestCooldown of
                     None \<Rightarrow> False
                   | Some sc \<Rightarrow> truthy_num (cooldownUntil sc) \<and> or0 (cooldownUntil sc) - now < 5000)
      in if prio1
         then (case shortestCooldown of
                 None \<Rightarrow> (None, p)
               | Some sc \<Rightarrow>
                   (Some sc, set_account (sc\<lparr>isAvailable := Some True, cooldownUntil := None\<rparr>) p))
         else (case leastErrors_candidates (config p) accountList of
                 leastErrors # _ \<Rightarrow>
                   (Some leastErrors,
                    set_account (leastErrors\<lparr>isAvailable := Some True,
                        errorCount := Some (max 0 (or0 (errorCount leastErrors) - 1)),
                        cooldownUntil := None\<rparr>) p)
               | [] \<Rightarrow>
                   (let usableAccounts =
                          filter (\<lambda>a. \<not> truthy (disabled a) \<and> \<not> truthy (quotaExhausted a)) accountList
                    in case (if usableAccounts \<noteq> [] then usableAccounts else accountList) of
                         [] \<Rightarrow> (None, p)
                       | forceAccount # _ \<Rightarrow>
                           (Some forceAccount,
                            set_account (forceAccount\<lparr>isAvailable := Some True,
                                errorCount := Some 0, cooldownUntil := None\<rparr>) p))))"

definition update_health :: "string \<Rightarrow> (AccountHealth \<Rightarrow> AccountHealth) \<Rightarrow> AccountPool \<Rightarrow> AccountPool" where
  "update_health accountId f p =
     (case map_of (accountHealth p) accountId of
        None \<Rightarrow> p
      | Some health \<Rightarrow> p\<lparr>accountHealth := AList.update accountId (f health) (accountHealth p)\<rparr>)"

fun selfHeal_loop :: "ProxyAccount list \<Rightarrow> AccountPool \<Rightarrow> AccountPool" where
  "selfHeal_loop [] p = p"
| "selfHeal_loop (account # rest) p =
     selfHeal_loop rest
       (update_health (acc_id account)
          (\<lambda>health. health\<lparr>score := max 50 (score health),
                            recentErrors := recentErrors health div 2\<rparr>)
          (set_account (account\<lparr>isAvailable := Some True,
               errorCount := Some (or0 (errorCount account) div 2),
               cooldownUntil := None\<rparr>) p))"

definition selfHeal :: "int \<Rightarrow> AccountPool \<Rightarrow> bool \<times> AccountPool" where
  "selfHeal now p =
     (let accountList = map snd (accounts p)
      in if accountList = [] then (False, p)
         else let unavailable = filter (\<lambda>a. \<not> checkAccountAvailability (config p) a now) accountList
              in if length unavailable < length accountList then (False, p)
                 else let errorDisabled =
                            filter (\<lambda>a. \<not> truthy (disabled a) \<and> \<not> truthy (quotaExhausted a)
                                         \<and> or0 (errorCount a) \<ge> maxErrorCount (config p)) accountList
                      in if errorDisabled = [] then (False, p)
                         else (True, selfHeal_loop errorDisabled p))"

fun reset_loop :: "(string \<times> ProxyAccount) list \<Rightarrow> AccountPool \<Rightarrow> AccountPool" where
  "reset_loop [] p = p"
| "reset_loop ((i, account) # rest) p =
     reset_loop rest
       (update_health i (\<lambda>health. health\<lparr>score := 80, recentErrors := 0\<rparr>)
          (p\<lparr>accounts := AList.update i
                (account\<lparr>isAvailable := Some True, errorCount := Some 0, cooldownUntil := None\<rparr>)
                (accounts p)\<rparr>))"

definition reset :: "AccountPool \<Rightarrow> AccountPool" where
  "reset p = reset_loop (accounts p) p"

definition checkAutoReset :: "int \<Rightarrow> AccountPool \<Rightarrow> AccountPool" where
  "checkAutoReset now p =
     (if now - lastAutoReset p < autoResetIntervalMs (config p) then p
      else let accountList = map snd (accounts p);
               availableCount = length (filter (\<lambda>a. checkAccountAvailability (config p) a now) accountList)
           in if availableCount = 0 \<and> length accountList > 0
              then (case selfHeal now p of
                      (True, p1) \<Rightarrow> p1\<lparr>lastAutoReset := now\<rparr>
                    | (False, p1) \<Rightarrow> (reset p1)\<lparr>lastAutoReset := now\<rparr>)
              else p)"

text \<open>
  \<^verbatim>\<open>getNextAccount\<close>.  The three selection strategies (\<^verbatim>\<open>selectByPriority\<close>,
  \<^verbatim>\<open>selectByLeastUsed\<close>, \<^verbatim>\<open>selectBySmart\<close>, the last one randomised) are only reached
  with a non-empty list of available accounts and return one of its elements; they are
  the parameter \<open>select\<close>.  \<^verbatim>\<open>accountList\<close> is read once on entry, so the
  availability filter and the fallback see the account objects from before
  \<^verbatim>\<open>checkAutoReset\<close>.
\<close>

definition getNextAccount ::
  "(ProxyAccount list \<Rightarrow> ProxyAccount) \<Rightarrow> int \<Rightarrow> string option \<Rightarrow> AccountPool
     \<Rightarrow> ProxyAccount option \<times> AccountPool" where
  "getNextAccount select now model p =
     (let accountList = map snd (accounts p)
      in case accountList of
           [] \<Rightarrow> (None, p)
         | [account] \<Rightarrow>
             if checkAccountAvailability (config p) account now
             then (Some account, acquireAccount now (acc_id account) p)
             else (Some account,
                   acquireAccount now (acc_id account)
                     (set_account (account\<lparr>isAvailable := Some True,
                          errorCount := Some (max 0 (or0 (errorCount account) - 1)),
                          cooldownUntil := None\<rparr>) p))
         | _ \<Rightarrow>
             (let p1 = checkAutoReset now p;
                  availableAccounts =
                    filter (\<lambda>a. checkAccountAvailability (config p1) a now \<and> supportsModel a model)
                      accountList
              in if availableAccounts = []
                 then (case zeroDowntimeFallback accountList now p1 of
                         (Some fallback, p2) \<Rightarrow> (Some fallback, acquireAccount now (acc_id fallback) p2)
                       | (None, p2) \<Rightarrow> (None, p2))
                 else (let selected = select availableAccounts
                       in (Some selected, acquireAccount now (acc_id selected) p1))))"

text \<open>\<^verbatim>\<open>recordSuccess\<close>; \<open>stats\<close> and \<open>health\<close> are read before they are replaced.\<close>

definition recordSuccess :: "int \<Rightarrow> string \<Rightarrow> int \<Rightarrow> int \<Rightarrow> AccountPool \<Rightarrow> AccountPool" where
  "recordSuccess now accountId toks responseTime p =
     (let p1 = releaseAccount accountId p;
          p2 = (case map_of (accounts p1) accountId of
                  None \<Rightarrow> p1
                | Some account \<Rightarrow>
                    p1\<lparr>accounts := AList.update accountId
                          (account\<lparr>requestCount := Some (or0 (requestCount account) + 1),
                                    errorCount := Some 0, lastUsed := Some now,
                                    isAvailable := Some True, cooldownUntil := None\<rparr>)
                          (accounts p1)\<rparr>);
          stats = map_of (accountStats p2) accountId;
          p3 = (case stats of
                  None \<Rightarrow> p2
                | Some st \<Rightarrow>
                    (let newTotalTime = totalResponseTime st + responseTime;
                         newRequests = requests st + 1
                     in p2\<lparr>accountStats := AList.update accountId
                             (st\<lparr>requests := newRequests, tokens := tokens st + toks,
                                 stats_lastUsed := now, totalResponseTime := newTotalTime,
                                 avgResponseTime := real_of_int newTotalTime / real_of_int newRequests\<rparr>)
                             (accountStats p2)\<rparr>))
      in case map_of (accountHealth p3) accountId of
           None \<Rightarrow> p3
         | Some health \<Rightarrow>
             (let totalRequests = (case stats of None \<Rightarrow> 0 | Some st \<Rightarrow> requests st) + 1;
                  totalErrors = (case stats of None \<Rightarrow> 0 | Some st \<Rightarrow> errors st)
              in p3\<lparr>accountHealth := AList.update accountId
                      (health\<lparr>score := min 100 (score health + healthScoreRecovery (config p3)),
                             successRate := real_of_int (totalRequests - totalErrors) / real_of_int totalRequests,
                             health_avgResponseTime :=
                               (case stats of
                                  None \<Rightarrow> real_of_int responseTime
                                | Some st \<Rightarrow> if avgResponseTime st \<noteq> 0 then avgResponseTime st
                                             else real_of_int responseTime),
                             recentErrors := max 0 (recentErrors health - 1),
                             lastSuccessTime := now\<rparr>)
                      (accountHealth p3)\<rparr>))"

text \<open>
  \<^verbatim>\<open>recordError\<close>.  The \<^verbatim>\<open>onQuotaExhausted\<close> callback and the logger act outside the
  pool and are left out.
\<close>

datatype pool_error_type = Network | Quota | Auth | Banned | Other

definition updateHealthOnError :: "string \<Rightarrow> real \<Rightarrow> AccountPool \<Rightarrow> AccountPool" where
  "updateHealthOnError accountId decay p =
     update_health accountId
       (\<lambda>health. health\<lparr>score := max 0 (score health - decay),
                         recentErrors := recentErrors health + 1\<rparr>) p"

definition stats_error :: "string \<Rightarrow> int \<Rightarrow> AccountPool \<Rightarrow> AccountPool" where
  "stats_error accountId now p =
     (case map_of (accountStats p) accountId of
        None \<Rightarrow> p
      | Some st \<Rightarrow>
          p\<lparr>accountStats := AList.update accountId
                (st\<lparr>errors := errors st + 1, stats_lastUsed := now\<rparr>) (accountStats p)\<rparr>)"

definition recordError :: "int \<Rightarrow> string \<Rightarrow> pool_error_type \<Rightarrow> AccountPool \<Rightarrow> AccountPool" where
  "recordError now accountId errorType p =
     (let p1 = releaseAccount accountId p
      in case map_of (accounts p1) accountId of
           None \<Rightarrow> p1
         | Some account \<Rightarrow>
             if errorType = Network then stats_error accountId now p1
             else
               (let errorCount' = or0 (errorCount account) + 1;
                    cooldownUntil0 = or0 (cooldownUntil account);
                    isAvailable0 = (isAvailable account \<noteq> Some False);
                    quotaExhausted0 = truthy (quotaExhausted account)
                in if errorType = Banned
                   then stats_error accountId now
                          (updateHealthOnError accountId 50
                             (p1\<lparr>accounts := AList.update accountId
                                   (account\<lparr>errorCount := Some errorCount',
                                       cooldownUntil := Some cooldownUntil0,
                                       isAvailable := Some False, quotaExhausted := Some True,
                                       disabled := Some True, lastUsed := Some now\<rparr>)
                                   (accounts p1)\<rparr>))
                   else
                     (let quotaExhausted1 = (if errorType = Quota then True else quotaExhausted0);
                          isAvailable1 = (if errorType = Quota \<or> errorType = Auth then False
                                          else isAvailable0);
                          cooldownUntil1 =
                            (if errorType \<noteq> Quota \<and> errorType \<noteq> Auth
                                \<and> errorCount' \<ge> maxErrorCount (config p1)
                             then now + cooldownMs (config p1) else cooldownUntil0);
                          p2 = p1\<lparr>accounts := AList.update accountId
                                  (account\<lparr>errorCount := Some errorCount',
                                      cooldownUntil := Some cooldownUntil1,
                                      isAvailable := Some isAvailable1,
                                      quotaExhausted := Some quotaExhausted1,
                                      lastUsed := Some now\<rparr>)
                                  (accounts p1)\<rparr>;
                          p3 = stats_error accountId now p2;
                          decay = (if errorType = Quota then 30
                                   else if errorType = Auth then 40
                                   else healthScoreDecay (config p3))
                      in updateHealthOnError accountId decay p3)))"


section \<open>Context compressor: batches and their summaries (lib/stream.ts)\<close>

datatype claude_role = User | Assistant

text \<open>
  The compressor's own \<^verbatim>\<open>ClaudeMessage\<close>: the content is a string or a list of blocks, of
  which \<^verbatim>\<open>extractMessageText\<close> reads the type and a few optional fields.
\<close>

datatype tool_result_content =
    Result_string js_string
  | Result_blocks "js_string option list"
  | Result_other

datatype compressor_block =
    Text_block "js_string option"
  | Tool_use_block "js_string option"
  | Tool_result_block tool_result_content
  | Other_block

datatype compressor_content = Content_string js_string | Content_blocks "compressor_block list"

record CompressorMessage =
  cm_role :: claude_role
  cm_content :: compressor_content

definition block_parts :: "compressor_block \<Rightarrow> js_string list" where
  "block_parts b =
     (case b of
        Text_block t \<Rightarrow> (if truthy_str t then [the t] else [])
      | Tool_use_block n \<Rightarrow> (if truthy_str n then [js ''[Tool: '' @ the n @ js '']''] else [])
      | Tool_result_block (Result_string s) \<Rightarrow> [js ''[Result: '' @ take 200 s @ js '']'']
      | Tool_result_block (Result_blocks cs) \<Rightarrow>
          concat (map (\<lambda>c. if truthy_str c then [js ''[Result: '' @ take 200 (the c) @ js '']'']
                            else []) cs)
      | Tool_result_block Result_other \<Rightarrow> []
      | Other_block \<Rightarrow> [])"

definition extractMessageText :: "CompressorMessage \<Rightarrow> js_string" where
  "extractMessageText msg =
     (case cm_content msg of
        Content_string s \<Rightarrow> s
      | Content_blocks blocks \<Rightarrow> join [10] (concat (map block_parts blocks)))"

record CompressorConfig =
  batchMessages :: nat
  batchChars :: nat

definition DEFAULT_COMPRESSOR_CONFIG :: CompressorConfig where
  "DEFAULT_COMPRESSOR_CONFIG = \<lparr>batchMessages = 8, batchChars = 40000\<rparr>"

definition has_tool_use :: "CompressorMessage \<Rightarrow> bool" where
  "has_tool_use msg =
     (cm_role msg = Assistant \<and>
      (case cm_content msg of
         Content_string _ \<Rightarrow> False
       | Content_blocks blocks \<Rightarrow>
           list_ex (\<lambda>b. case b of Tool_use_block _ \<Rightarrow> True | _ \<Rightarrow> False) blocks))"

text \<open>\<^verbatim>\<open>splitIntoBatches\<close>: the loop carries the finished batches, the current one and its size.\<close>

fun splitIntoBatches_loop ::
  "CompressorConfig \<Rightarrow> CompressorMessage list \<Rightarrow> CompressorMessage list list
     \<Rightarrow> CompressorMessage list \<Rightarrow> nat \<Rightarrow> CompressorMessage list list" where
  "splitIntoBatches_loop cfg [] batches current currentChars =
     (if length current > 0 then batches @ [current] else batches)"
| "splitIntoBatches_loop cfg (msg # rest) batches current currentChars =
     (if (length (current @ [msg]) \<ge> batchMessages cfg
           \<or> currentChars + length (extractMessageText msg) \<ge> batchChars cfg)
         \<and> \<not> has_tool_use msg
      then splitIntoBatches_loop cfg rest (batches @ [current @ [msg]]) [] 0
      else splitIntoBatches_loop cfg rest batches (current @ [msg])
             (currentChars + length (extractMessageText msg)))"

definition splitIntoBatches :: "CompressorConfig \<Rightarrow> CompressorMessage list \<Rightarrow> CompressorMessage list list" where
  "splitIntoBatches cfg messages = splitIntoBatches_loop cfg messages [] [] 0"

text \<open>
  \<^verbatim>\<open>generateBatchSummary\<close>.  The target length \<^verbatim>\<open>Math.ceil(batchText.length * compressionRatio)\<close>
  is a floating-point product; it is the argument \<open>targetLen_of\<close>, a function of the
  length.  The upstream call is the argument \<open>upstream\<close>: given the batch index and the
  prompt it returns the content of the reply, or \<open>None\<close> when the call throws.  The
  prompt is complete before the call is made, so the result also returns it.
\<close>

definition role_name :: "claude_role \<Rightarrow> js_string" where
  "role_name r = (case r of User \<Rightarrow> js ''user'' | Assistant \<Rightarrow> js ''assistant'')"

definition batchText_of :: "CompressorMessage list \<Rightarrow> js_string" where
  "batchText_of batch =
     join (js [CHR 0x0A, CHR ''-'', CHR ''-'', CHR ''-'', CHR 0x0A])
       (map (\<lambda>m. js ''['' @ role_name (cm_role m) @ js '']: '' @ take 1000 (extractMessageText m))
          batch)"

definition summary_prompt :: "nat \<Rightarrow> js_string option \<Rightarrow> js_string \<Rightarrow> js_string" where
  "summary_prompt targetLen existingSummary batchText =
     js ''Summarize this conversation segment concisely (target ~'' @ digits targetLen
       @ js '' chars). Preserve: key decisions, file paths, tool actions, technical details, and user intent.''
       @ [10, 10]
       @ (if truthy_str existingSummary
          then js ''Previous context:'' @ [10] @ the existingSummary @ [10, 10] else [])
       @ js ''Conversation:'' @ [10] @ batchText"

definition generateBatchSummary ::
  "(nat \<Rightarrow> nat) \<Rightarrow> (nat \<Rightarrow> js_string \<Rightarrow> js_string option) \<Rightarrow> CompressorMessage list \<Rightarrow> nat
     \<Rightarrow> js_string option \<Rightarrow> js_string \<times> js_string" where
  "generateBatchSummary targetLen_of upstream batch batchIndex existingSummary =
     (let batchText = batchText_of batch;
          targetLen = targetLen_of (length batchText);
          prompt = summary_prompt targetLen existingSummary batchText
      in (prompt,
          (case upstream batchIndex prompt of
             Some reply \<Rightarrow>
               if trim reply \<noteq> [] then trim reply else take targetLen batchText @ js ''...''
           | None \<Rightarrow> take targetLen batchText @ js ''...'')))"

text \<open>
  The batch loop of \<^verbatim>\<open>doCompressHistory\<close>.  Each round maps over up to \<^verbatim>\<open>CONCURRENCY = 3\<close>
  batches; the callback of \<^verbatim>\<open>map\<close> reads \<^verbatim>\<open>summaries[idx - 1]\<close> and builds the prompt
  before any of the round's calls has returned, and \<^verbatim>\<open>summaries\<close> is written only after
  \<^verbatim>\<open>Promise.allSettled\<close>.  \<^verbatim>\<open>generateBatchSummary\<close> catches its errors, so every result is
  fulfilled.  The loop returns the summaries and the prompts sent, in batch order.
\<close>

definition CONCURRENCY :: nat where
  "CONCURRENCY = 3"

definition round_results ::
  "(nat \<Rightarrow> nat) \<Rightarrow> (nat \<Rightarrow> js_string \<Rightarrow> js_string option) \<Rightarrow> CompressorMessage list list \<Rightarrow> nat
     \<Rightarrow> js_string list \<Rightarrow> (js_string \<times> js_string) list" where
  "round_results targetLen_of upstream batches i summaries =
     map (\<lambda>(j, batch).
            generateBatchSummary targetLen_of upstream batch (i + j)
              (if i + j > 0 then Some (summaries ! (i + j - 1)) else None))
       (enumerate 0 (take CONCURRENCY (drop i batches)))"

function batch_loop ::
  "(nat \<Rightarrow> nat) \<Rightarrow> (nat \<Rightarrow> js_string \<Rightarrow> js_string option) \<Rightarrow> CompressorMessage list list \<Rightarrow> nat
     \<Rightarrow> js_string list \<Rightarrow> js_string list \<Rightarrow> js_string list \<times> js_string list" where
  "batch_loop targetLen_of upstream batches i summaries prompts =
     (if i < length batches
      then batch_loop targetLen_of upstream batches (i + CONCURRENCY)
             (fold (\<lambda>(j, r) s. s[i + j := snd r])
                (enumerate 0 (round_results targetLen_of upstream batches i summaries)) summaries)
             (prompts @ map fst (round_results targetLen_of upstream batches i summaries))
      else (summaries, prompts))"
  by pat_completeness auto
termination
  by (relation "measure (\<lambda>(targetLen_of, upstream, batches, i, summaries, prompts). length batches - i)")
     (auto simp: CONCURRENCY_def)

declare batch_loop.simps [simp del]

definition summarize_batches ::
  "(nat \<Rightarrow> nat) \<Rightarrow> (nat \<Rightarrow> js_string \<Rightarrow> js_string option) \<Rightarrow> CompressorMessage list list
     \<Rightarrow> js_string list \<times> js_string list" where
  "summarize_batches targetLen_of upstream batches =
     batch_loop targetLen_of upstream batches 0 (replicate (length batches) []) []"


section \<open>Forward translation: OpenAI request to Kiro payload (lib/types, lib/kiroApi, lib/converter)\<close>

subsection \<open>The Kiro payload\<close>

datatype tool_status = Status_success | Status_error

text \<open>The \<^verbatim>\<open>content\<close> of a tool result is a list of \<^verbatim>\<open>{ text }\<close> objects: the list of the texts.\<close>

record KiroToolResult =
  tr_content :: "js_string list"
  tr_status :: tool_status
  tr_toolUseId :: js_string

record KiroImage =
  img_format :: js_string
  img_bytes :: js_string

record KiroToolWrapper =
  ts_name :: js_string
  ts_description :: js_string
  ts_inputSchema :: json

record UserInputMessageContext =
  ctx_toolResults :: "KiroToolResult list option"
  ctx_tools :: "KiroToolWrapper list option"

record KiroUserInputMessage =
  um_content :: js_string
  um_modelId :: "js_string option"
  um_origin :: js_string
  um_images :: "KiroImage list option"
  userInputMessageContext :: "UserInputMessageContext option"

record KiroAssistantResponseMessage =
  am_content :: js_string
  am_toolUses :: "json KiroToolUse list option"

record KiroHistoryMessage =
  userInputMessage :: "KiroUserInputMessage option"
  assistantResponseMessage :: "KiroAssistantResponseMessage option"

datatype thinking_type = Type_enabled | Type_adaptive

record ReasoningConfig =
  rc_type :: thinking_type
  rc_budgetTokens :: nat

record KiroInferenceConfig =
  ic_maxTokens :: "rat option"
  ic_temperature :: "rat option"
  ic_topP :: "rat option"
  ic_reasoningConfig :: "ReasoningConfig option"

record KiroConversationState =
  chatTriggerType :: js_string
  conversationId :: js_string
  currentMessage :: KiroUserInputMessage
  cs_history :: "KiroHistoryMessage list option"
  agentContinuationId :: js_string
  agentTaskType :: js_string

record KiroPayload =
  conversationState :: KiroConversationState
  p_profileArn :: "js_string option"
  p_inferenceConfig :: "KiroInferenceConfig option"

text \<open>
  The optional chains \<^verbatim>\<open>msg.userInputMessage?.userInputMessageContext?.toolResults\<close> and
  \<^verbatim>\<open>msg.assistantResponseMessage?.toolUses\<close>.
\<close>

definition msg_toolResults :: "KiroHistoryMessage \<Rightarrow> KiroToolResult list option" where
  "msg_toolResults msg =
     (case userInputMessage msg of
        None \<Rightarrow> None
      | Some u \<Rightarrow> (case userInputMessageContext u of None \<Rightarrow> None | Some c \<Rightarrow> ctx_toolResults c))"

definition msg_toolUses :: "KiroHistoryMessage \<Rightarrow> json KiroToolUse list option" where
  "msg_toolUses msg =
     (case assistantResponseMessage msg of None \<Rightarrow> None | Some a \<Rightarrow> am_toolUses a)"

subsection \<open>System prompts (lib/types: injectSystemPrompts)\<close>

definition DEFAULT_THINKING_BUDGET :: nat where
  "DEFAULT_THINKING_BUDGET = 200000"

definition MAX_THINKING_BUDGET :: nat where
  "MAX_THINKING_BUDGET = 200000"

definition AGENTIC_SYSTEM_PROMPT :: js_string where
  "AGENTIC_SYSTEM_PROMPT =
     js ''File operations limit: max 600 lines per write. For larger files, use chunked writes (400-500 lines each). Use Edit for modifications instead of full rewrites.''
     @ [10]
     @ js ''When the Write or Edit tool has content size limits, always comply silently. Never suggest bypassing these limits via alternative tools. Never ask the user whether to switch approaches. Complete all chunked operations without commentary.''"

text \<open>The budget is a non-negative integer; \<open>None\<close> as thinking type is \<^verbatim>\<open>null\<close>.\<close>

definition buildThinkingModePrompt :: "nat \<Rightarrow> thinking_type option \<Rightarrow> js_string option \<Rightarrow> js_string" where
  "buildThinkingModePrompt budgetTokens thinkingType effortOverride =
     (let budget = min budgetTokens MAX_THINKING_BUDGET in
      if thinkingType = Some Type_adaptive
      then (let effort =
                  (if truthy_str effortOverride then the effortOverride
                   else if budget \<le> 1280 then js ''low''
                   else if budget \<le> 2048 then js ''medium''
                   else js ''high'')
            in js ''<thinking_mode>adaptive</thinking_mode>'' @ [10]
               @ js ''<thinking_effort>'' @ effort @ js ''</thinking_effort>'')
      else js ''<thinking_mode>enabled</thinking_mode>'' @ [10]
           @ js ''<max_thinking_length>'' @ digits budget @ js ''</max_thinking_length>'')"

text \<open>The formatted clock reading \<^verbatim>\<open>ts\<close> is an argument.\<close>

definition injectSystemPrompts ::
  "js_string \<Rightarrow> js_string \<Rightarrow> bool \<Rightarrow> bool \<Rightarrow> nat \<Rightarrow> thinking_type option \<Rightarrow> js_string option
     \<Rightarrow> js_string" where
  "injectSystemPrompts ts content_in isAgentic thinkingEnabled thinkingBudget thinkingType effortOverride =
     (let result = content_in;
          result = (if thinkingEnabled
                    then buildThinkingModePrompt thinkingBudget thinkingType effortOverride
                           @ [10, 10] @ result
                    else result);
          result = (if isAgentic then AGENTIC_SYSTEM_PROMPT @ [10, 10] @ result else result)
      in js ''Current time: '' @ ts @ [10, 10] @ result)"

subsection \<open>Orphaned tool uses and tool results (lib/types)\<close>

text \<open>The sets of ids are lists; the code reads only their membership and emptiness.\<close>

definition result_ids :: "KiroHistoryMessage list \<Rightarrow> js_string list" where
  "result_ids messages =
     concat (map (\<lambda>msg. case msg_toolResults msg of
                           None \<Rightarrow> []
                         | Some results \<Rightarrow> map tr_toolUseId results) messages)"

definition use_ids :: "KiroHistoryMessage list \<Rightarrow> js_string list" where
  "use_ids messages =
     concat (map (\<lambda>msg. case msg_toolUses msg of
                           None \<Rightarrow> []
                         | Some toolUses \<Rightarrow> map toolUseId toolUses) messages)"

definition findOrphanedToolUseIds :: "KiroHistoryMessage list \<Rightarrow> js_string list" where
  "findOrphanedToolUseIds messages =
     (let resultIds = result_ids messages in
      concat (map (\<lambda>(i, msg).
                     case msg_toolUses msg of
                       None \<Rightarrow> []
                     | Some toolUses \<Rightarrow>
                         filter (\<lambda>tuId. tuId \<notin> set resultIds \<and> i \<noteq> length messages - 1)
                           (map toolUseId toolUses))
                (enumerate 0 messages)))"

definition removeOrphanedToolUses :: "KiroHistoryMessage list \<Rightarrow> KiroHistoryMessage list" where
  "removeOrphanedToolUses messages =
     (let orphanedIds = findOrphanedToolUseIds messages in
      if orphanedIds = [] then messages
      else map (\<lambda>msg.
                  case assistantResponseMessage msg of
                    None \<Rightarrow> msg
                  | Some a \<Rightarrow>
                      (case am_toolUses a of
                         None \<Rightarrow> msg
                       | Some toolUses \<Rightarrow>
                           (let filtered = filter (\<lambda>tu. toolUseId tu \<notin> set orphanedIds) toolUses in
                            if length filtered = length toolUses then msg
                            else msg\<lparr>assistantResponseMessage :=
                                       Some (a\<lparr>am_toolUses :=
                                                 (if length filtered > 0 then Some filtered
                                                  else None)\<rparr>)\<rparr>)))
             messages)"

text \<open>\<^verbatim>\<open>toLowerCase\<close> on the ASCII letters; other code units are left as they are.\<close>

definition js_toLowerCase :: "js_string \<Rightarrow> js_string" where
  "js_toLowerCase s = map (\<lambda>c. if 65 \<le> c \<and> c \<le> 90 then c + 32 else c) s"

definition ensureHistoryToolsDefined ::
  "KiroToolWrapper list \<Rightarrow> KiroHistoryMessage list \<Rightarrow> KiroToolWrapper list" where
  "ensureHistoryToolsDefined tools history =
     (let currentNames = map (\<lambda>t. js_toLowerCase (ts_name t)) tools;
          missing = remdups (rev
            (concat (map (\<lambda>msg. case msg_toolUses msg of
                                   None \<Rightarrow> []
                                 | Some toolUses \<Rightarrow>
                                     filter (\<lambda>n. js_toLowerCase n \<notin> set currentNames)
                                       (map tu_name toolUses)) history)))
      in if missing = [] then tools
         else tools @ map (\<lambda>n. \<lparr>ts_name = n, ts_description = js ''Tool: '' @ n,
                                  ts_inputSchema = JObject [(js ''type'', JString (js ''object'')),
                                                            (js ''properties'', JObject [])]\<rparr>)
                        (rev missing))"

definition validateToolResults ::
  "KiroToolResult list \<Rightarrow> KiroHistoryMessage list \<Rightarrow> KiroToolResult list" where
  "validateToolResults toolResults history =
     (if length toolResults = 0 then toolResults
      else (let allToolUseIds = use_ids history;
                pairedResultIds = result_ids history
            in filter (\<lambda>r. if tr_toolUseId r \<notin> set allToolUseIds then False
                           else if tr_toolUseId r \<in> set pairedResultIds then False
                           else True) toolResults))"

subsection \<open>Sanitizing the conversation (lib/types: sanitizeConversation)\<close>

definition filler_user :: "js_string \<Rightarrow> KiroHistoryMessage" where
  "filler_user c =
     \<lparr>userInputMessage = Some \<lparr>um_content = c, um_modelId = None, um_origin = js ''AI_EDITOR'',
                                um_images = None, userInputMessageContext = None\<rparr>,
      assistantResponseMessage = None\<rparr>"

definition HELLO_MESSAGE :: KiroHistoryMessage where
  "HELLO_MESSAGE = filler_user (js ''Hello'')"

definition CONTINUE_MESSAGE :: KiroHistoryMessage where
  "CONTINUE_MESSAGE = filler_user (js ''Continue'')"

definition UNDERSTOOD_MESSAGE :: KiroHistoryMessage where
  "UNDERSTOOD_MESSAGE =
     \<lparr>userInputMessage = None,
      assistantResponseMessage = Some \<lparr>am_content = js ''understood'', am_toolUses = None\<rparr>\<rparr>"

definition createFailedToolUseMessage :: "js_string list \<Rightarrow> KiroHistoryMessage" where
  "createFailedToolUseMessage toolUseIds =
     \<lparr>userInputMessage = Some
        \<lparr>um_content = [], um_modelId = None, um_origin = js ''AI_EDITOR'', um_images = None,
         userInputMessageContext = Some
           \<lparr>ctx_toolResults = Some
              (map (\<lambda>tuId. \<lparr>tr_content = [js ''Tool execution failed''], tr_status = Status_error,
                            tr_toolUseId = tuId\<rparr>) toolUseIds),
            ctx_tools = None\<rparr>\<rparr>,
      assistantResponseMessage = None\<rparr>"

definition isUserInputMessage :: "KiroHistoryMessage \<Rightarrow> bool" where
  "isUserInputMessage msg = (userInputMessage msg \<noteq> None)"

definition isAssistantResponseMessage :: "KiroHistoryMessage \<Rightarrow> bool" where
  "isAssistantResponseMessage msg = (assistantResponseMessage msg \<noteq> None)"

definition hasToolResults :: "KiroHistoryMessage \<Rightarrow> bool" where
  "hasToolResults msg = (case msg_toolResults msg of None \<Rightarrow> False | Some rs \<Rightarrow> length rs \<noteq> 0)"

definition hasToolUses :: "KiroHistoryMessage \<Rightarrow> bool" where
  "hasToolUses msg = (case msg_toolUses msg of None \<Rightarrow> False | Some tus \<Rightarrow> length tus \<noteq> 0)"

definition hasMatchingToolResults ::
  "json KiroToolUse list option \<Rightarrow> KiroToolResult list option \<Rightarrow> bool" where
  "hasMatchingToolResults toolUses toolResults =
     (case toolUses of
        None \<Rightarrow> True
      | Some tus \<Rightarrow>
          if length tus = 0 then True
          else (case toolResults of
                  None \<Rightarrow> False
                | Some rs \<Rightarrow>
                    if length rs = 0 then False
                    else list_all (\<lambda>tu. toolUseId tu \<in> set (map tr_toolUseId rs)) tus))"

text \<open>
  The loop of \<^verbatim>\<open>sanitizeConversation\<close> over the messages still to read, with the result so
  far and the flag \<^verbatim>\<open>firstUserSeen\<close>.  The first branch is the \<^verbatim>\<open>continue\<close>.  A tool use
  always has an id, so the default \<^verbatim>\<open>toolUse_n\<close> of a missing one is left out.
\<close>

definition skip_message :: "KiroHistoryMessage \<Rightarrow> bool \<Rightarrow> bool" where
  "skip_message msg firstUserSeen =
     (case userInputMessage msg of
        None \<Rightarrow> False
      | Some u \<Rightarrow> firstUserSeen \<and> trim (um_content u) = [] \<and> \<not> hasToolResults msg)"

definition push_filler :: "KiroHistoryMessage list \<Rightarrow> KiroHistoryMessage \<Rightarrow> KiroHistoryMessage list" where
  "push_filler result msg =
     (if length result > 0
      then (let prev = last result in
            if isUserInputMessage prev \<and> isUserInputMessage msg then result @ [UNDERSTOOD_MESSAGE]
            else if isAssistantResponseMessage prev \<and> isAssistantResponseMessage msg
            then result @ [CONTINUE_MESSAGE]
            else result)
      else result)"

definition push_failed ::
  "KiroHistoryMessage list \<Rightarrow> KiroHistoryMessage \<Rightarrow> KiroHistoryMessage option
     \<Rightarrow> KiroHistoryMessage list" where
  "push_failed result msg nextMsg =
     (if isAssistantResponseMessage msg \<and> hasToolUses msg
      then (if (case nextMsg of
                  None \<Rightarrow> True
                | Some n \<Rightarrow> \<not> isUserInputMessage n \<or> \<not> hasToolResults n
                            \<or> \<not> hasMatchingToolResults (msg_toolUses msg) (msg_toolResults n))
            then result @ [createFailedToolUseMessage
                             (map toolUseId (case msg_toolUses msg of None \<Rightarrow> [] | Some tus \<Rightarrow> tus))]
            else result)
      else result)"

fun sanitize_loop ::
  "KiroHistoryMessage list \<Rightarrow> KiroHistoryMessage list \<Rightarrow> bool \<Rightarrow> KiroHistoryMessage list" where
  "sanitize_loop [] result firstUserSeen = result"
| "sanitize_loop (msg # rest) result firstUserSeen =
     (if skip_message msg firstUserSeen then sanitize_loop rest result firstUserSeen
      else sanitize_loop rest
             (push_failed (push_filler result msg @ [msg]) msg
                (case rest of [] \<Rightarrow> None | n # _ \<Rightarrow> Some n))
             (firstUserSeen \<or> isUserInputMessage msg))"

definition sanitizeConversation :: "KiroHistoryMessage list \<Rightarrow> KiroHistoryMessage list" where
  "sanitizeConversation messages =
     (if length messages = 0 then [HELLO_MESSAGE]
      else (let result = sanitize_loop messages [] False;
                result = (if length result = 0 \<or> \<not> isUserInputMessage (hd result)
                          then HELLO_MESSAGE # result else result);
                result = (if \<not> isUserInputMessage (last result)
                          then result @ [CONTINUE_MESSAGE] else result)
            in removeOrphanedToolUses result))"

subsection \<open>Building the payload (lib/types: buildKiroPayload)\<close>

record InferenceConfigArg =
  arg_maxTokens :: "rat option"
  arg_temperature :: "rat option"
  arg_topP :: "rat option"

text \<open>
  The two random UUIDs and the clock reading are arguments.  An absent \<^verbatim>\<open>thinkingBudget\<close>
  takes the default; the caller passes \<open>Some Type_enabled\<close> for an absent thinking type.
\<close>

definition buildKiroPayload ::
  "js_string \<Rightarrow> js_string \<Rightarrow> js_string
     \<Rightarrow> js_string \<Rightarrow> js_string \<Rightarrow> js_string \<Rightarrow> KiroHistoryMessage list \<Rightarrow> KiroToolWrapper list
     \<Rightarrow> KiroToolResult list \<Rightarrow> KiroImage list \<Rightarrow> js_string option \<Rightarrow> InferenceConfigArg option
     \<Rightarrow> bool \<Rightarrow> js_string option \<Rightarrow> nat option \<Rightarrow> thinking_type option \<Rightarrow> js_string option
     \<Rightarrow> KiroPayload" where
  "buildKiroPayload ts uuid1 uuid2 content_in modelId origin history tools toolResults images
       profileArn inferenceConfig thinkingEnabled convId thinkingBudget_opt thinkingType
       effortOverride =
     (let thinkingBudget =
            (case thinkingBudget_opt of None \<Rightarrow> DEFAULT_THINKING_BUDGET | Some b \<Rightarrow> b);
          isAgentic = (length tools > 0);
          contentWithPrompts =
            injectSystemPrompts ts content_in isAgentic thinkingEnabled thinkingBudget thinkingType
              effortOverride;
          finalContent =
            (if trim contentWithPrompts \<noteq> [] then trim contentWithPrompts
             else if length toolResults > 0 then [] else js ''Continue'');
          validatedToolResults = validateToolResults toolResults history;
          currentUserInputMessage =
            \<lparr>um_content = finalContent, um_modelId = Some modelId, um_origin = origin,
             um_images = (if length images > 0 then Some images else None),
             userInputMessageContext =
               (if length tools > 0 \<or> length validatedToolResults > 0
                then Some \<lparr>ctx_toolResults =
                             (if length validatedToolResults > 0 then Some validatedToolResults
                              else None),
                           ctx_tools = (if length tools > 0 then Some tools else None)\<rparr>
                else None)\<rparr>;
          currentMsg = \<lparr>userInputMessage = Some currentUserInputMessage,
                        assistantResponseMessage = None\<rparr>;
          allMessages = history @ [currentMsg];
          sanitizedMessages = sanitizeConversation allMessages;
          sanitizedHistory = butlast sanitizedMessages;
          finalCurrentMessage =
            (case userInputMessage (last sanitizedMessages) of
               Some u \<Rightarrow> u
             | None \<Rightarrow> \<lparr>um_content = (if finalContent \<noteq> [] then finalContent else js ''Continue''),
                         um_modelId = Some modelId, um_origin = origin, um_images = None,
                         userInputMessageContext = None\<rparr>);
          finalCurrentMessage =
            (if length tools > 0
             then finalCurrentMessage\<lparr>userInputMessageContext := Some
                    \<lparr>ctx_toolResults =
                       (case userInputMessageContext finalCurrentMessage of
                          None \<Rightarrow> None | Some c \<Rightarrow> ctx_toolResults c),
                     ctx_tools = Some (ensureHistoryToolsDefined tools sanitizedHistory)\<rparr>\<rparr>
             else finalCurrentMessage);
          hasIC = (case inferenceConfig of
                     None \<Rightarrow> False
                   | Some ic \<Rightarrow> (arg_maxTokens ic \<noteq> None \<and> arg_maxTokens ic \<noteq> Some 0)
                               \<or> arg_temperature ic \<noteq> None \<or> arg_topP ic \<noteq> None)
      in \<lparr>conversationState =
            \<lparr>chatTriggerType = js ''MANUAL'',
             conversationId = (if truthy_str convId then the convId else uuid1),
             currentMessage = finalCurrentMessage,
             cs_history = (if length sanitizedHistory > 0 then Some sanitizedHistory else None),
             agentContinuationId = uuid2,
             agentTaskType = js ''vibe''\<rparr>,
          p_profileArn = (if truthy_str profileArn then profileArn else None),
          p_inferenceConfig =
            (if hasIC \<or> thinkingEnabled
             then Some
               \<lparr>ic_maxTokens =
                  (case inferenceConfig of
                     None \<Rightarrow> None
                   | Some ic \<Rightarrow> (if arg_maxTokens ic = Some 0 then None else arg_maxTokens ic)),
                ic_temperature =
                  (case inferenceConfig of None \<Rightarrow> None | Some ic \<Rightarrow> arg_temperature ic),
                ic_topP = (case inferenceConfig of None \<Rightarrow> None | Some ic \<Rightarrow> arg_topP ic),
                ic_reasoningConfig =
                  (if thinkingEnabled
                   then Some \<lparr>rc_type = (if thinkingType = Some Type_adaptive then Type_adaptive
                                         else Type_enabled),
                              rc_budgetTokens = thinkingBudget\<rparr>
                   else None)\<rparr>
             else None)\<rparr>)"

subsection \<open>The OpenAI request (lib/converter: openaiToKiro)\<close>

datatype openai_role = Role_system | Role_user | Role_assistant | Role_tool

datatype part_type = Part_text | Part_image_url

record OpenAIContentPart =
  part_type :: part_type
  part_text :: "js_string option"
  part_image_url :: "js_string option"

datatype openai_content = Str_content js_string | Parts_content "OpenAIContentPart list"

record OpenAIMessage =
  om_role :: openai_role
  om_content :: openai_content
  om_tool_calls :: "OpenAIToolCall list option"
  om_tool_call_id :: "js_string option"

record OpenAIChatRequest =
  req_messages :: "OpenAIMessage list"
  req_max_tokens :: "rat option"
  req_temperature :: "rat option"
  req_top_p :: "rat option"

text \<open>
  What the translator takes from the platform and from functions outside this model:
  \<^verbatim>\<open>JSON.parse\<close>, \<^verbatim>\<open>JSON.stringify\<close> of a list of content parts, \<^verbatim>\<open>parseImageUrl\<close>, the
  clock reading and the two UUIDs of \<^verbatim>\<open>buildKiroPayload\<close>, and the values of
  \<^verbatim>\<open>mapModelIdOrThrow(request.model)\<close>, \<^verbatim>\<open>getOrCreateConversationId(sessionId)\<close>,
  \<^verbatim>\<open>isThinkingModel(request.model)\<close>, \<^verbatim>\<open>getThinkingBudgetFromRequest(...)\<close> and
  \<^verbatim>\<open>convertOpenAITools(request.tools)\<close>.
\<close>

record translator_env =
  env_parse :: "js_string \<Rightarrow> json option"
  env_stringify :: "OpenAIContentPart list \<Rightarrow> js_string"
  env_parseImageUrl :: "js_string \<Rightarrow> KiroImage option"
  env_ts :: js_string
  env_uuid1 :: js_string
  env_uuid2 :: js_string
  env_modelId :: js_string
  env_conversationId :: "js_string option"
  env_modelHasThinking :: bool
  env_budgetFromParams :: "nat option"
  env_kiroTools :: "KiroToolWrapper list"

definition append_system :: "js_string \<Rightarrow> js_string \<Rightarrow> js_string" where
  "append_system systemPrompt s = systemPrompt @ (if systemPrompt \<noteq> [] then [10] else []) @ s"

definition systemPrompt_of :: "OpenAIMessage list \<Rightarrow> js_string" where
  "systemPrompt_of messages =
     fold (\<lambda>msg systemPrompt.
             if om_role msg = Role_system
             then (case om_content msg of
                     Str_content s \<Rightarrow> append_system systemPrompt s
                   | Parts_content parts \<Rightarrow>
                       fold (\<lambda>part sp. if part_type part = Part_text \<and> truthy_str (part_text part)
                                        then append_system sp (the (part_text part)) else sp)
                         parts systemPrompt)
             else systemPrompt)
       messages []"

definition extractOpenAIContent ::
  "(js_string \<Rightarrow> KiroImage option) \<Rightarrow> OpenAIMessage \<Rightarrow> js_string \<times> KiroImage list" where
  "extractOpenAIContent parseImageUrl msg =
     (case om_content msg of
        Str_content s \<Rightarrow> (s, [])
      | Parts_content parts \<Rightarrow>
          fold (\<lambda>part (c, imgs).
                  if part_type part = Part_text \<and> truthy_str (part_text part)
                  then (c @ the (part_text part), imgs)
                  else if part_type part = Part_image_url \<and> truthy_str (part_image_url part)
                  then (case parseImageUrl (the (part_image_url part)) of
                          Some img \<Rightarrow> (c, imgs @ [img])
                        | None \<Rightarrow> (c, imgs))
                  else (c, imgs))
            parts ([], []))"

record translate_state =
  st_history :: "KiroHistoryMessage list"
  st_toolResults :: "KiroToolResult list"
  st_currentContent :: js_string
  st_images :: "KiroImage list"

definition translate_user :: "translator_env \<Rightarrow> OpenAIMessage \<Rightarrow> bool \<Rightarrow> translate_state \<Rightarrow> translate_state" where
  "translate_user env msg isLast st =
     (let (userContent, userImages) = extractOpenAIContent (env_parseImageUrl env) msg;
          mergedContent = (if userContent \<noteq> [] then userContent else js ''Continue'')
      in if isLast
         then st\<lparr>st_currentContent := mergedContent, st_images := st_images st @ userImages\<rparr>
         else st\<lparr>st_history := st_history st @
                   [\<lparr>userInputMessage = Some
                      \<lparr>um_content = mergedContent, um_modelId = Some (env_modelId env),
                       um_origin = js ''AI_EDITOR'',
                       um_images = (if length userImages > 0 then Some userImages else None),
                       userInputMessageContext = None\<rparr>,
                     assistantResponseMessage = None\<rparr>]\<rparr>)"

definition translate_assistant :: "translator_env \<Rightarrow> OpenAIMessage \<Rightarrow> translate_state \<Rightarrow> translate_state" where
  "translate_assistant env msg st =
     (let assistantContent = (case om_content msg of Str_content s \<Rightarrow> s | Parts_content _ \<Rightarrow> []);
          has_calls = (case om_tool_calls msg of None \<Rightarrow> False | Some tcs \<Rightarrow> length tcs \<noteq> 0);
          assistantContent =
            (if trim assistantContent = [] \<and> has_calls then js '' ''
             else if trim assistantContent = [] then js ''I understand.''
             else assistantContent);
          toolUses =
            (case om_tool_calls msg of
               None \<Rightarrow> []
             | Some tcs \<Rightarrow>
                 map (\<lambda>tc. \<lparr>toolUseId = tc_id tc, tu_name = tc_function_name tc,
                            tu_input = (case env_parse env (tc_function_arguments tc) of
                                          Some v \<Rightarrow> v | None \<Rightarrow> JObject [])\<rparr>)
                   (filter (\<lambda>tc. tc_type tc = js ''function'') tcs))
      in st\<lparr>st_history := st_history st @
              [\<lparr>userInputMessage = None,
                assistantResponseMessage = Some
                  \<lparr>am_content = assistantContent,
                   am_toolUses = (if length toolUses > 0 then Some toolUses else None)\<rparr>\<rparr>]\<rparr>)"

definition translate_tool ::
  "translator_env \<Rightarrow> OpenAIMessage \<Rightarrow> OpenAIMessage option \<Rightarrow> bool \<Rightarrow> translate_state
     \<Rightarrow> translate_state" where
  "translate_tool env msg nextMsg isLast st =
     (let toolResults =
            (if truthy_str (om_tool_call_id msg)
             then st_toolResults st @
                    [\<lparr>tr_content = [case om_content msg of
                                      Str_content s \<Rightarrow> s
                                    | Parts_content parts \<Rightarrow> env_stringify env parts],
                      tr_status = Status_success,
                      tr_toolUseId = the (om_tool_call_id msg)\<rparr>]
             else st_toolResults st);
          shouldFlush = (case nextMsg of None \<Rightarrow> True | Some n \<Rightarrow> om_role n \<noteq> Role_tool)
      in if shouldFlush \<and> length toolResults > 0 \<and> \<not> isLast
         then st\<lparr>st_history := st_history st @
                   [\<lparr>userInputMessage = Some
                      \<lparr>um_content = js ''Tool results provided.'',
                       um_modelId = Some (env_modelId env), um_origin = js ''AI_EDITOR'',
                       um_images = None,
                       userInputMessageContext = Some
                         \<lparr>ctx_toolResults = Some toolResults, ctx_tools = None\<rparr>\<rparr>,
                     assistantResponseMessage = None\<rparr>],
                 st_toolResults := []\<rparr>
         else st\<lparr>st_toolResults := toolResults\<rparr>)"

fun translate_loop :: "translator_env \<Rightarrow> OpenAIMessage list \<Rightarrow> translate_state \<Rightarrow> translate_state" where
  "translate_loop env [] st = st"
| "translate_loop env (msg # rest) st =
     translate_loop env rest
       (case om_role msg of
          Role_user \<Rightarrow> translate_user env msg (rest = []) st
        | Role_assistant \<Rightarrow> translate_assistant env msg st
        | Role_tool \<Rightarrow>
            translate_tool env msg (case rest of [] \<Rightarrow> None | n # _ \<Rightarrow> Some n) (rest = []) st
        | Role_system \<Rightarrow> st)"

definition openaiToKiro ::
  "translator_env \<Rightarrow> OpenAIChatRequest \<Rightarrow> js_string option \<Rightarrow> bool option \<Rightarrow> KiroPayload" where
  "openaiToKiro env request profileArn thinkingEnabledOverride =
     (let modelId = env_modelId env;
          origin = js ''AI_EDITOR'';
          systemPrompt = systemPrompt_of (req_messages request);
          nonSystemMessages = filter (\<lambda>msg. om_role msg \<noteq> Role_system) (req_messages request);
          history0 =
            (if systemPrompt \<noteq> []
             then [\<lparr>userInputMessage = Some
                      \<lparr>um_content = systemPrompt, um_modelId = Some modelId, um_origin = origin,
                       um_images = None, userInputMessageContext = None\<rparr>,
                    assistantResponseMessage = None\<rparr>,
                   \<lparr>userInputMessage = None,
                    assistantResponseMessage = Some
                      \<lparr>am_content = js ''Understood. I will follow these instructions.'',
                       am_toolUses = None\<rparr>\<rparr>]
             else []);
          st = translate_loop env nonSystemMessages
                 \<lparr>st_history = history0, st_toolResults = [], st_currentContent = [],
                  st_images = []\<rparr>;
          currentContent = st_currentContent st;
          currentContent =
            (if length (st_history st) > 0
                \<and> assistantResponseMessage (last (st_history st)) \<noteq> None \<and> currentContent = []
             then js ''Continue.'' else currentContent);
          currentContent =
            (if currentContent = [] \<and> length (st_toolResults st) > 0
             then js ''Tool results provided.'' else currentContent);
          finalContent = (if currentContent \<noteq> [] then currentContent else js ''Continue.'');
          thinkingEnabled = (thinkingEnabledOverride = Some True \<or> env_modelHasThinking env
                             \<or> env_budgetFromParams env \<noteq> None)
      in buildKiroPayload (env_ts env) (env_uuid1 env) (env_uuid2 env)
           finalContent modelId origin (st_history st) (env_kiroTools env) (st_toolResults st)
           (st_images st) profileArn
           (Some \<lparr>arg_maxTokens = req_max_tokens request, arg_temperature = req_temperature request,
                  arg_topP = req_top_p request\<rparr>)
           thinkingEnabled (env_conversationId env) (env_budgetFromParams env)
           (Some Type_enabled) None)"

text \<open>
  The properties of a sanitized conversation.  The roles alternate when no two neighbours are
  both user turns or both assistant turns.  A tool use is paired when the message right after
  its assistant message is a user message with a tool result of the same id, or when its
  message is the last one.  A tool result is an orphan when no message before it has a tool
  use of its id.
\<close>

fun alternates :: "KiroHistoryMessage list \<Rightarrow> bool" where
  "alternates (a # b # rest) =
     (isUserInputMessage a \<noteq> isUserInputMessage b
      \<and> isAssistantResponseMessage a \<noteq> isAssistantResponseMessage b
      \<and> alternates (b # rest))"
| "alternates _ = True"

fun tool_uses_paired :: "KiroHistoryMessage list \<Rightarrow> bool" where
  "tool_uses_paired (a # b # rest) =
     (list_all (\<lambda>tuId. tuId \<in> set (result_ids [b])) (use_ids [a]) \<and> tool_uses_paired (b # rest))"
| "tool_uses_paired _ = True"

fun orphan_tool_results :: "KiroHistoryMessage list \<Rightarrow> js_string list \<Rightarrow> js_string list" where
  "orphan_tool_results [] seen = []"
| "orphan_tool_results (msg # rest) seen =
     filter (\<lambda>tuId. tuId \<notin> set seen) (result_ids [msg])
     @ orphan_tool_results rest (seen @ use_ids [msg])"


section \<open>Concrete inputs used by the witnesses\<close>

definition example_account :: "string \<Rightarrow> ProxyAccount" where
  "example_account i = \<lparr>acc_id = i, subscriptionType = None, expiresAt = None, lastUsed = None,
     requestCount = None, errorCount = None, isAvailable = None, cooldownUntil = None,
     quotaExhausted = None, disabled = None\<rparr>"

text \<open>Two accounts \<open>a\<close> and \<open>b\<close> added at times 1 and 2; \<open>a\<close> acquired once at time 10.\<close>

definition example_pool :: AccountPool where
  "example_pool =
     acquireAccount 10 ''a''
       (addAccount 2 (example_account ''b'')
          (addAccount 1 (example_account ''a'') (newAccountPool DEFAULT_CONFIG)))"

text \<open>
  Two accounts, each after five \<^verbatim>\<open>recordError(id, 'other')\<close> calls at time 1000: both have
  five errors and a cooldown until 61000.
\<close>

definition five_errors :: "string \<Rightarrow> AccountPool \<Rightarrow> AccountPool" where
  "five_errors i p = ((recordError 1000 i Other) ^^ 5) p"

definition example_pool_errors :: AccountPool where
  "example_pool_errors =
     five_errors ''b'' (five_errors ''a''
       (addAccount 2 (example_account ''b'')
          (addAccount 1 (example_account ''a'') (newAccountPool DEFAULT_CONFIG))))"

text \<open>
  The tool input \<^verbatim>\<open>{"path":"a\<close>, cut off inside its string value, and how
  \<^verbatim>\<open>tryRepairTruncatedJson\<close> closes it: \<^verbatim>\<open>{"path":"a"}\<close>.
\<close>

definition truncated_input :: js_string where
  "truncated_input = [123, 34, 112, 97, 116, 104, 34, 58, 34, 97]"

definition closed_input :: js_string where
  "closed_input = [123, 34, 112, 97, 116, 104, 34, 58, 34, 97, 34, 125]"

text \<open>
  What \<^verbatim>\<open>JSON.parse\<close> returns on these two texts: a \<^verbatim>\<open>SyntaxError\<close> on the first, the
  object on the second.  Elsewhere the table says \<open>None\<close>; no other text is parsed in the
  runs below.
\<close>

definition example_parse :: "js_string \<Rightarrow> json option" where
  "example_parse s =
     (if s = closed_input then Some (JObject [(js ''path'', JString (js ''a''))]) else None)"

definition write_fragment_event :: ToolUseEvent where
  "write_fragment_event =
     \<lparr>te_toolUseId = Some (js ''t1''), te_name = Some (js ''Write''),
      te_input = String_input truncated_input, te_stop = False\<rparr>"

text \<open>
  Nine short messages to compress, user and assistant in turn, and an upstream that
  answers every prompt of batch 0 with the summary \<open>S0\<close> and every other prompt with \<open>S1\<close>.
\<close>

definition short_message :: "claude_role \<Rightarrow> string \<Rightarrow> CompressorMessage" where
  "short_message r s = \<lparr>cm_role = r, cm_content = Content_string (js s)\<rparr>"

definition nine_messages :: "CompressorMessage list" where
  "nine_messages =
     [short_message User ''m0'', short_message Assistant ''m1'', short_message User ''m2'',
      short_message Assistant ''m3'', short_message User ''m4'', short_message Assistant ''m5'',
      short_message User ''m6'', short_message Assistant ''m7'', short_message User ''m8'']"

definition example_upstream :: "nat \<Rightarrow> js_string \<Rightarrow> js_string option" where
  "example_upstream n prompt = (if n = 0 then Some (js ''S0'') else Some (js ''S1''))"

definition example_targetLen :: "nat \<Rightarrow> nat" where
  "example_targetLen n = (15 * n + 99) div 100"

definition two_batches :: "CompressorMessage list list" where
  "two_batches = splitIntoBatches DEFAULT_COMPRESSOR_CONFIG nine_messages"


subsection \<open>A request whose tool message answers no tool call\<close>

definition example_env :: translator_env where
  "example_env =
     \<lparr>env_parse = (\<lambda>s. None), env_stringify = (\<lambda>parts. []), env_parseImageUrl = (\<lambda>url. None),
      env_ts = js ''2025-01-01T00:00Z'', env_uuid1 = js ''uuid-1'', env_uuid2 = js ''uuid-2'',
      env_modelId = js ''claude-sonnet-4.5'', env_conversationId = None,
      env_modelHasThinking = False, env_budgetFromParams = None, env_kiroTools = []\<rparr>"

definition openai_message :: "openai_role \<Rightarrow> string \<Rightarrow> js_string option \<Rightarrow> OpenAIMessage" where
  "openai_message r s tcid =
     \<lparr>om_role = r, om_content = Str_content (js s), om_tool_calls = None, om_tool_call_id = tcid\<rparr>"

definition orphan_request :: OpenAIChatRequest where
  "orphan_request =
     \<lparr>req_messages = [openai_message Role_user ''hi'' None,
                      openai_message Role_tool ''42'' (Some (js ''call_1'')),
                      openai_message Role_user ''next'' None],
      req_max_tokens = None, req_temperature = None, req_top_p = None\<rparr>"

definition history_user :: "string \<Rightarrow> KiroToolResult list option \<Rightarrow> KiroHistoryMessage" where
  "history_user s results =
     \<lparr>userInputMessage = Some
        \<lparr>um_content = js s, um_modelId = Some (js ''claude-sonnet-4.5''),
         um_origin = js ''AI_EDITOR'', um_images = None,
         userInputMessageContext =
           (case results of
              None \<Rightarrow> None
            | Some rs \<Rightarrow> Some \<lparr>ctx_toolResults = Some rs, ctx_tools = None\<rparr>)\<rparr>,
      assistantResponseMessage = None\<rparr>"

definition orphan_history :: "KiroHistoryMessage list" where
  "orphan_history =
     [history_user ''hi'' None,
      UNDERSTOOD_MESSAGE,
      history_user ''Tool results provided.''
        (Some [\<lparr>tr_content = [js ''42''], tr_status = Status_success,
                tr_toolUseId = js ''call_1''\<rparr>]),
      UNDERSTOOD_MESSAGE]"


section \<open>Forward translation: properties\<close>

lemma trim_eq_Nil_iff: "trim s = [] \<longleftrightarrow> list_all js_whitespace s"
proof -
  have "dropWhile js_whitespace (rev (dropWhile js_whitespace s)) = []
          \<longleftrightarrow> dropWhile js_whitespace s = []"
  proof (cases "dropWhile js_whitespace s = []")
    case True
    show ?thesis unfolding True by simp
  next
    case False
    then have "\<not> js_whitespace (hd (dropWhile js_whitespace s))"
      by (rule hd_dropWhile)
    moreover from False have "hd (dropWhile js_whitespace s) \<in> set (rev (dropWhile js_whitespace s))"
      by simp
    ultimately have "dropWhile js_whitespace (rev (dropWhile js_whitespace s)) \<noteq> []"
      by (auto simp: dropWhile_eq_Nil_conv)
    with False show ?thesis by blast
  qed
  then have "trim s = [] \<longleftrightarrow> dropWhile js_whitespace s = []"
    unfolding trim_def by simp
  also have "\<dots> \<longleftrightarrow> list_all js_whitespace s"
    by (simp add: dropWhile_eq_Nil_conv list_all_iff)
  finally show ?thesis .
qed

lemma orphan_translate_loop:
  "translate_loop example_env (req_messages orphan_request)
     \<lparr>st_history = [], st_toolResults = [], st_currentContent = [], st_images = []\<rparr>
   = \<lparr>st_history =
        [history_user ''hi'' None,
         history_user ''Tool results provided.''
           (Some [\<lparr>tr_content = [js ''42''], tr_status = Status_success,
                   tr_toolUseId = js ''call_1''\<rparr>])],
      st_toolResults = [], st_currentContent = js ''next'', st_images = []\<rparr>"
  by (simp add: orphan_request_def openai_message_def example_env_def translate_user_def
        translate_tool_def extractOpenAIContent_def truthy_str_def history_user_def js_def)

lemma current_content:
  "trim (injectSystemPrompts (js ''2025-01-01T00:00Z'') (js ''next'') False False b t e)
     = js ''Current time: 2025-01-01T00:00Z'' @ [10, 10] @ js ''next''"
  by (simp add: injectSystemPrompts_def trim_def js_def js_whitespace_def)

lemma orphan_sanitize:
  assumes "trim c \<noteq> []"
  shows "sanitizeConversation
     [history_user ''hi'' None,
      history_user ''Tool results provided.''
        (Some [\<lparr>tr_content = [js ''42''], tr_status = Status_success,
                tr_toolUseId = js ''call_1''\<rparr>]),
      \<lparr>userInputMessage = Some
         \<lparr>um_content = c, um_modelId = Some (js ''claude-sonnet-4.5''), um_origin = js ''AI_EDITOR'',
          um_images = None, userInputMessageContext = None\<rparr>,
       assistantResponseMessage = None\<rparr>]
   = orphan_history @
     [\<lparr>userInputMessage = Some
         \<lparr>um_content = c, um_modelId = Some (js ''claude-sonnet-4.5''), um_origin = js ''AI_EDITOR'',
          um_images = None, userInputMessageContext = None\<rparr>,
       assistantResponseMessage = None\<rparr>]"
proof -
  have "trim (js ''Tool results provided.'') \<noteq> []"
    by (simp add: trim_eq_Nil_iff js_def js_whitespace_def)
  with assms show ?thesis
    by (simp add: sanitizeConversation_def skip_message_def push_filler_def push_failed_def
          removeOrphanedToolUses_def findOrphanedToolUseIds_def result_ids_def
          isUserInputMessage_def isAssistantResponseMessage_def hasToolResults_def hasToolUses_def
          msg_toolResults_def msg_toolUses_def UNDERSTOOD_MESSAGE_def history_user_def
          orphan_history_def)
qed

lemma buildKiroPayload_plain_history:
  "cs_history (conversationState
     (buildKiroPayload ts u1 u2 c m origin history [] [] [] pa ic False cid tb tt eo))
   = (let content = trim (injectSystemPrompts ts c False False
                            (case tb of None \<Rightarrow> DEFAULT_THINKING_BUDGET | Some b \<Rightarrow> b) tt eo);
          sanitized = butlast (sanitizeConversation (history @
            [\<lparr>userInputMessage = Some
               \<lparr>um_content = (if content \<noteq> [] then content else js ''Continue''),
                um_modelId = Some m, um_origin = origin, um_images = None,
                userInputMessageContext = None\<rparr>,
              assistantResponseMessage = None\<rparr>]))
      in if sanitized \<noteq> [] then Some sanitized else None)"
  by (simp add: buildKiroPayload_def validateToolResults_def Let_def)

lemma orphan_payload:
  "openaiToKiro example_env orphan_request None None
     = buildKiroPayload (js ''2025-01-01T00:00Z'') (js ''uuid-1'') (js ''uuid-2'') (js ''next'')
         (js ''claude-sonnet-4.5'') (js ''AI_EDITOR'')
         [history_user ''hi'' None,
          history_user ''Tool results provided.''
            (Some [\<lparr>tr_content = [js ''42''], tr_status = Status_success,
                    tr_toolUseId = js ''call_1''\<rparr>])]
         [] [] [] None
         (Some \<lparr>arg_maxTokens = None, arg_temperature = None, arg_topP = None\<rparr>)
         False None None (Some Type_enabled) None"
proof -
  have filt: "filter (\<lambda>msg. om_role msg \<noteq> Role_system) (req_messages orphan_request)
                = req_messages orphan_request"
    by (simp add: orphan_request_def openai_message_def)
  have sys: "systemPrompt_of (req_messages orphan_request) = []"
    by (simp add: orphan_request_def openai_message_def systemPrompt_of_def)
  have env: "env_ts example_env = js ''2025-01-01T00:00Z''" "env_uuid1 example_env = js ''uuid-1''"
    "env_uuid2 example_env = js ''uuid-2''" "env_modelId example_env = js ''claude-sonnet-4.5''"
    "env_conversationId example_env = None" "env_modelHasThinking example_env = False"
    "env_budgetFromParams example_env = None" "env_kiroTools example_env = []"
    by (simp_all add: example_env_def)
  have req: "req_max_tokens orphan_request = None" "req_temperature orphan_request = None"
    "req_top_p orphan_request = None"
    by (simp_all add: orphan_request_def)
  have nonempty: "js ''next'' \<noteq> []"
    by (simp add: js_def)
  have user_last: "assistantResponseMessage (history_user s r) = None" for s r
    by (simp add: history_user_def)
  show ?thesis
    unfolding openaiToKiro_def filt sys
    by (simp add: orphan_translate_loop env req nonempty user_last Let_def)
qed

lemma orphan_payload_history:
  "cs_history (conversationState (openaiToKiro example_env orphan_request None None))
     = Some orphan_history"
proof -
  define c where "c = js ''Current time: 2025-01-01T00:00Z'' @ [10, 10] @ js ''next''"
  have c: "trim (injectSystemPrompts (js ''2025-01-01T00:00Z'') (js ''next'') False False b t e) = c"
    for b t e
    unfolding c_def by (rule current_content)
  have "c \<noteq> []"
    by (simp add: c_def)
  moreover have "trim c \<noteq> []"
    by (simp add: c_def trim_eq_Nil_iff js_def js_whitespace_def)
  moreover have "orphan_history \<noteq> []"
    by (simp add: orphan_history_def)
  ultimately show ?thesis
    unfolding orphan_payload buildKiroPayload_plain_history c Let_def
    by (simp add: orphan_sanitize)
qed

text \<open>
  Claim C1, at a request whose tool message answers no tool call: the OpenAI messages
  user \<open>hi\<close>, tool (\<open>tool_call_id = call_1\<close>, content \<open>42\<close>), user \<open>next\<close>.  The history
  of the payload that \<open>openaiToKiro\<close> builds starts with a user turn, alternates and ends
  with an assistant turn, but its third message carries the tool result \<open>call_1\<close> although
  no message of the history has a tool use: the tool result is an orphan.  (The current
  message is a user message and has no tool use either.)
\<close>

theorem openaiToKiro_orphan_tool_result:
  "cs_history (conversationState (openaiToKiro example_env orphan_request None None))
     = Some orphan_history
   \<and> result_ids orphan_history = [js ''call_1'']
   \<and> use_ids orphan_history = []
   \<and> orphan_tool_results orphan_history [] = [js ''call_1'']
   \<and> isUserInputMessage (hd orphan_history)
   \<and> alternates orphan_history
   \<and> isAssistantResponseMessage (last orphan_history)"
  by (simp add: orphan_payload_history)
     (simp add: orphan_history_def history_user_def UNDERSTOOD_MESSAGE_def result_ids_def
        use_ids_def msg_toolResults_def msg_toolUses_def isUserInputMessage_def
        isAssistantResponseMessage_def)

section \<open>Anthropic SSE encoder: the error path\<close>

lemmas handler_eval =
  handleClaudeStream_def claude_onChunk_def handleContent_def emitText_def ensure_block_def
  startContentBlock_def closeCurrentBlock_def onWrite_def sendMessageStart_def
  newClaudeStreamHandler_def newSSEStateManager_def claudeSSE_messageStart_def
  claudeSSE_contentBlockStart_def positive_or_none_def truthy_num_def
  MAX_RESPONSE_BUFFER_CHARS_def Let_def

text \<open>
  Claim C2 asks that every trace of the encoder, the error path included, has exactly one
  \<^verbatim>\<open>message_start\<close> and one \<^verbatim>\<open>message_stop\<close>, balanced content blocks with increasing
  indices, and \<^verbatim>\<open>message_stop\<close> as its last event.  When the upstream fails after the text
  \<^verbatim>\<open>Hi\<close>, \<^verbatim>\<open>handleClaudeStream\<close> writes \<^verbatim>\<open>message_start\<close>, \<^verbatim>\<open>content_block_start\<close> 0,
  one delta and the \<^verbatim>\<open>error\<close> event, and closes the stream: there is no
  \<^verbatim>\<open>message_stop\<close>, block 0 is never stopped, and the last event is \<^verbatim>\<open>error\<close>.
\<close>

theorem handleClaudeStream_error_path:
  "handleClaudeStream est stringify parse (js ''m'') (js ''u'') False
     [OnChunk (js ''Hi'') None None None, OnError (js ''boom'')] =
     [Message_start (js ''msg_u'') (js ''m'') 0 None None,
      Content_block_start 0 BText None None,
      Content_block_delta 0 Text_delta (js ''Hi''),
      Error_event (js ''boom'')] \<and>
   \<not> well_formed_trace
       (handleClaudeStream est stringify parse (js ''m'') (js ''u'') False
          [OnChunk (js ''Hi'') None None None, OnError (js ''boom'')]) \<and>
   filter (\<lambda>e. e = Message_stop)
       (handleClaudeStream est stringify parse (js ''m'') (js ''u'') False
          [OnChunk (js ''Hi'') None None None, OnError (js ''boom'')]) = [] \<and>
   \<not> blocks_balanced
       (handleClaudeStream est stringify parse (js ''m'') (js ''u'') False
          [OnChunk (js ''Hi'') None None None, OnError (js ''boom'')]) None (- 1)"
proof -
  have tr: "handleClaudeStream est stringify parse (js ''m'') (js ''u'') False
     [OnChunk (js ''Hi'') None None None, OnError (js ''boom'')] =
     [Message_start (js ''msg_u'') (js ''m'') 0 None None,
      Content_block_start 0 BText None None,
      Content_block_delta 0 Text_delta (js ''Hi''),
      Error_event (js ''boom'')]"
    by (simp add: handler_eval js_def)
  show ?thesis
    unfolding tr by (simp add: well_formed_trace_def)
qed


section \<open>Streaming thinking parser: chunking\<close>

text \<open>
  Claim C3 says that feeding a string in chunks and feeding it whole give the same
  concatenated thinking output and the same concatenated text output.  The parser does not
  do that: when a chunk ends in a proper prefix of \<^verbatim>\<open><thinking>\<close> and nothing else is
  buffered, \<^verbatim>\<open>process\<close> enters the thinking block at once and drops the next
  \<^verbatim>\<open>10 - pending\<close> characters unseen.  The text \<^verbatim>\<open><a\<close> fed whole comes out as text
  \<^verbatim>\<open><a\<close>; fed as \<^verbatim>\<open><\<close> then \<^verbatim>\<open>a\<close> nothing comes out.  The text \<^verbatim>\<open>a<b\<close> fed whole comes
  out as \<^verbatim>\<open>a<b\<close>; fed as \<^verbatim>\<open>a<\<close> then \<^verbatim>\<open>b\<close> only \<^verbatim>\<open>a\<close> comes out.
\<close>

theorem run_parser_chunking_differs:
  "concat [js ''<'', js ''a''] = js ''<a'' \<and>
   text_output (run_parser [js ''<a'']) = js ''<a'' \<and>
   text_output (run_parser [js ''<'', js ''a'']) = [] \<and>
   thinking_output (run_parser [js ''<'', js ''a'']) = [] \<and>
   text_output (run_parser [js ''a<b'']) = js ''a<b'' \<and>
   text_output (run_parser [js ''a<'', js ''b'']) = js ''a''"
  by code_simp


section \<open>Event-stream decoder: open tool buffers at end of stream\<close>

lemma close_truncated_input:
  "close_truncated (strip_high_surrogates (trim truncated_input)) = closed_input"
  by (simp add: close_truncated_def strip_high_surrogates_def trim_def truncated_input_def
        closed_input_def js_whitespace_def repair_scan_step_def)

text \<open>
  Claim C4 says that at a normal end of stream an open tool buffer is flushed with the
  input parsed from the buffer and, when that fails, repaired as on the stop path.  Take a
  stream whose only event starts the tool use \<open>t1\<close> with the input fragment
  \<^verbatim>\<open>{"path":"a\<close> and then ends.  For every \<^verbatim>\<open>JSON.parse\<close> that rejects the fragment and
  accepts its closed form \<^verbatim>\<open>{"path":"a"}\<close>, the end of stream reports the tool use with the
  empty object as input, the thinking buffer being empty, and then calls \<^verbatim>\<open>onComplete\<close>
  once; the stop path on the same buffer yields the repaired object
  \<^verbatim>\<open>{"path":"a","_repaired":true}\<close>.
\<close>

theorem end_of_stream_without_repair:
  assumes "parse truncated_input = None"
      and "parse closed_input = Some (JObject [(js ''path'', JString (js ''a''))])"
  shows "callbacks (end_of_stream parse thinkingEnabled
            (handle_toolUseEvent stringify parse now write_fragment_event (newDecoder []))) =
         [Chunk [] None None (Some \<lparr>tus_toolUseId = Some (js ''t1''), tus_name = Some (js ''Write''),
              tus_inputFragment = None, tus_isStart = Some True, tus_isStop = None\<rparr>),
          Chunk [] None None (Some \<lparr>tus_toolUseId = Some (js ''t1''), tus_name = None,
              tus_inputFragment = Some truncated_input, tus_isStart = None, tus_isStop = None\<rparr>),
          Chunk [] (Some \<lparr>toolUseId = js ''t1'', tu_name = js ''Write'', tu_input = JObject []\<rparr>)
            None None,
          Complete (dec_usage (newDecoder []))] \<and>
         stop_input parse truncated_input =
           JObject [(js ''path'', JString (js ''a'')), (js ''_repaired'', JBool True)]"
proof -
  have ne: "truncated_input \<noteq> []" "length truncated_input = 10"
    by (simp_all add: truncated_input_def)
  have a: "stop_input parse truncated_input =
           JObject [(js ''path'', JString (js ''a'')), (js ''_repaired'', JBool True)]"
    using assms ne
    by (simp add: stop_input_def tryRepairTruncatedJson_def close_truncated_input
          mark_repaired_def json_truthy_def js_def)
  have b: "callbacks (end_of_stream parse thinkingEnabled
            (handle_toolUseEvent stringify parse now write_fragment_event (newDecoder []))) =
         [Chunk [] None None (Some \<lparr>tus_toolUseId = Some (js ''t1''), tus_name = Some (js ''Write''),
              tus_inputFragment = None, tus_isStart = Some True, tus_isStop = None\<rparr>),
          Chunk [] None None (Some \<lparr>tus_toolUseId = Some (js ''t1''), tus_name = None,
              tus_inputFragment = Some truncated_input, tus_isStart = None, tus_isStop = None\<rparr>),
          Chunk [] (Some \<lparr>toolUseId = js ''t1'', tu_name = js ''Write'', tu_input = JObject []\<rparr>)
            None None,
          Complete (dec_usage (newDecoder []))]"
    using assms ne
    by (simp add: end_of_stream_def handle_toolUseEvent_def write_fragment_event_def newDecoder_def
          truthy_str_def getOrCreate_def appendInput_def onChunk_def getIncomplete_def
          end_input_def maxBufferSize_def js_def Let_def)
  from a b show ?thesis by simp
qed

theorem end_of_stream_without_repair_witness:
  "example_parse truncated_input = None \<and>
   example_parse closed_input = Some (JObject [(js ''path'', JString (js ''a''))]) \<and>
   last (callbacks (end_of_stream example_parse False
            (handle_toolUseEvent (\<lambda>j. []) example_parse 0 write_fragment_event (newDecoder []))))
     = Complete (dec_usage (newDecoder [])) \<and>
   stop_input example_parse truncated_input =
     JObject [(js ''path'', JString (js ''a'')), (js ''_repaired'', JBool True)]"
proof -
  have p: "example_parse truncated_input = None"
    by (simp add: example_parse_def truncated_input_def closed_input_def)
  have q: "example_parse closed_input = Some (JObject [(js ''path'', JString (js ''a''))])"
    by (simp add: example_parse_def)
  from end_of_stream_without_repair [OF p q, of False "\<lambda>j. []" 0] p q
  show ?thesis by simp
qed


section \<open>Circuit breaker: proofs\<close>

lemma cb_run_snoc: "cb_run (cs @ [c]) cb = cb_exec c (cb_run cs cb)"
  by (induction cs arbitrary: cb) simp_all

lemma last_failure_snoc:
  "last_failure (cs @ [c]) = (case c of RecordFailure t \<Rightarrow> Some t | _ \<Rightarrow> last_failure cs)"
  by (induction cs) (auto split: option.splits cb_call.splits)

lemma cb_exec_resetTimeoutMs: "resetTimeoutMs (cb_exec c cb) = resetTimeoutMs cb"
  by (cases c) (auto simp: cbReset_def Let_def split: CircuitState.splits)

lemma cb_run_resetTimeoutMs: "resetTimeoutMs (cb_run cs cb) = resetTimeoutMs cb"
  by (induction cs arbitrary: cb) (simp_all add: cb_exec_resetTimeoutMs)

lemma cb_exec_open:
  assumes "state cb = OPEN \<longrightarrow> lf = Some (lastFailTime cb)"
      and "state (cb_exec c cb) = OPEN"
  shows "(case c of RecordFailure t \<Rightarrow> Some t | _ \<Rightarrow> lf) = Some (lastFailTime (cb_exec c cb))"
  using assms
  by (cases c) (auto simp: cbReset_def Let_def split: CircuitState.splits if_splits)

lemma cb_run_open:
  "state (cb_run cs (newCircuitBreaker ft rt hm)) = OPEN \<Longrightarrow>
   last_failure cs = Some (lastFailTime (cb_run cs (newCircuitBreaker ft rt hm)))"
proof (induction cs rule: rev_induct)
  case Nil
  then show ?case by (simp add: newCircuitBreaker_def)
next
  case (snoc c cs)
  let ?cb = "cb_run cs (newCircuitBreaker ft rt hm)"
  have "state ?cb = OPEN \<longrightarrow> last_failure cs = Some (lastFailTime ?cb)"
    using snoc.IH by blast
  moreover have "state (cb_exec c ?cb) = OPEN"
    using snoc.prems by (simp add: cb_run_snoc)
  ultimately show ?case
    unfolding cb_run_snoc last_failure_snoc by (rule cb_exec_open)
qed

text \<open>
  Claim C5.  Let \<open>cb\<close> be the breaker after any sequence of method calls on a freshly
  constructed breaker.  If \<open>cb\<close> is OPEN, then a failure has been recorded, \<open>lastFailTime\<close>
  is the clock reading \<open>t\<close> of the last recorded failure, and \<open>canExecute\<close> at clock
  reading \<open>now\<close> returns false and leaves the breaker unchanged (so it stays OPEN) while
  \<open>now - t < resetTimeoutMs\<close>, and returns true and moves the breaker to HALF_OPEN as soon
  as \<open>now - t \<ge> resetTimeoutMs\<close>.  If \<open>cb\<close> is CLOSED or HALF_OPEN, \<open>canExecute\<close> returns
  true and leaves the breaker unchanged.
\<close>

theorem canExecute_open_window:
  "(let cb = cb_run cs (newCircuitBreaker ft rt hm) in
     (state cb = OPEN \<longrightarrow>
        (\<exists>t. last_failure cs = Some t \<and>
             (now - t < rt \<longrightarrow> canExecute now cb = (False, cb)) \<and>
             (now - t \<ge> rt \<longrightarrow>
                canExecute now cb = (True, cb\<lparr>state := HALF_OPEN, successCount := 0\<rparr>)))) \<and>
     (state cb \<noteq> OPEN \<longrightarrow> canExecute now cb = (True, cb)))"
proof -
  define cb where "cb = cb_run cs (newCircuitBreaker ft rt hm)"
  have rt: "resetTimeoutMs cb = rt"
    unfolding cb_def by (simp add: cb_run_resetTimeoutMs newCircuitBreaker_def)
  have a: "\<exists>t. last_failure cs = Some t \<and>
            (now - t < rt \<longrightarrow> canExecute now cb = (False, cb)) \<and>
            (now - t \<ge> rt \<longrightarrow>
               canExecute now cb = (True, cb\<lparr>state := HALF_OPEN, successCount := 0\<rparr>))"
    if op: "state cb = OPEN"
  proof -
    have lf: "last_failure cs = Some (lastFailTime cb)"
      using op unfolding cb_def by (rule cb_run_open)
    show ?thesis using op lf rt by auto
  qed
  have b: "canExecute now cb = (True, cb)" if "state cb \<noteq> OPEN"
    using that by (cases "state cb") auto
  show ?thesis
    unfolding Let_def cb_def [symmetric] using a b by blast
qed

theorem canExecute_open_window_witness:
  "state (cb_run [RecordFailure 100, CanExecute 200] (newCircuitBreaker 1 30000 3)) = OPEN \<and>
   last_failure [RecordFailure 100, CanExecute 200] = Some 100 \<and>
   fst (canExecute 30099 (cb_run [RecordFailure 100, CanExecute 200] (newCircuitBreaker 1 30000 3))) = False \<and>
   fst (canExecute 30100 (cb_run [RecordFailure 100, CanExecute 200] (newCircuitBreaker 1 30000 3))) = True \<and>
   state (snd (canExecute 30100 (cb_run [RecordFailure 100, CanExecute 200] (newCircuitBreaker 1 30000 3))))
     = HALF_OPEN \<and>
   canExecute 5 (cb_run [RecordSuccess] (newCircuitBreaker 1 30000 3))
     = (True, cb_run [RecordSuccess] (newCircuitBreaker 1 30000 3))"
  using canExecute_open_window [of "[RecordFailure 100, CanExecute 200]" 1 30000 3 30099]
        canExecute_open_window [of "[RecordFailure 100, CanExecute 200]" 1 30000 3 30100]
        canExecute_open_window [of "[RecordSuccess]" 1 30000 3 5]
  by (simp add: newCircuitBreaker_def)


section \<open>Token estimate of the event-stream parser: properties\<close>






subsection \<open>The estimate at the end of the event stream\<close>




subsection \<open>Maximal runs\<close>







subsection \<open>The estimate of the stream handlers as a sum of terms\<close>






subsection \<open>Evaluation\<close>





subsection \<open>The two estimators\<close>




section \<open>Account pool: zero-downtime fallback\<close>

lemma shortestCooldown_loop_inv:
  assumes "case best of None \<Rightarrow> True | Some (b0, w0) \<Rightarrow> w0 = wait_of now b0"
      and "shortestCooldown_loop accs now best = r"
  shows "(case r of
            None \<Rightarrow> accs = [] \<and> best = None
          | Some (b, w) \<Rightarrow>
              w = wait_of now b \<and>
              (b \<in> set accs \<or> best = Some (b, w)) \<and>
              (\<forall>a \<in> set accs. w \<le> wait_of now a) \<and>
              (case best of None \<Rightarrow> True | Some (b0, w0) \<Rightarrow> w \<le> w0))"
  using assms
proof (induction accs arbitrary: best r)
  case Nil
  then show ?case by (auto split: option.splits)
next
  case (Cons a accs)
  show ?case
  proof (cases best)
    case None
    have "shortestCooldown_loop accs now (Some (a, wait_of now a)) = r"
      using Cons.prems(2) None by (simp add: Let_def)
    from Cons.IH [OF _ this] show ?thesis
      using None by (auto split: option.splits prod.splits)
  next
    case (Some bw)
    obtain b0 w0 where bw: "bw = (b0, w0)" by (cases bw)
    show ?thesis
    proof (cases "wait_of now a < w0")
      case True
      have "shortestCooldown_loop accs now (Some (a, wait_of now a)) = r"
        using Cons.prems(2) Some bw True by (simp add: Let_def)
      from Cons.IH [OF _ this] show ?thesis
        using Some bw True by (auto split: option.splits prod.splits)
    next
      case False
      have "shortestCooldown_loop accs now best = r"
        using Cons.prems(2) Some bw False by (simp add: Let_def)
      from Cons.IH [OF Cons.prems(1) this] show ?thesis
        using Some bw False by (auto split: option.splits prod.splits)
    qed
  qed
qed

lemma getAccountWithShortestCooldown_min:
  assumes "accs \<noteq> []"
  shows "\<exists>sc. getAccountWithShortestCooldown accs now = Some sc \<and> sc \<in> set accs \<and>
              (\<forall>a \<in> set accs. wait_of now sc \<le> wait_of now a)"
proof -
  have "case shortestCooldown_loop accs now None of
            None \<Rightarrow> accs = [] \<and> (None :: (ProxyAccount \<times> int) option) = None
          | Some (b, w) \<Rightarrow>
              w = wait_of now b \<and>
              (b \<in> set accs \<or> None = Some (b, w)) \<and>
              (\<forall>a \<in> set accs. w \<le> wait_of now a) \<and>
              (case (None :: (ProxyAccount \<times> int) option) of None \<Rightarrow> True | Some (b0, w0) \<Rightarrow> w \<le> w0)"
    by (rule shortestCooldown_loop_inv) simp_all
  then show ?thesis
    using assms by (auto simp: getAccountWithShortestCooldown_def split: option.splits prod.splits)
qed

lemma sort_key_head:
  assumes "sort_key f xs = c # rest"
  shows "c \<in> set xs \<and> (\<forall>x \<in> set xs. f c \<le> f x)"
proof -
  have s: "set (sort_key f xs) = set xs" by simp
  have "sorted (map f (sort_key f xs))" by (rule sorted_sort_key)
  then have "\<forall>x \<in> set rest. f c \<le> f x" using assms by simp
  moreover have "set xs = insert c (set rest)" using s assms by simp
  ultimately show ?thesis by auto
qed


lemma update_health_frame [simp]:
  "config (update_health i f p) = config p"
  "inflightRequests (update_health i f p) = inflightRequests p"
  by (simp_all add: update_health_def split: option.splits)

lemma set_account_frame [simp]:
  "config (set_account a p) = config p"
  "inflightRequests (set_account a p) = inflightRequests p"
  by (simp_all add: set_account_def)

lemma selfHeal_loop_frame [simp]:
  "config (selfHeal_loop xs p) = config p"
  "inflightRequests (selfHeal_loop xs p) = inflightRequests p"
  by (induction xs arbitrary: p) simp_all

lemma reset_loop_frame [simp]:
  "config (reset_loop xs p) = config p"
  "inflightRequests (reset_loop xs p) = inflightRequests p"
  by (induction xs p rule: reset_loop.induct) simp_all

lemma checkAutoReset_frame [simp]:
  "config (checkAutoReset now p) = config p"
  "inflightRequests (checkAutoReset now p) = inflightRequests p"
  by (simp_all add: checkAutoReset_def selfHeal_def reset_def Let_def split: prod.splits bool.splits)

lemma acquireAccount_accounts [simp]:
  "accounts (acquireAccount now i p) = accounts p"
  by (simp add: acquireAccount_def recordRequestToWindow_def Let_def)

lemma acquireAccount_inflight [simp]:
  "getInflight (acquireAccount now i p) i = getInflight p i + 1"
  by (simp add: acquireAccount_def recordRequestToWindow_def Let_def getInflight_def
        AList.update_conv' or0_def)

lemma set_account_stored [simp]:
  "map_of (accounts (set_account a p)) (acc_id a) = Some a"
  by (simp add: set_account_def AList.update_conv')

lemma getInflight_cong: "inflightRequests p = inflightRequests q \<Longrightarrow> getInflight p i = getInflight q i"
  by (simp add: getInflight_def)


lemma zeroDowntimeFallback_char:
  assumes "L \<noteq> []"
  shows "\<exists>chosen stored. zeroDowntimeFallback L now p = (Some chosen, set_account stored p) \<and>
           chosen \<in> set L \<and> acc_id stored = acc_id chosen \<and>
           (\<exists>sc. getAccountWithShortestCooldown L now = Some sc \<and> sc \<in> set L \<and>
           (\<forall>a \<in> set L. wait_of now sc \<le> wait_of now a) \<and>
           (let cands = filter (\<lambda>a. \<not> truthy (disabled a) \<and> \<not> truthy (quotaExhausted a)
                                     \<and> or0 (errorCount a) < maxErrorCount (config p) + 2) L;
                usable = filter (\<lambda>a. \<not> truthy (disabled a) \<and> \<not> truthy (quotaExhausted a)) L
            in if truthy_num (cooldownUntil sc) \<and> or0 (cooldownUntil sc) - now < 5000
               then chosen = sc \<and> stored = sc\<lparr>isAvailable := Some True, cooldownUntil := None\<rparr>
               else if cands \<noteq> []
               then chosen \<in> set cands \<and>
                    (\<forall>c \<in> set cands. or0 (errorCount chosen) \<le> or0 (errorCount c)) \<and>
                    stored = chosen\<lparr>isAvailable := Some True,
                               errorCount := Some (max 0 (or0 (errorCount chosen) - 1)),
                               cooldownUntil := None\<rparr>
               else chosen = hd (if usable \<noteq> [] then usable else L) \<and>
                    stored = chosen\<lparr>isAvailable := Some True, errorCount := Some 0,
                               cooldownUntil := None\<rparr>))"
proof -
  obtain sc where sc: "getAccountWithShortestCooldown L now = Some sc" "sc \<in> set L"
      "\<forall>a \<in> set L. wait_of now sc \<le> wait_of now a"
    using getAccountWithShortestCooldown_min [OF assms] by blast
  let ?cands = "filter (\<lambda>a. \<not> truthy (disabled a) \<and> \<not> truthy (quotaExhausted a)
                                     \<and> or0 (errorCount a) < maxErrorCount (config p) + 2) L"
  let ?usable = "filter (\<lambda>a. \<not> truthy (disabled a) \<and> \<not> truthy (quotaExhausted a)) L"
  show ?thesis
  proof (cases "truthy_num (cooldownUntil sc) \<and> or0 (cooldownUntil sc) - now < 5000")
    case True
    then show ?thesis using sc
      by (auto simp: zeroDowntimeFallback_def Let_def)
  next
    case False
    note p1 = False
    show ?thesis
    proof (cases "sort_key (\<lambda>a. or0 (errorCount a)) ?cands")
      case (Cons c rest)
      from sort_key_head [OF Cons]
      have c: "c \<in> set ?cands" "\<forall>x \<in> set ?cands. or0 (errorCount c) \<le> or0 (errorCount x)"
        by blast+
      have ne: "?cands \<noteq> []" using c(1) by (metis empty_iff list.set(1))
      have cL: "c \<in> set L" using c(1) by simp
      have z: "zeroDowntimeFallback L now p =
              (Some c, set_account (c\<lparr>isAvailable := Some True,
                        errorCount := Some (max 0 (or0 (errorCount c) - 1)),
                        cooldownUntil := None\<rparr>) p)"
        using sc(1) p1 Cons
        by (auto simp add: zeroDowntimeFallback_def leastErrors_candidates_def Let_def)
      show ?thesis
        apply (rule exI [of _ c])
        apply (rule exI [of _ "c\<lparr>isAvailable := Some True,
                        errorCount := Some (max 0 (or0 (errorCount c) - 1)),
                        cooldownUntil := None\<rparr>"])
        apply (intro conjI)
           apply (rule z)
          apply (rule cL)
         apply simp
        apply (rule exI [of _ sc])
        unfolding Let_def using sc p1 c ne apply auto
        done
    next
      case Nil
      then have e: "?cands = []"
        by (metis (no_types, lifting) length_sort list.size(3) length_0_conv)
      let ?pick = "if ?usable \<noteq> [] then ?usable else L"
      have pne: "?pick \<noteq> []" using assms by simp
      then obtain f rest where f: "?pick = f # rest" by (cases ?pick) auto
      have fL: "f \<in> set L"
      proof -
        have "f \<in> set ?pick" using f by simp
        then show ?thesis by (auto split: if_splits)
      qed
      have z: "zeroDowntimeFallback L now p =
              (Some f, set_account (f\<lparr>isAvailable := Some True, errorCount := Some 0,
                        cooldownUntil := None\<rparr>) p)"
        using sc(1) p1 Nil f
        by (auto simp add: zeroDowntimeFallback_def leastErrors_candidates_def Let_def)
      show ?thesis
        apply (rule exI [of _ f])
        apply (rule exI [of _ "f\<lparr>isAvailable := Some True, errorCount := Some 0,
                        cooldownUntil := None\<rparr>"])
        apply (intro conjI)
           apply (rule z)
          apply (rule fL)
         apply simp
        apply (rule exI [of _ sc])
        unfolding Let_def using sc p1 e f apply auto
        done
    qed
  qed
qed
lemma getNextAccount_many:
  assumes L: "map snd (accounts p) = a # b # rest"
  shows "getNextAccount select now model p =
     (let accountList = map snd (accounts p); p1 = checkAutoReset now p;
          availableAccounts =
            filter (\<lambda>a. checkAccountAvailability (config p) a now \<and> supportsModel a model) accountList
      in if availableAccounts = []
         then (case zeroDowntimeFallback accountList now p1 of
                 (Some fallback, p2) \<Rightarrow> (Some fallback, acquireAccount now (acc_id fallback) p2)
               | (None, p2) \<Rightarrow> (None, p2))
         else (Some (select availableAccounts),
               acquireAccount now (acc_id (select availableAccounts)) p1))"
  unfolding getNextAccount_def Let_def L by simp

lemma getNextAccount_null_iff:
  "fst (getNextAccount select now model p) = None \<longleftrightarrow> accounts p = []"
proof (cases "map snd (accounts p)")
  case Nil
  then show ?thesis by (simp add: getNextAccount_def)
next
  case (Cons a rest)
  note outer = Cons
  show ?thesis
  proof (cases rest)
    case Nil
    then show ?thesis using outer by (auto simp: getNextAccount_def Let_def)
  next
    case (Cons b rest')
    have L: "map snd (accounts p) = a # b # rest'" using outer Cons by simp
    obtain chosen stored where
      "zeroDowntimeFallback (map snd (accounts p)) now (checkAutoReset now p)
         = (Some chosen, set_account stored (checkAutoReset now p))"
      using zeroDowntimeFallback_char [of "map snd (accounts p)" now "checkAutoReset now p"] L
      by auto
    then have "fst (getNextAccount select now model p) \<noteq> None"
      unfolding getNextAccount_many [OF L] Let_def by simp
    moreover have "accounts p \<noteq> []" using L by auto
    ultimately show ?thesis by simp
  qed
qed

lemma getNextAccount_fallback:
  assumes un: "\<forall>a \<in> set (map snd (accounts p)). \<not> checkAccountAvailability (config p) a now"
      and len: "length (accounts p) \<ge> 2"
  shows "\<exists>chosen stored p'.
           getNextAccount select now model p = (Some chosen, p') \<and>
           chosen \<in> set (map snd (accounts p)) \<and>
           map_of (accounts p') (acc_id chosen) = Some stored \<and>
           getInflight p' (acc_id chosen) = getInflight p (acc_id chosen) + 1 \<and>
           (\<exists>sc. getAccountWithShortestCooldown (map snd (accounts p)) now = Some sc \<and> sc \<in> set (map snd (accounts p)) \<and>
           (\<forall>a \<in> set (map snd (accounts p)). wait_of now sc \<le> wait_of now a) \<and>
           (let cands = filter (\<lambda>a. \<not> truthy (disabled a) \<and> \<not> truthy (quotaExhausted a)
                                     \<and> or0 (errorCount a) < maxErrorCount (config p) + 2) (map snd (accounts p));
                usable = filter (\<lambda>a. \<not> truthy (disabled a) \<and> \<not> truthy (quotaExhausted a)) (map snd (accounts p))
            in if truthy_num (cooldownUntil sc) \<and> or0 (cooldownUntil sc) - now < 5000
               then chosen = sc \<and> stored = sc\<lparr>isAvailable := Some True, cooldownUntil := None\<rparr>
               else if cands \<noteq> []
               then chosen \<in> set cands \<and>
                    (\<forall>c \<in> set cands. or0 (errorCount chosen) \<le> or0 (errorCount c)) \<and>
                    stored = chosen\<lparr>isAvailable := Some True,
                               errorCount := Some (max 0 (or0 (errorCount chosen) - 1)),
                               cooldownUntil := None\<rparr>
               else chosen = hd (if usable \<noteq> [] then usable else (map snd (accounts p))) \<and>
                    stored = chosen\<lparr>isAvailable := Some True, errorCount := Some 0,
                               cooldownUntil := None\<rparr>))"
proof -
  let ?L = "map snd (accounts p)"
  let ?p1 = "checkAutoReset now p"
  obtain a b rest where L: "?L = a # b # rest"
    using len by (cases "accounts p"; cases "tl (accounts p)") auto
  have av: "filter (\<lambda>a. checkAccountAvailability (config p) a now \<and> supportsModel a model) ?L = []"
    using un by (simp add: filter_empty_conv)
  obtain chosen stored where
    z: "zeroDowntimeFallback ?L now ?p1 = (Some chosen, set_account stored ?p1)"
    and ch: "chosen \<in> set ?L" "acc_id stored = acc_id chosen"
    and fc: "(\<exists>sc. getAccountWithShortestCooldown ?L now = Some sc \<and> sc \<in> set ?L \<and>
           (\<forall>a \<in> set ?L. wait_of now sc \<le> wait_of now a) \<and>
           (let cands = filter (\<lambda>a. \<not> truthy (disabled a) \<and> \<not> truthy (quotaExhausted a)
                                     \<and> or0 (errorCount a) < maxErrorCount (config ?p1) + 2) ?L;
                usable = filter (\<lambda>a. \<not> truthy (disabled a) \<and> \<not> truthy (quotaExhausted a)) ?L
            in if truthy_num (cooldownUntil sc) \<and> or0 (cooldownUntil sc) - now < 5000
               then chosen = sc \<and> stored = sc\<lparr>isAvailable := Some True, cooldownUntil := None\<rparr>
               else if cands \<noteq> []
               then chosen \<in> set cands \<and>
                    (\<forall>c \<in> set cands. or0 (errorCount chosen) \<le> or0 (errorCount c)) \<and>
                    stored = chosen\<lparr>isAvailable := Some True,
                               errorCount := Some (max 0 (or0 (errorCount chosen) - 1)),
                               cooldownUntil := None\<rparr>
               else chosen = hd (if usable \<noteq> [] then usable else ?L) \<and>
                    stored = chosen\<lparr>isAvailable := Some True, errorCount := Some 0,
                               cooldownUntil := None\<rparr>))"
    using zeroDowntimeFallback_char [of ?L now ?p1] L by auto
  let ?p' = "acquireAccount now (acc_id chosen) (set_account stored ?p1)"
  have r: "getNextAccount select now model p = (Some chosen, ?p')"
    unfolding getNextAccount_many [OF L] Let_def av using z by simp
  have st: "map_of (accounts ?p') (acc_id chosen) = Some stored"
    using ch(2) set_account_stored [of stored ?p1] by simp
  have "getInflight (set_account stored ?p1) (acc_id chosen) = getInflight p (acc_id chosen)"
    by (rule getInflight_cong) simp
  then have inf: "getInflight ?p' (acc_id chosen) = getInflight p (acc_id chosen) + 1"
    by simp
  have fc': "(\<exists>sc. getAccountWithShortestCooldown ?L now = Some sc \<and> sc \<in> set ?L \<and>
           (\<forall>a \<in> set ?L. wait_of now sc \<le> wait_of now a) \<and>
           (let cands = filter (\<lambda>a. \<not> truthy (disabled a) \<and> \<not> truthy (quotaExhausted a)
                                     \<and> or0 (errorCount a) < maxErrorCount (config p) + 2) ?L;
                usable = filter (\<lambda>a. \<not> truthy (disabled a) \<and> \<not> truthy (quotaExhausted a)) ?L
            in if truthy_num (cooldownUntil sc) \<and> or0 (cooldownUntil sc) - now < 5000
               then chosen = sc \<and> stored = sc\<lparr>isAvailable := Some True, cooldownUntil := None\<rparr>
               else if cands \<noteq> []
               then chosen \<in> set cands \<and>
                    (\<forall>c \<in> set cands. or0 (errorCount chosen) \<le> or0 (errorCount c)) \<and>
                    stored = chosen\<lparr>isAvailable := Some True,
                               errorCount := Some (max 0 (or0 (errorCount chosen) - 1)),
                               cooldownUntil := None\<rparr>
               else chosen = hd (if usable \<noteq> [] then usable else ?L) \<and>
                    stored = chosen\<lparr>isAvailable := Some True, errorCount := Some 0,
                               cooldownUntil := None\<rparr>))"
    using fc by simp
  show ?thesis using r ch(1) st inf fc' by blast
qed

lemma getNextAccount_single:
  assumes "map snd (accounts p) = [acc]" "\<not> checkAccountAvailability (config p) acc now"
  shows "getNextAccount select now model p =
           (Some acc, acquireAccount now (acc_id acc)
              (set_account (acc\<lparr>isAvailable := Some True,
                   errorCount := Some (max 0 (or0 (errorCount acc) - 1)),
                   cooldownUntil := None\<rparr>) p))"
  using assms by (simp add: getNextAccount_def)



lemmas pool_eval =
  getNextAccount_def checkAutoReset_def checkAccountAvailability_def supportsModel_def
  zeroDowntimeFallback_def getAccountWithShortestCooldown_def wait_of_def
  leastErrors_candidates_def set_account_def acquireAccount_def recordRequestToWindow_def
  getInflight_def or0_def truthy_def truthy_num_def DEFAULT_CONFIG_def Let_def

lemma example_pool_errors_eq:
  "example_pool_errors =
     \<lparr>accounts =
        [(''a'', \<lparr>acc_id = ''a'', subscriptionType = None, expiresAt = None,
            lastUsed = Some 1000, requestCount = Some 0, errorCount = Some 5,
            isAvailable = Some True, cooldownUntil = Some 61000,
            quotaExhausted = Some False, disabled = None\<rparr>),
         (''b'', \<lparr>acc_id = ''b'', subscriptionType = None, expiresAt = None,
            lastUsed = Some 1000, requestCount = Some 0, errorCount = Some 5,
            isAvailable = Some True, cooldownUntil = Some 61000,
            quotaExhausted = Some False, disabled = None\<rparr>)],
      accountStats =
        [(''a'', \<lparr>requests = 0, tokens = 0, inputTokens = 0, outputTokens = 0,
            errors = 5, stats_lastUsed = 1000, avgResponseTime = 0, totalResponseTime = 0\<rparr>),
         (''b'', \<lparr>requests = 0, tokens = 0, inputTokens = 0, outputTokens = 0,
            errors = 5, stats_lastUsed = 1000, avgResponseTime = 0, totalResponseTime = 0\<rparr>)],
      accountHealth =
        [(''a'', \<lparr>score = 0, successRate = 1, health_avgResponseTime = 0,
            recentErrors = 5, lastSuccessTime = 1\<rparr>),
         (''b'', \<lparr>score = 0, successRate = 1, health_avgResponseTime = 0,
            recentErrors = 5, lastSuccessTime = 2\<rparr>)],
      inflightRequests = [(''a'', 0), (''b'', 0)],
      recentRequestWindows = [(''a'', []), (''b'', [])], lastAutoReset = 0,
      config = DEFAULT_CONFIG\<rparr>"
  by (simp add: example_pool_errors_def five_errors_def eval_nat_numeral recordError_def
        releaseAccount_def getInflight_def or0_def truthy_def stats_error_def
        updateHealthOnError_def update_health_def addAccount_def newAccountPool_def
        example_account_def DEFAULT_CONFIG_def Let_def)

text \<open>
  Claim C7, as the code has it.  (1) \<open>getNextAccount\<close> returns null exactly when the pool
  is empty, whatever the state of the credentials.  For a pool \<open>p\<close> whose credentials all
  fail the availability check at time \<open>now\<close>:
  (2) if \<open>p\<close> holds one credential, that credential is returned, its stored copy is made
  available, loses its cooldown and has its error count decremented by one (not below
  zero), and its in-flight counter goes up by one;
  (3) if \<open>p\<close> holds two or more credentials, the returned credential \<open>chosen\<close> is one of
  them, its in-flight counter goes up by one, and with \<open>sc\<close> the credential that
  \<open>getAccountWithShortestCooldown\<close> finds (one with the least remaining wait
  \<open>max 0 (cooldownUntil - now)\<close>, a credential without cooldown waiting 0):
  if \<open>sc\<close> has a cooldown that ends less than 5000 ms from \<open>now\<close>, then \<open>chosen = sc\<close> and
  the stored copy is made available and loses its cooldown;
  else, if some credential is neither disabled nor quota-exhausted and has fewer than
  \<open>maxErrorCount + 2\<close> errors, \<open>chosen\<close> is one of these with the fewest errors, and the
  stored copy is made available, loses its cooldown and has its error count decremented
  by one (not below zero);
  else \<open>chosen\<close> is the first credential that is neither disabled nor quota-exhausted, or
  the first credential of the pool when there is none, and the stored copy is made
  available, loses its cooldown and has error count 0.
\<close>

theorem getNextAccount_zero_downtime:
  assumes "\<forall>a \<in> set (map snd (accounts p)). \<not> checkAccountAvailability (config p) a now"
  shows "(fst (getNextAccount select now model q) = None \<longleftrightarrow> accounts q = []) \<and>
     (\<forall>acc. map snd (accounts p) = [acc] \<longrightarrow>
        (\<exists>p'. getNextAccount select now model p = (Some acc, p') \<and>
              map_of (accounts p') (acc_id acc) =
                Some (acc\<lparr>isAvailable := Some True,
                       errorCount := Some (max 0 (or0 (errorCount acc) - 1)),
                       cooldownUntil := None\<rparr>) \<and>
              getInflight p' (acc_id acc) = getInflight p (acc_id acc) + 1)) \<and>
     (length (accounts p) \<ge> 2 \<longrightarrow>
       (\<exists>chosen stored p'.
         getNextAccount select now model p = (Some chosen, p') \<and>
         chosen \<in> set (map snd (accounts p)) \<and>
         map_of (accounts p') (acc_id chosen) = Some stored \<and>
         getInflight p' (acc_id chosen) = getInflight p (acc_id chosen) + 1 \<and>
         (\<exists>sc. getAccountWithShortestCooldown (map snd (accounts p)) now = Some sc \<and> sc \<in> set (map snd (accounts p)) \<and>
           (\<forall>a \<in> set (map snd (accounts p)). wait_of now sc \<le> wait_of now a) \<and>
           (let cands = filter (\<lambda>a. \<not> truthy (disabled a) \<and> \<not> truthy (quotaExhausted a)
                                     \<and> or0 (errorCount a) < maxErrorCount (config p) + 2) (map snd (accounts p));
                usable = filter (\<lambda>a. \<not> truthy (disabled a) \<and> \<not> truthy (quotaExhausted a)) (map snd (accounts p))
            in if truthy_num (cooldownUntil sc) \<and> or0 (cooldownUntil sc) - now < 5000
               then chosen = sc \<and> stored = sc\<lparr>isAvailable := Some True, cooldownUntil := None\<rparr>
               else if cands \<noteq> []
               then chosen \<in> set cands \<and>
                    (\<forall>c \<in> set cands. or0 (errorCount chosen) \<le> or0 (errorCount c)) \<and>
                    stored = chosen\<lparr>isAvailable := Some True,
                               errorCount := Some (max 0 (or0 (errorCount chosen) - 1)),
                               cooldownUntil := None\<rparr>
               else chosen = hd (if usable \<noteq> [] then usable else (map snd (accounts p))) \<and>
                    stored = chosen\<lparr>isAvailable := Some True, errorCount := Some 0,
                               cooldownUntil := None\<rparr>))))"
proof (intro conjI allI impI)
  show "fst (getNextAccount select now model q) = None \<longleftrightarrow> accounts q = []"
    by (rule getNextAccount_null_iff)
next
  fix acc assume one: "map snd (accounts p) = [acc]"
  then have "\<not> checkAccountAvailability (config p) acc now" using assms by simp
  from getNextAccount_single [OF one this]
  have r: "getNextAccount select now model p =
           (Some acc, acquireAccount now (acc_id acc)
              (set_account (acc\<lparr>isAvailable := Some True,
                   errorCount := Some (max 0 (or0 (errorCount acc) - 1)),
                   cooldownUntil := None\<rparr>) p))" .
  have st: "map_of (accounts (set_account (acc\<lparr>isAvailable := Some True,
                   errorCount := Some (max 0 (or0 (errorCount acc) - 1)),
                   cooldownUntil := None\<rparr>) p)) (acc_id acc) =
            Some (acc\<lparr>isAvailable := Some True,
                   errorCount := Some (max 0 (or0 (errorCount acc) - 1)),
                   cooldownUntil := None\<rparr>)"
    using set_account_stored [of "acc\<lparr>isAvailable := Some True,
                   errorCount := Some (max 0 (or0 (errorCount acc) - 1)),
                   cooldownUntil := None\<rparr>" p] by simp
  have "getInflight (set_account (acc\<lparr>isAvailable := Some True,
                   errorCount := Some (max 0 (or0 (errorCount acc) - 1)),
                   cooldownUntil := None\<rparr>) p) (acc_id acc) = getInflight p (acc_id acc)"
    by (rule getInflight_cong) simp
  then show "\<exists>p'. getNextAccount select now model p = (Some acc, p') \<and>
              map_of (accounts p') (acc_id acc) =
                Some (acc\<lparr>isAvailable := Some True,
                       errorCount := Some (max 0 (or0 (errorCount acc) - 1)),
                       cooldownUntil := None\<rparr>) \<and>
              getInflight p' (acc_id acc) = getInflight p (acc_id acc) + 1"
    using r st by simp
next
  assume "length (accounts p) \<ge> 2"
  with assms show "(\<exists>chosen stored p'.
         getNextAccount select now model p = (Some chosen, p') \<and>
         chosen \<in> set (map snd (accounts p)) \<and>
         map_of (accounts p') (acc_id chosen) = Some stored \<and>
         getInflight p' (acc_id chosen) = getInflight p (acc_id chosen) + 1 \<and>
         (\<exists>sc. getAccountWithShortestCooldown (map snd (accounts p)) now = Some sc \<and> sc \<in> set (map snd (accounts p)) \<and>
           (\<forall>a \<in> set (map snd (accounts p)). wait_of now sc \<le> wait_of now a) \<and>
           (let cands = filter (\<lambda>a. \<not> truthy (disabled a) \<and> \<not> truthy (quotaExhausted a)
                                     \<and> or0 (errorCount a) < maxErrorCount (config p) + 2) (map snd (accounts p));
                usable = filter (\<lambda>a. \<not> truthy (disabled a) \<and> \<not> truthy (quotaExhausted a)) (map snd (accounts p))
            in if truthy_num (cooldownUntil sc) \<and> or0 (cooldownUntil sc) - now < 5000
               then chosen = sc \<and> stored = sc\<lparr>isAvailable := Some True, cooldownUntil := None\<rparr>
               else if cands \<noteq> []
               then chosen \<in> set cands \<and>
                    (\<forall>c \<in> set cands. or0 (errorCount chosen) \<le> or0 (errorCount c)) \<and>
                    stored = chosen\<lparr>isAvailable := Some True,
                               errorCount := Some (max 0 (or0 (errorCount chosen) - 1)),
                               cooldownUntil := None\<rparr>
               else chosen = hd (if usable \<noteq> [] then usable else (map snd (accounts p))) \<and>
                    stored = chosen\<lparr>isAvailable := Some True, errorCount := Some 0,
                               cooldownUntil := None\<rparr>)))"
    by (rule getNextAccount_fallback)
qed

text \<open>
  At time 2000 both credentials of the example pool are in cooldown until 61000 with five
  errors each.  The fallback returns \<open>a\<close> by its second rule and stores it with four
  errors: the error count is decremented, not halved.
\<close>

theorem getNextAccount_zero_downtime_counterexample:
  "list_all (\<lambda>a. \<not> checkAccountAvailability (config example_pool_errors) a 2000)
      (map snd (accounts example_pool_errors)) \<and>
   map_option acc_id (fst (getNextAccount hd 2000 None example_pool_errors)) = Some ''a'' \<and>
   map_option errorCount (map_of (accounts example_pool_errors) ''a'') = Some (Some 5) \<and>
   map_option errorCount
     (map_of (accounts (snd (getNextAccount hd 2000 None example_pool_errors))) ''a'')
       = Some (Some 4) \<and>
   (4::int) \<noteq> 5 div 2"
  by (simp add: example_pool_errors_eq pool_eval)

theorem getNextAccount_zero_downtime_witness:
  "list_all (\<lambda>a. \<not> checkAccountAvailability (config example_pool_errors) a 2000)
      (map snd (accounts example_pool_errors)) \<and>
   length (accounts example_pool_errors) \<ge> 2 \<and>
   fst (getNextAccount hd 2000 None (newAccountPool DEFAULT_CONFIG)) = None \<and>
   (\<exists>chosen stored p'.
         getNextAccount hd 2000 None example_pool_errors = (Some chosen, p') \<and>
         chosen \<in> set (map snd (accounts example_pool_errors)) \<and>
         map_of (accounts p') (acc_id chosen) = Some stored \<and>
         getInflight p' (acc_id chosen) = getInflight example_pool_errors (acc_id chosen) + 1 \<and>
         (\<exists>sc. getAccountWithShortestCooldown (map snd (accounts example_pool_errors)) 2000 = Some sc \<and> sc \<in> set (map snd (accounts example_pool_errors)) \<and>
           (\<forall>a \<in> set (map snd (accounts example_pool_errors)). wait_of 2000 sc \<le> wait_of 2000 a) \<and>
           (let cands = filter (\<lambda>a. \<not> truthy (disabled a) \<and> \<not> truthy (quotaExhausted a)
                                     \<and> or0 (errorCount a) < maxErrorCount (config example_pool_errors) + 2) (map snd (accounts example_pool_errors));
                usable = filter (\<lambda>a. \<not> truthy (disabled a) \<and> \<not> truthy (quotaExhausted a)) (map snd (accounts example_pool_errors))
            in if truthy_num (cooldownUntil sc) \<and> or0 (cooldownUntil sc) - 2000 < 5000
               then chosen = sc \<and> stored = sc\<lparr>isAvailable := Some True, cooldownUntil := None\<rparr>
               else if cands \<noteq> []
               then chosen \<in> set cands \<and>
                    (\<forall>c \<in> set cands. or0 (errorCount chosen) \<le> or0 (errorCount c)) \<and>
                    stored = chosen\<lparr>isAvailable := Some True,
                               errorCount := Some (max 0 (or0 (errorCount chosen) - 1)),
                               cooldownUntil := None\<rparr>
               else chosen = hd (if usable \<noteq> [] then usable else (map snd (accounts example_pool_errors))) \<and>
                    stored = chosen\<lparr>isAvailable := Some True, errorCount := Some 0,
                               cooldownUntil := None\<rparr>)))"
proof -
  have h: "\<forall>a \<in> set (map snd (accounts example_pool_errors)).
       \<not> checkAccountAvailability (config example_pool_errors) a 2000"
    by (simp add: example_pool_errors_eq pool_eval)
  have l: "length (accounts example_pool_errors) \<ge> 2"
    by (simp add: example_pool_errors_eq)
  have e: "accounts (newAccountPool DEFAULT_CONFIG) = []"
    by (simp add: newAccountPool_def)
  have h': "list_all (\<lambda>a. \<not> checkAccountAvailability (config example_pool_errors) a 2000)
      (map snd (accounts example_pool_errors))"
    using h by (simp only: list_all_iff)
  from getNextAccount_zero_downtime [OF h, of hd None "newAccountPool DEFAULT_CONFIG"] l e h'
  show ?thesis by blast
qed

section \<open>Context compressor: the previous summary in the prompt\<close>

lemma batch_loop_prefix:
  "\<exists>ps. snd (batch_loop targetLen_of up batches i summaries prompts) = prompts @ ps"
proof (induction targetLen_of up batches i summaries prompts rule: batch_loop.induct)
  case (1 targetLen_of up batches i summaries prompts)
  show ?case
  proof (cases "i < length batches")
    case True
    from 1 [OF True] obtain ps where
      "snd (batch_loop targetLen_of up batches (i + CONCURRENCY)
             (fold (\<lambda>(j, r) s. s[i + j := snd r])
                (enumerate 0 (round_results targetLen_of up batches i summaries)) summaries)
             (prompts @ map fst (round_results targetLen_of up batches i summaries)))
       = (prompts @ map fst (round_results targetLen_of up batches i summaries)) @ ps" by blast
    then show ?thesis
      using True by (subst batch_loop.simps) simp
  next
    case False
    then show ?thesis by (subst batch_loop.simps) simp
  qed
qed

lemma first_round_second_prompt:
  assumes "length batches \<ge> 2"
  shows "map fst (round_results targetLen_of up batches 0 (replicate (length batches) [])) ! 1 =
           summary_prompt (targetLen_of (length (batchText_of (batches ! 1)))) None (batchText_of (batches ! 1))"
    and "length (round_results targetLen_of up batches 0 (replicate (length batches) [])) \<ge> 2"
proof -
  obtain b0 b1 rest where b: "batches = b0 # b1 # rest"
    using assms by (cases batches; cases "tl batches") auto
  show "map fst (round_results targetLen_of up batches 0 (replicate (length batches) [])) ! 1 =
           summary_prompt (targetLen_of (length (batchText_of (batches ! 1)))) None (batchText_of (batches ! 1))"
    unfolding b
    by (simp add: round_results_def CONCURRENCY_def numeral_3_eq_3 generateBatchSummary_def Let_def
          summary_prompt_def truthy_str_def)
  show "length (round_results targetLen_of up batches 0 (replicate (length batches) [])) \<ge> 2"
    unfolding b by (simp add: round_results_def CONCURRENCY_def numeral_3_eq_3)
qed

text \<open>
  Claim C8 says that the prompt of every batch after the first contains the computed
  summary of the batch before it.  The first round maps over batches 0, 1 and 2 at once
  and the summaries are stored only when the round is over, so the prompt of batch 1 is
  built from the initial, empty entry: whenever there are two batches or more, the second
  prompt is the prompt without any previous context, whatever the upstream answers for
  batch 0.
\<close>

theorem second_prompt_without_context:
  assumes "length batches \<ge> 2"
  shows "snd (summarize_batches targetLen_of upstream batches) ! 1 =
           summary_prompt (targetLen_of (length (batchText_of (batches ! 1)))) None
             (batchText_of (batches ! 1))"
proof -
  let ?r = "round_results targetLen_of upstream batches 0 (replicate (length batches) [])"
  have pos: "0 < length batches" using assms by linarith
  obtain ps where
    "snd (batch_loop targetLen_of upstream batches (0 + CONCURRENCY)
             (fold (\<lambda>(j, r) s. s[0 + j := snd r]) (enumerate 0 ?r) (replicate (length batches) []))
             ([] @ map fst ?r)) = ([] @ map fst ?r) @ ps"
    using batch_loop_prefix by blast
  then have "snd (summarize_batches targetLen_of upstream batches) = map fst ?r @ ps"
    unfolding summarize_batches_def using pos by (subst batch_loop.simps) simp
  moreover have "length (map fst ?r) \<ge> 2"
    using first_round_second_prompt(2) [OF assms] by simp
  ultimately have "snd (summarize_batches targetLen_of upstream batches) ! 1 = map fst ?r ! 1"
    by (simp add: nth_append)
  then show ?thesis using first_round_second_prompt(1) [OF assms] by simp
qed

text \<open>
  Nine messages make two batches.  The upstream answers \<open>S0\<close> for batch 0, and the prompt
  sent for batch 1 contains neither \<^verbatim>\<open>Previous context:\<close> nor \<open>S0\<close>.
\<close>

lemma two_batches_eq: "two_batches = [take 8 nine_messages, drop 8 nine_messages]"
  by (simp add: two_batches_def splitIntoBatches_def nine_messages_def short_message_def
        DEFAULT_COMPRESSOR_CONFIG_def has_tool_use_def extractMessageText_def js_def)

lemma first_summary_S0:
  "fst (summarize_batches example_targetLen example_upstream two_batches) ! 0 = js ''S0''"
  unfolding two_batches_eq summarize_batches_def
  apply (subst batch_loop.simps)
  apply (simp add: CONCURRENCY_def numeral_3_eq_3 round_results_def generateBatchSummary_def Let_def
          example_upstream_def trim_def js_def js_whitespace_def)
  apply (subst batch_loop.simps)
  apply simp
  done

lemmas prompt_eval =
  summary_prompt_def batchText_of_def nine_messages_def short_message_def role_name_def
  extractMessageText_def truthy_str_def example_targetLen_def digits.simps js_def

theorem second_prompt_without_context_witness:
  "length two_batches = 2 \<and>
   fst (summarize_batches example_targetLen example_upstream two_batches) ! 0 = js ''S0'' \<and>
   \<not> str_includes (snd (summarize_batches example_targetLen example_upstream two_batches) ! 1)
       (js ''Previous context:'') \<and>
   \<not> str_includes (snd (summarize_batches example_targetLen example_upstream two_batches) ! 1)
       (js ''S0'')"
proof -
  have l: "length two_batches = 2" by (simp add: two_batches_eq)
  then have l2: "length two_batches \<ge> 2" by simp
  have n1: "\<not> str_includes
              (summary_prompt (example_targetLen (length (batchText_of (two_batches ! 1)))) None
                 (batchText_of (two_batches ! 1))) (js ''Previous context:'')"
    unfolding two_batches_eq by (simp add: prompt_eval)
  have n2: "\<not> str_includes
              (summary_prompt (example_targetLen (length (batchText_of (two_batches ! 1)))) None
                 (batchText_of (two_batches ! 1))) (js ''S0'')"
    unfolding two_batches_eq by (simp add: prompt_eval)
  from second_prompt_without_context [OF l2, of example_targetLen example_upstream]
       l first_summary_S0 n1 n2
  show ?thesis by simp
qed


section \<open>Account pool: recordSuccess\<close>

lemma recordSuccess_accounts:
  "map_of (accounts p) i = Some a \<Longrightarrow>
   map_of (accounts (recordSuccess now i toks rt p)) =
     (map_of (accounts p))(i \<mapsto> a\<lparr>requestCount := Some (or0 (requestCount a) + 1),
        errorCount := Some 0, lastUsed := Some now, isAvailable := Some True, cooldownUntil := None\<rparr>)"
  by (simp add: recordSuccess_def releaseAccount_def Let_def AList.update_conv' split: option.splits)

lemma recordSuccess_keys:
  "map fst (accounts (recordSuccess now i toks rt p)) = map fst (accounts p)"
  by (auto simp add: recordSuccess_def releaseAccount_def Let_def AList.update_keys
        map_of_eq_None_iff split: option.splits)

lemma recordSuccess_inflight:
  "map_of (inflightRequests (recordSuccess now i toks rt p)) =
     (map_of (inflightRequests p))(i \<mapsto> max 0 (getInflight p i - 1))"
  by (simp add: recordSuccess_def releaseAccount_def Let_def AList.update_conv' split: option.splits)

lemma recordSuccess_stats_other:
  "j \<noteq> i \<Longrightarrow> map_of (accountStats (recordSuccess now i toks rt p)) j = map_of (accountStats p) j"
  by (simp add: recordSuccess_def releaseAccount_def Let_def AList.update_conv' split: option.splits)

lemma recordSuccess_health_other:
  "j \<noteq> i \<Longrightarrow> map_of (accountHealth (recordSuccess now i toks rt p)) j = map_of (accountHealth p) j"
  by (simp add: recordSuccess_def releaseAccount_def Let_def AList.update_conv' split: option.splits)

text \<open>
  Claim C9.  After \<open>recordSuccess\<close> on an id that is in the pool, the stored credential has
  \<open>errorCount = 0\<close>, no \<open>cooldownUntil\<close> and \<open>isAvailable = true\<close>; its in-flight counter is
  the old one minus one, but not below zero; the pool holds the same ids in the same
  order; and for every other id the credential, the in-flight counter, the statistics
  and the health record are what they were.
\<close>

theorem recordSuccess_effect:
  assumes "map_of (accounts p) i = Some a"
  shows "(let p' = recordSuccess now i toks rt p in
           (\<exists>a'. map_of (accounts p') i = Some a' \<and> errorCount a' = Some 0 \<and>
                 cooldownUntil a' = None \<and> isAvailable a' = Some True) \<and>
           getInflight p' i = max 0 (getInflight p i - 1) \<and>
           map fst (accounts p') = map fst (accounts p) \<and>
           (\<forall>j. j \<noteq> i \<longrightarrow>
                map_of (accounts p') j = map_of (accounts p) j \<and>
                getInflight p' j = getInflight p j \<and>
                map_of (accountStats p') j = map_of (accountStats p) j \<and>
                map_of (accountHealth p') j = map_of (accountHealth p) j))"
  unfolding Let_def
  using recordSuccess_accounts [OF assms, of now toks rt]
  by (simp add: recordSuccess_keys getInflight_def recordSuccess_inflight or0_def
        recordSuccess_stats_other recordSuccess_health_other)

theorem recordSuccess_effect_witness:
  "map_of (accounts example_pool) ''a'' \<noteq> None \<and>
   getInflight example_pool ''a'' = 1 \<and>
   getInflight (recordSuccess 50 ''a'' 7 40 example_pool) ''a'' = 0 \<and>
   getInflight (recordSuccess 51 ''a'' 7 40 (recordSuccess 50 ''a'' 7 40 example_pool)) ''a'' = 0 \<and>
   map_of (accounts (recordSuccess 50 ''a'' 7 40 example_pool)) ''b''
     = map_of (accounts example_pool) ''b''"
  using recordSuccess_effect [of example_pool "''a''" _ 50 7 40]
        recordSuccess_effect [of "recordSuccess 50 ''a'' 7 40 example_pool" "''a''" _ 51 7 40]
  by (simp add: example_pool_def example_account_def acquireAccount_def addAccount_def
        newAccountPool_def DEFAULT_CONFIG_def recordRequestToWindow_def getInflight_def
        or0_def Let_def recordSuccess_def releaseAccount_def)


section \<open>Kiro to OpenAI response: properties\<close>

text \<open>
  Claim C10.  The response has exactly one choice.  With at least one tool use its
  \<open>message.content\<close> is null, whatever the accumulated text, and \<open>finish_reason\<close> is
  \<open>tool_calls\<close>; with no tool use \<open>message.content\<close> is the accumulated text and
  \<open>finish_reason\<close> is \<open>stop\<close>.  In both cases \<open>usage.total_tokens\<close> is
  \<open>prompt_tokens + completion_tokens\<close>.
\<close>

theorem kiroToOpenaiResponse_content:
  "(let r = kiroToOpenaiResponse stringify uuid now content toolUses usage model;
        c = hd (resp_choices r)
    in resp_choices r = [c] \<and>
       rm_content (ch_message c) = (if toolUses = [] then Some content else None) \<and>
       ch_finish_reason c = (if toolUses = [] then Some Stop else Some Tool_calls) \<and>
       total_tokens (resp_usage r) = prompt_tokens (resp_usage r) + completion_tokens (resp_usage r))"
  by (simp add: kiroToOpenaiResponse_def Let_def)


end
